theory Spec2Isabelle
  imports Complex_Main
begin

section \<open>Python values, exceptions and exit codes\<close>

text \<open>
  The work chains are Python classes driven by the AiiDA engine: the engine calls the steps of
  the outline in order, a step that returns an exit code stops the work chain with that code, and
  an exception raised by a step stops it as excepted. Both are values of \<open>failure\<close> here.
\<close>

datatype py_exception =
    KeyError string
  | IndexError
  | ZeroDivisionError
  | AttributeError string
  | UnboundLocalError string
  | TypeError
  | OverflowError

datatype exit_code =
    ERROR_MISSING_INITIAL_SETTINGS
  | ERROR_NO_MORE_SETTINGS
  | ERROR_PARSING_OUTPUT

fun exit_status :: "exit_code \<Rightarrow> nat" where
  "exit_status ERROR_MISSING_INITIAL_SETTINGS = 901"
| "exit_status ERROR_NO_MORE_SETTINGS = 902"
| "exit_status ERROR_PARSING_OUTPUT = 903"

datatype failure = Exit exit_code | Raised py_exception

text \<open>Decimal formatting of a non-negative integer, as \<^verbatim>\<open>'{}'.format(n)\<close> prints it.\<close>

fun str_of_nat :: "nat \<Rightarrow> string" where
  "str_of_nat n =
     (if n < 10 then [''0123456789'' ! n]
      else str_of_nat (n div 10) @ [''0123456789'' ! (n mod 10)])"

declare str_of_nat.simps [simp del]

definition settings_tag_of :: "nat \<Rightarrow> string" where
  \<comment> \<open>\<^verbatim>\<open>'settings_{}'.format(idx)\<close>\<close>
  "settings_tag_of idx = ''settings_'' @ str_of_nat idx"

section \<open>Binding-energy work chain (cp2k_binding_energy.py)\<close>

text \<open>
  A settings profile is a nested dictionary whose content no step below inspects, so its type is
  the parameter \<open>'p\<close>. The helpers imported from other modules (\<^verbatim>\<open>dict_merge\<close>,
  \<^verbatim>\<open>ot_has_small_bandgap\<close>, \<^verbatim>\<open>get_initial_magnetization\<close>, \<^verbatim>\<open>get_bsse_section\<close>) and the
  external CP2K jobs are parameters, collected in \<open>be_env\<close>. The protocol is the dictionary
  that \<^verbatim>\<open>load_isotherm_protocol\<close> returned, after \<^verbatim>\<open>protocol_modify\<close> was merged into it.
\<close>

record 'o cp2k_output =
  scf_converged :: "bool list"  \<comment> \<open>\<^verbatim>\<open>['motion_step_info']['scf_converged']\<close>\<close>
  observables :: 'o  \<comment> \<open>band gaps, energies and the other parsed values\<close>

record 'o stage_outputs =
  output_parameters :: "'o cp2k_output option"  \<comment> \<open>absent when the parser produced nothing\<close>

record ('p, 'o) be_env =
  dict_merge :: "'p \<Rightarrow> 'p \<Rightarrow> 'p"
  ot_has_small_bandgap :: "'p \<Rightarrow> 'o cp2k_output \<Rightarrow> 'p \<Rightarrow> bool"
  magnetization_param :: 'p
  geo_opt_param :: 'p
  bsse_param :: "'p \<Rightarrow> 'p"
  runner :: "nat \<Rightarrow> string \<Rightarrow> 'p \<Rightarrow> 'o stage_outputs"
    \<comment> \<open>outputs of the n-th submitted job, given its label and its parameters\<close>

record 'p be_inputs =
  protocol_in :: "string \<rightharpoonup> 'p"
  starting_settings_idx :: int
  custom_parameters :: "'p option"  \<comment> \<open>\<^verbatim>\<open>cp2k_base.cp2k.parameters\<close>\<close>

record ('p, 'o) be_ctx =
  protocol :: "string \<rightharpoonup> 'p"
  settings_ok :: bool
  settings_idx :: nat
  settings_tag :: string
  stage_tag :: "string option"  \<comment> \<open>\<^verbatim>\<open>self.ctx.stage_tag\<close>: no step of this work chain assigns it\<close>
  cp2k_param :: 'p
  stages :: "(string \<times> 'o stage_outputs) list"  \<comment> \<open>submitted jobs: label and outputs\<close>
  discarded :: "string list"  \<comment> \<open>labels given to discarded outputs\<close>

text \<open>
  The loop of \<^verbatim>\<open>setup\<close> that merges \<^verbatim>\<open>settings_1 .. settings_{starting_settings_idx}\<close>
  into the parameters.
\<close>

function setup_loop ::
  "('p, 'o) be_env \<Rightarrow> int \<Rightarrow> ('p, 'o) be_ctx \<Rightarrow> failure + ('p, 'o) be_ctx" where
  "setup_loop env start ctx =
     (if start > int (settings_idx ctx) then
        (let idx = settings_idx ctx + 1;
             tag = settings_tag_of idx;
             ctx1 = ctx\<lparr>settings_idx := idx, settings_tag := tag\<rparr>
         in case protocol ctx1 tag of
              Some prof \<Rightarrow>
                setup_loop env start (ctx1\<lparr>cp2k_param := dict_merge env (cp2k_param ctx1) prof\<rparr>)
            | None \<Rightarrow> Inl (Exit ERROR_MISSING_INITIAL_SETTINGS))
      else Inr ctx)"
  by pat_completeness auto
termination
  by (relation "measure (\<lambda>(env, start, ctx). nat (start - int (settings_idx ctx)))") auto

declare setup_loop.simps [simp del]

definition be_setup :: "('p, 'o) be_env \<Rightarrow> 'p be_inputs \<Rightarrow> failure + ('p, 'o) be_ctx" where
  "be_setup env inp =
     (case protocol_in inp ''settings_0'' of
        None \<Rightarrow> Inl (Raised (KeyError ''settings_0''))
      | Some prof0 \<Rightarrow>
          (case setup_loop env (starting_settings_idx inp)
                  \<lparr>protocol = protocol_in inp, settings_ok = False, settings_idx = 0,
                   settings_tag = settings_tag_of 0, stage_tag = None, cp2k_param = prof0,
                   stages = [], discarded = []\<rparr> of
             Inl e \<Rightarrow> Inl e
           | Inr ctx \<Rightarrow>
               Inr (ctx\<lparr>cp2k_param :=
                      dict_merge env (dict_merge env (cp2k_param ctx) (magnetization_param env))
                        (geo_opt_param env)\<rparr>)))"

definition should_run_geo_opt :: "('p, 'o) be_ctx \<Rightarrow> bool" where
  "should_run_geo_opt ctx = (\<not> settings_ok ctx)"

definition submit ::
  "('p, 'o) be_env \<Rightarrow> string \<Rightarrow> ('p, 'o) be_ctx \<Rightarrow> ('p, 'o) be_ctx" where
  \<comment> \<open>\<^verbatim>\<open>self.submit(...)\<close> followed by \<^verbatim>\<open>ToContext(stages=append_(running_base))\<close>\<close>
  "submit env label ctx =
     ctx\<lparr>stages := stages ctx @ [(label, runner env (length (stages ctx)) label (cp2k_param ctx))]\<rparr>"

definition merge_custom :: "('p, 'o) be_env \<Rightarrow> 'p be_inputs \<Rightarrow> ('p, 'o) be_ctx \<Rightarrow> ('p, 'o) be_ctx" where
  "merge_custom env inp ctx =
     (case custom_parameters inp of
        None \<Rightarrow> ctx
      | Some cust \<Rightarrow> ctx\<lparr>cp2k_param := dict_merge env (cp2k_param ctx) cust\<rparr>)"

definition run_geo_opt ::
  "('p, 'o) be_env \<Rightarrow> 'p be_inputs \<Rightarrow> ('p, 'o) be_ctx \<Rightarrow> ('p, 'o) be_ctx" where
  "run_geo_opt env inp ctx = submit env ''geo_opt_molecule'' (merge_custom env inp ctx)"

definition inspect_and_update_settings_geo_opt ::
  "('p, 'o) be_env \<Rightarrow> ('p, 'o) be_ctx \<Rightarrow> failure + ('p, 'o) be_ctx" where
  "inspect_and_update_settings_geo_opt env ctx0 =
     (let ctx = ctx0\<lparr>settings_ok := True\<rparr> in
      if stages ctx = [] then Inl (Raised IndexError) else
      case output_parameters (snd (last (stages ctx))) of
        None \<Rightarrow> Inl (Exit ERROR_PARSING_OUTPUT)
      | Some cp2k_out \<Rightarrow>
          if scf_converged cp2k_out = [] then Inl (Raised IndexError) else
          case (if \<not> last (scf_converged cp2k_out)
                then Inr (ctx\<lparr>settings_ok := False, settings_idx := settings_idx ctx + 1\<rparr>)
                else case protocol ctx ''bandgap_thr_ev'' of
                       None \<Rightarrow> Inl (Raised (KeyError ''bandgap_thr_ev''))
                     | Some bandgap_thr_ev \<Rightarrow>
                         if ot_has_small_bandgap env (cp2k_param ctx) cp2k_out bandgap_thr_ev
                         then Inr (ctx\<lparr>settings_ok := False, settings_idx := settings_idx ctx + 1\<rparr>)
                         else Inr ctx) of
            Inl e \<Rightarrow> Inl e
          | Inr ctx1 \<Rightarrow>
              if \<not> settings_ok ctx1 then
                (case stage_tag ctx1 of
                   None \<Rightarrow> Inl (Raised (AttributeError ''stage_tag''))
                 | Some st \<Rightarrow>
                     (let ctx2 = ctx1\<lparr>discarded := discarded ctx1 @
                                        [st @ ''_'' @ settings_tag ctx1 @ ''_discard'']\<rparr>;
                          next_settings_tag = settings_tag_of (settings_idx ctx2)
                      in case protocol ctx2 next_settings_tag of
                           Some prof \<Rightarrow>
                             Inr (ctx2\<lparr>settings_tag := next_settings_tag,
                                       cp2k_param := dict_merge env (cp2k_param ctx2) prof\<rparr>)
                         | None \<Rightarrow> Inl (Exit ERROR_NO_MORE_SETTINGS)))
              else Inr ctx1)"

text \<open>
  How a run of the work chain ends: it finishes with its last context, or it stops with a
  failure; \<open>Stopped\<close> keeps the jobs submitted up to that point.
\<close>

datatype ('p, 'o) be_result =
    Finished "('p, 'o) be_ctx"
  | Stopped failure "(string \<times> 'o stage_outputs) list"

text \<open>
  The outline's \<^verbatim>\<open>while_(should_run_geo_opt)(run_geo_opt, inspect_and_update_settings_geo_opt)\<close>.
  Nothing in the loop itself bounds the number of rounds, so not returning is the value \<open>None\<close>.
\<close>

partial_function (option) geo_opt_loop ::
  "('p, 'o) be_env \<Rightarrow> 'p be_inputs \<Rightarrow> ('p, 'o) be_ctx \<Rightarrow> ('p, 'o) be_result option" where
  "geo_opt_loop env inp ctx =
     (if should_run_geo_opt ctx then
        (case inspect_and_update_settings_geo_opt env (run_geo_opt env inp ctx) of
           Inl e \<Rightarrow> Some (Stopped e (stages (run_geo_opt env inp ctx)))
         | Inr ctx' \<Rightarrow> geo_opt_loop env inp ctx')
      else Some (Finished ctx))"

definition run_bsse ::
  "('p, 'o) be_env \<Rightarrow> 'p be_inputs \<Rightarrow> ('p, 'o) be_ctx \<Rightarrow> ('p, 'o) be_ctx" where
  "run_bsse env inp ctx =
     submit env ''bsse''
       (merge_custom env inp (ctx\<lparr>cp2k_param := dict_merge env (cp2k_param ctx) (bsse_param env (cp2k_param ctx))\<rparr>))"

definition binding_energy_workchain ::
  "('p, 'o) be_env \<Rightarrow> 'p be_inputs \<Rightarrow> ('p, 'o) be_result option" where
  \<comment> \<open>the outline: setup, the geometry loop, run_bsse (results only reads the context)\<close>
  "binding_energy_workchain env inp =
     (case be_setup env inp of
        Inl e \<Rightarrow> Some (Stopped e [])
      | Inr ctx \<Rightarrow>
          (case geo_opt_loop env inp ctx of
             None \<Rightarrow> None
           | Some (Stopped e js) \<Rightarrow> Some (Stopped e js)
           | Some (Finished ctx') \<Rightarrow> Some (Finished (run_bsse env inp ctx'))))"

section \<open>Isotherm work chain (isotherm.py)\<close>

text \<open>
  Dictionaries whose keys the code copies wholesale (the Zeo++ output, the geometric dictionary,
  the output record) are maps from keys to Python values. A number is a finite Python float,
  taken as the real number it denotes, so comparisons are exact; arithmetic is not, see below.
\<close>

datatype pyval =
    PNone
  | PBool bool
  | PNum real
  | PStr string
  | PList "pyval list"
  | PDict "(string \<times> pyval) list"

type_synonym pydict = "string \<rightharpoonup> pyval"

fun truthy :: "pyval \<Rightarrow> bool" where
  "truthy PNone = False"
| "truthy (PBool b) = b"
| "truthy (PNum x) = (x \<noteq> 0)"
| "truthy (PStr s) = (s \<noteq> [])"
| "truthy (PList xs) = (xs \<noteq> [])"
| "truthy (PDict kvs) = (kvs \<noteq> [])"

definition get_item :: "pydict \<Rightarrow> string \<Rightarrow> py_exception + pyval" where
  \<comment> \<open>\<^verbatim>\<open>d[k]\<close>\<close>
  "get_item d k = (case d k of None \<Rightarrow> Inl (KeyError k) | Some v \<Rightarrow> Inr v)"

definition get_num :: "pydict \<Rightarrow> string \<Rightarrow> py_exception + real" where
  \<comment> \<open>\<^verbatim>\<open>d[k]\<close> used as a number (compared with 0, multiplied, formatted as a float)\<close>
  "get_num d k =
     (case d k of
        None \<Rightarrow> Inl (KeyError k)
      | Some (PNum x) \<Rightarrow> Inr x
      | Some (PBool b) \<Rightarrow> Inr (if b then 1 else 0)
      | Some _ \<Rightarrow> Inl TypeError)"

definition sbind :: "'e + 'a \<Rightarrow> ('a \<Rightarrow> 'e + 'b) \<Rightarrow> 'e + 'b" where
  \<comment> \<open>sequencing: the first exception raised ends the computation\<close>
  "sbind m f = (case m of Inl e \<Rightarrow> Inl e | Inr x \<Rightarrow> f x)"

subsection \<open>Floating-point arithmetic\<close>

text \<open>
  Every arithmetic operation of Python on floats rounds its result. The operations are the fields
  of \<open>arith\<close>, and every function below that computes takes them as its first argument, so
  that what is proved holds for the arithmetic of the interpreter, whatever it rounds to.
  \<open>fsquare\<close> is \<^verbatim>\<open>x ** 2\<close>, which raises \<^verbatim>\<open>OverflowError\<close> where the other operations return
  an infinity; \<open>fsum\<close> is the built-in \<^verbatim>\<open>sum\<close>; \<open>fliteral\<close> reads a decimal literal. Division
  by zero raises before \<open>fdiv\<close> is used.
\<close>

record arith =
  fliteral :: "real \<Rightarrow> real"
  fadd :: "real \<Rightarrow> real \<Rightarrow> real"
  fsub :: "real \<Rightarrow> real \<Rightarrow> real"
  fmul :: "real \<Rightarrow> real \<Rightarrow> real"
  fdiv :: "real \<Rightarrow> real \<Rightarrow> real"
  fsquare :: "real \<Rightarrow> py_exception + real"
  fsum :: "real list \<Rightarrow> real"

text \<open>
  The arithmetic of IEEE 754 binary64, which is Python's float: a result is rounded to the
  nearest number with 53 significant bits (down to the subnormal spacing \<open>2\<^sup>-\<^sup>1\<^sup>0\<^sup>7\<^sup>4\<close>), ties to
  the even one. \<open>bexp x\<close> is the binary exponent of a positive \<open>x\<close>. Results beyond the largest
  double, which Python holds as infinities, are left as they round: only \<^verbatim>\<open>**\<close> raises there.
  The built-in \<^verbatim>\<open>sum\<close> adds from left to right, starting from 0, rounding after each addition
  (CPython up to version 3.11; later versions compensate the rounding errors of the additions).
\<close>

definition pow2 :: "int \<Rightarrow> real" where
  "pow2 k = (if 0 \<le> k then 2 ^ nat k else 1 / 2 ^ nat (- k))"

function bexp_up :: "real \<Rightarrow> int" where
  "bexp_up x = (if x < 2 then 0 else bexp_up (x / 2) + 1)"
  by pat_completeness auto
termination
proof (relation "measure (\<lambda>x. nat \<lfloor>x\<rfloor>)")
  show "wf (measure (\<lambda>x. nat \<lfloor>x\<rfloor>))" by simp
next
  fix x :: real
  assume "\<not> x < 2"
  then have "\<lfloor>x / 2\<rfloor> < \<lfloor>x\<rfloor>" "0 < \<lfloor>x\<rfloor>" by linarith+
  then show "(x / 2, x) \<in> measure (\<lambda>x. nat \<lfloor>x\<rfloor>)" by simp
qed

function bexp_down :: "real \<Rightarrow> int" where
  "bexp_down x = (if x \<le> 0 \<or> 1 \<le> x then 0 else bexp_down (2 * x) - 1)"
  by pat_completeness auto
termination
proof (relation "measure (\<lambda>x. nat \<lceil>1 / x\<rceil>)")
  show "wf (measure (\<lambda>x. nat \<lceil>1 / x\<rceil>))" by simp
next
  fix x :: real
  assume "\<not> (x \<le> 0 \<or> 1 \<le> x)"
  then have x: "0 < x" "x < 1" by simp_all
  define y where "y = 1 / x"
  have y: "1 < y" using x by (simp add: y_def)
  have h: "1 / (2 * x) = y / 2" by (simp add: y_def)
  have c2: "2 \<le> \<lceil>y\<rceil>" using y by linarith
  have "y \<le> of_int \<lceil>y\<rceil>" by (rule le_of_int_ceiling)
  moreover from c2 have "2 \<le> real_of_int \<lceil>y\<rceil>" by linarith
  ultimately have "y / 2 \<le> real_of_int \<lceil>y\<rceil> - 1" by linarith
  then have "y / 2 \<le> of_int (\<lceil>y\<rceil> - 1)" by simp
  then have "\<lceil>y / 2\<rceil> \<le> \<lceil>y\<rceil> - 1" by (rule ceiling_le)
  with c2 have "\<lceil>y / 2\<rceil> < \<lceil>y\<rceil>" "0 < \<lceil>y\<rceil>" by simp_all
  then show "(2 * x, x) \<in> measure (\<lambda>x. nat \<lceil>1 / x\<rceil>)"
    unfolding in_measure h by (simp add: y_def)
qed

declare bexp_up.simps [simp del]

declare bexp_down.simps [simp del]

definition bexp :: "real \<Rightarrow> int" where
  "bexp x = (if 1 \<le> x then bexp_up x else bexp_down x)"

definition round_half_even :: "real \<Rightarrow> int" where
  "round_half_even x =
     (let f = \<lfloor>x\<rfloor>; r = x - of_int f
      in if r < 1 / 2 then f else if 1 / 2 < r then f + 1 else if even f then f else f + 1)"

definition round64 :: "real \<Rightarrow> real" where
  "round64 x =
     (if x = 0 then 0
      else (let ulp = pow2 (max (bexp \<bar>x\<bar>) (- 1022) - 52)
            in sgn x * of_int (round_half_even (\<bar>x\<bar> / ulp)) * ulp))"

definition max_double :: real where
  "max_double = 2 ^ 1024 - 2 ^ 971"

definition binary64 :: arith where
  "binary64 =
     \<lparr>fliteral = round64,
      fadd = (\<lambda>a b. round64 (a + b)),
      fsub = (\<lambda>a b. round64 (a - b)),
      fmul = (\<lambda>a b. round64 (a * b)),
      fdiv = (\<lambda>a b. round64 (a / b)),
      fsquare = (\<lambda>a. if max_double < round64 (a * a) then Inl OverflowError
                      else Inr (round64 (a * a))),
      fsum = foldl (\<lambda>acc x. round64 (acc + x)) 0\<rparr>"

subsection \<open>Inputs and outputs of the jobs\<close>

record iso_parameters =
  raspa_verbosity :: int
  raspa_minKh :: real
  temperature :: real
  temperature_list :: "real list option"
  pressure_min :: real
  pressure_max :: real
  pressure_maxstep :: real
  pressure_precision :: real
  pressure_list :: "real list option"

record molecule =
  mol_name :: string
  molsatdens :: real

record raspa_component =
  henry_coefficient_average :: real
  henry_coefficient_dev :: real
  henry_coefficient_unit :: string
  adsorption_energy_widom_average :: real
  adsorption_energy_widom_dev :: real
  adsorption_energy_widom_unit :: string
  loading_absolute_average :: real
  loading_absolute_dev :: real
  conversion_factor_molec_uc_to_cm3stp_cm3 :: real
  conversion_factor_molec_uc_to_mg_g :: real
  conversion_factor_molec_uc_to_mol_kg :: real

record raspa_general =
  enthalpy_of_adsorption_average :: "real option"
  enthalpy_of_adsorption_dev :: "real option"

record raspa_system =
  components :: "(string \<times> raspa_component) list"  \<comment> \<open>in the order of the dictionary\<close>
  general :: raspa_general

definition first_component :: "raspa_system \<Rightarrow> py_exception + raspa_component" where
  \<comment> \<open>\<^verbatim>\<open>list(out['components'].values())[0]\<close>\<close>
  "first_component out =
     (case components out of [] \<Rightarrow> Inl IndexError | (name, mol) # rest \<Rightarrow> Inr mol)"

subsection \<open>The adaptive choice of pressure points\<close>

text \<open>
  The \<^verbatim>\<open>while True\<close> loop of \<^verbatim>\<open>choose_pressure_points\<close>. It ends only when a new point
  exceeds \<^verbatim>\<open>pressure_max\<close>; not returning is the value \<open>None\<close>.
\<close>

definition next_pressure ::
  "arith \<Rightarrow> iso_parameters \<Rightarrow> real \<Rightarrow> real \<Rightarrow> py_exception + real" where
  \<comment> \<open>\<^verbatim>\<open>pnew\<close>, as one round of the loop computes it from \<^verbatim>\<open>pold\<close>\<close>
  "next_pressure ar inp_param b_value pold =
     sbind (fsquare ar pold) (\<lambda>pold_squared.
       if b_value = 0 then Inl ZeroDivisionError
       else
         (let delta_p = min (pressure_maxstep inp_param)
                          (fmul ar (pressure_precision inp_param)
                             (fadd ar
                                (fadd ar (fmul ar b_value pold_squared) (fmul ar 2 pold))
                                (fdiv ar 1 b_value)))
          in Inr (fadd ar pold delta_p)))"

partial_function (option) pressure_loop ::
  "arith \<Rightarrow> iso_parameters \<Rightarrow> real \<Rightarrow> real list \<Rightarrow> (py_exception + real list) option" where
  "pressure_loop ar inp_param b_value pressure_points =
     (if pressure_points = [] then Some (Inl IndexError)
      else
        (case next_pressure ar inp_param b_value (last pressure_points) of
           Inl e \<Rightarrow> Some (Inl e)
         | Inr pnew \<Rightarrow>
             if pnew \<le> pressure_max inp_param
             then pressure_loop ar inp_param b_value (pressure_points @ [pnew])
             else Some (Inr (pressure_points @ [pressure_max inp_param]))))"

definition choose_pressure_points ::
  "arith \<Rightarrow> iso_parameters \<Rightarrow> pydict \<Rightarrow> raspa_system \<Rightarrow>
   (py_exception + real list) option" where
  "choose_pressure_points ar inp_param geom raspa_widom_out =
     (case pressure_list inp_param of
        Some pressure_points \<Rightarrow> Some (Inr pressure_points)
      | None \<Rightarrow>
          (case first_component raspa_widom_out of
             Inl e \<Rightarrow> Some (Inl e)
           | Inr mol \<Rightarrow>
               (case get_num geom ''Estimated_saturation_loading'' of
                  Inl e \<Rightarrow> Some (Inl e)
                | Inr qsat \<Rightarrow>
                    if qsat = 0 then Some (Inl ZeroDivisionError)
                    else pressure_loop ar inp_param
                           (fmul ar (fdiv ar (henry_coefficient_average mol) qsat) 100000)
                           [pressure_min inp_param])))"

subsection \<open>Merging the results\<close>

definition get_geometric_dict ::
  "arith \<Rightarrow> pydict \<Rightarrow> molecule \<Rightarrow> py_exception + pydict" where
  "get_geometric_dict ar zeopp_out mol =
     sbind (get_num zeopp_out ''POAV_cm^3/g'') (\<lambda>poav_cm3_g.
     sbind (get_num zeopp_out ''POAV_A^3'') (\<lambda>poav_a3.
       Inr (zeopp_out(
         ''Estimated_saturation_loading'' \<mapsto> PNum (fmul ar poav_cm3_g (molsatdens mol)),
         ''Estimated_saturation_loading_unit'' \<mapsto> PStr ''mol/kg'',
         ''is_porous'' \<mapsto> PBool (poav_a3 > 0)))))"

definition gcmc_label :: "nat \<Rightarrow> string" where
  \<comment> \<open>\<^verbatim>\<open>'RaspaGCMC_{}'.format(n)\<close>\<close>
  "gcmc_label n = ''RaspaGCMC_'' @ str_of_nat n"

record isotherm_lists =
  rows_loading_absolute_average :: "pyval list"
  rows_loading_absolute_dev :: "pyval list"
  rows_enthalpy_of_adsorption_average :: "pyval list"
  rows_enthalpy_of_adsorption_dev :: "pyval list"
  last_gcmc_out_mol :: "raspa_component option"  \<comment> \<open>the loop variable \<^verbatim>\<open>gcmc_out_mol\<close>\<close>

definition enthalpy_entry :: "arith \<Rightarrow> real option \<Rightarrow> pyval" where
  \<comment> \<open>\<^verbatim>\<open>conv_ener * value\<close> if the value is truthy, else \<^verbatim>\<open>None\<close>; \<^verbatim>\<open>conv_ener = 1.0 / 120.273\<close>\<close>
  "enthalpy_entry ar h =
     (case h of
        None \<Rightarrow> PNone
      | Some x \<Rightarrow>
          if x \<noteq> 0 then PNum (fmul ar (fdiv ar 1 (fliteral ar 120.273)) x) else PNone)"

fun isotherm_rows ::
  "arith \<Rightarrow> (string \<rightharpoonup> raspa_system) \<Rightarrow> nat list \<Rightarrow> isotherm_lists \<Rightarrow>
   py_exception + isotherm_lists" where
  "isotherm_rows ar gcmc_out_dict [] acc = Inr acc"
| "isotherm_rows ar gcmc_out_dict (i # rest) acc =
     (case gcmc_out_dict (gcmc_label (i + 1)) of
        None \<Rightarrow> Inl (KeyError (gcmc_label (i + 1)))
      | Some gcmc_out \<Rightarrow>
          (case first_component gcmc_out of
             Inl e \<Rightarrow> Inl e
           | Inr gcmc_out_mol \<Rightarrow>
               (let conv_load = conversion_factor_molec_uc_to_mol_kg gcmc_out_mol in
                isotherm_rows ar gcmc_out_dict rest
                  \<lparr>rows_loading_absolute_average = rows_loading_absolute_average acc @
                     [PNum (fmul ar conv_load (loading_absolute_average gcmc_out_mol))],
                   rows_loading_absolute_dev = rows_loading_absolute_dev acc @
                     [PNum (fmul ar conv_load (loading_absolute_dev gcmc_out_mol))],
                   rows_enthalpy_of_adsorption_average = rows_enthalpy_of_adsorption_average acc @
                     [enthalpy_entry ar (enthalpy_of_adsorption_average (general gcmc_out))],
                   rows_enthalpy_of_adsorption_dev = rows_enthalpy_of_adsorption_dev acc @
                     [enthalpy_entry ar (enthalpy_of_adsorption_dev (general gcmc_out))],
                   last_gcmc_out_mol = Some gcmc_out_mol\<rparr>)))"

definition isotherm_block ::
  "arith \<Rightarrow> real list \<Rightarrow> (string \<rightharpoonup> raspa_system) \<Rightarrow> pydict \<Rightarrow> py_exception + pydict" where
  \<comment> \<open>the branch \<^verbatim>\<open>if out_dict['is_kh_enough']\<close> of \<^verbatim>\<open>get_output_parameters\<close>\<close>
  "isotherm_block ar ps gcmc_out_dict out_dict =
     sbind (isotherm_rows ar gcmc_out_dict [0..<length ps]
              \<lparr>rows_loading_absolute_average = [], rows_loading_absolute_dev = [],
               rows_enthalpy_of_adsorption_average = [], rows_enthalpy_of_adsorption_dev = [],
               last_gcmc_out_mol = None\<rparr>) (\<lambda>rows.
       case last_gcmc_out_mol rows of
         None \<Rightarrow> Inl (UnboundLocalError ''gcmc_out_mol'')
       | Some gcmc_out_mol \<Rightarrow>
           Inr (out_dict(
             ''isotherm'' \<mapsto> PDict
                [(''pressure'', PList (map PNum ps)),
                 (''pressure_unit'', PStr ''bar''),
                 (''loading_absolute_average'', PList (rows_loading_absolute_average rows)),
                 (''loading_absolute_dev'', PList (rows_loading_absolute_dev rows)),
                 (''loading_absolute_unit'', PStr ''mol/kg''),
                 (''enthalpy_of_adsorption_average'', PList (rows_enthalpy_of_adsorption_average rows)),
                 (''enthalpy_of_adsorption_dev'', PList (rows_enthalpy_of_adsorption_dev rows)),
                 (''enthalpy_of_adsorption_unit'', PStr ''kJ/mol'')],
             ''conversion_factor_molec_uc_to_cm3stp_cm3'' \<mapsto>
                PNum (conversion_factor_molec_uc_to_cm3stp_cm3 gcmc_out_mol),
             ''conversion_factor_molec_uc_to_mg_g'' \<mapsto>
                PNum (conversion_factor_molec_uc_to_mg_g gcmc_out_mol),
             ''conversion_factor_molec_uc_to_mol_kg'' \<mapsto>
                PNum (conversion_factor_molec_uc_to_mol_kg gcmc_out_mol))))"

definition get_output_parameters ::
  "arith \<Rightarrow> pydict \<Rightarrow> iso_parameters \<Rightarrow> raspa_system option \<Rightarrow> real list option \<Rightarrow>
   (string \<rightharpoonup> raspa_system) \<Rightarrow> py_exception + pydict" where
  "get_output_parameters ar geom_out inp_params widom_out ps gcmc_out_dict =
     sbind (get_item geom_out ''is_porous'') (\<lambda>is_porous.
       case widom_out of
         Some widom \<Rightarrow>
           if truthy is_porous then
             sbind (first_component widom) (\<lambda>widom_out_mol.
               (let is_kh_enough = henry_coefficient_average widom_out_mol > raspa_minKh inp_params;
                    out_dict = geom_out(
                      ''temperature'' \<mapsto> PNum (temperature inp_params),
                      ''temperature_unit'' \<mapsto> PStr ''K'',
                      ''is_kh_enough'' \<mapsto> PBool is_kh_enough,
                      ''henry_coefficient_average'' \<mapsto> PNum (henry_coefficient_average widom_out_mol),
                      ''henry_coefficient_dev'' \<mapsto> PNum (henry_coefficient_dev widom_out_mol),
                      ''henry_coefficient_unit'' \<mapsto> PStr (henry_coefficient_unit widom_out_mol),
                      ''adsorption_energy_widom_average'' \<mapsto>
                         PNum (adsorption_energy_widom_average widom_out_mol),
                      ''adsorption_energy_widom_dev'' \<mapsto>
                         PNum (adsorption_energy_widom_dev widom_out_mol),
                      ''adsorption_energy_widom_unit'' \<mapsto>
                         PStr (adsorption_energy_widom_unit widom_out_mol))
                in if is_kh_enough then
                     (case ps of
                        None \<Rightarrow> Inl TypeError
                      | Some pressures \<Rightarrow> isotherm_block ar pressures gcmc_out_dict out_dict)
                   else Inr out_dict))
           else Inr geom_out
       | None \<Rightarrow> Inr geom_out)"

subsection \<open>The steps of the outline\<close>

text \<open>
  The inputs are the validated parameters, the molecule and, when the multi-temperature work
  chain calls this one, the geometric dictionary. The external jobs are given by their outputs:
  \<open>iso_world\<close> holds what the Zeo++ job, the Widom job and the GCMC job number \<open>i\<close> (at a given
  pressure) return. A context attribute that has not been assigned is \<open>None\<close>, and reading it
  raises \<^verbatim>\<open>AttributeError\<close>.
\<close>

datatype multitemp = run_single_temp | run_geom_only

record zeopp_calc =
  zeopp_output_parameters :: pydict
  block :: string

record iso_inputs =
  parameters :: iso_parameters
  iso_molecule :: molecule
  geometric :: "pydict option"

record iso_world =
  zeopp_job :: zeopp_calc
  widom_job :: raspa_system
  gcmc_job :: "nat \<Rightarrow> real \<Rightarrow> raspa_system"

record iso_ctx =
  multitemp_mode :: "multitemp option"
  zeopp :: "zeopp_calc option"
  geom :: "pydict option"
  raspa_widom :: "raspa_system option"
  is_kh_enough :: "bool option"
  current_p_index :: "nat option"
  pressures :: "real list option"  \<comment> \<open>\<open>None\<close>: not assigned, or assigned \<^verbatim>\<open>None\<close>\<close>
  raspa_gcmc :: "(string \<times> raspa_system) list option"  \<comment> \<open>label and outputs of each GCMC job\<close>
  submitted :: "string list"  \<comment> \<open>labels of the submitted jobs, in order\<close>
  out_block :: "string option"  \<comment> \<open>the exposed output \<^verbatim>\<open>block\<close>\<close>
  out_output_parameters :: "pydict option"  \<comment> \<open>the output \<^verbatim>\<open>output_parameters\<close>\<close>

definition iso_setup :: "iso_inputs \<Rightarrow> iso_ctx" where
  "iso_setup inp =
     \<lparr>multitemp_mode =
        (if geometric inp \<noteq> None then Some run_single_temp
         else if temperature_list (parameters inp) \<noteq> None then Some run_geom_only
         else None),
      zeopp = None, geom = None, raspa_widom = None, is_kh_enough = None,
      current_p_index = None, pressures = None, raspa_gcmc = None, submitted = [],
      out_block = None, out_output_parameters = None\<rparr>"

definition run_zeopp :: "iso_world \<Rightarrow> iso_ctx \<Rightarrow> iso_ctx" where
  "run_zeopp w ctx =
     (if multitemp_mode ctx = Some run_single_temp then ctx
      else ctx\<lparr>zeopp := Some (zeopp_job w), submitted := submitted ctx @ [''ZeoppVolpoBlock'']\<rparr>)"

definition should_run_widom ::
  "arith \<Rightarrow> iso_inputs \<Rightarrow> iso_ctx \<Rightarrow> py_exception + bool \<times> iso_ctx" where
  "should_run_widom ar inp ctx =
     (if multitemp_mode ctx = Some run_single_temp then
        (case geometric inp of
           None \<Rightarrow> Inl (AttributeError ''geometric'')
         | Some g \<Rightarrow> Inr (True, ctx\<lparr>geom := Some g\<rparr>))
      else
        (case zeopp ctx of
           None \<Rightarrow> Inl (AttributeError ''zeopp'')
         | Some z \<Rightarrow>
             sbind (get_geometric_dict ar (zeopp_output_parameters z) (iso_molecule inp)) (\<lambda>g.
             sbind (get_item g ''is_porous'') (\<lambda>is_porous.
             sbind (if truthy is_porous then
                      sbind (get_num g ''Number_of_blocking_spheres'') (\<lambda>nblock.
                        if nblock > 0
                        then Inr (ctx\<lparr>geom := Some g, out_block := Some (block z)\<rparr>)
                        else Inr (ctx\<lparr>geom := Some g\<rparr>))
                    else Inr (ctx\<lparr>geom := Some g\<rparr>)) (\<lambda>ctx'.
               Inr (truthy is_porous \<and> \<not> multitemp_mode ctx = Some run_geom_only, ctx'))))))"

definition run_raspa_widom ::
  "iso_inputs \<Rightarrow> iso_world \<Rightarrow> iso_ctx \<Rightarrow> py_exception + iso_ctx" where
  \<comment> \<open>with the reads of \<^verbatim>\<open>_get_widom_param\<close> that can raise, in their order\<close>
  "run_raspa_widom inp w ctx =
     (case geom ctx of
        None \<Rightarrow> Inl (AttributeError ''geom'')
      | Some g \<Rightarrow>
          sbind (get_num g ''Number_of_blocking_spheres'') (\<lambda>nblock.
            if nblock > 0 \<and> multitemp_mode ctx \<noteq> Some run_single_temp \<and> zeopp ctx = None
            then Inl (AttributeError ''zeopp'')
            else if raspa_verbosity (parameters inp) = 0 then Inl ZeroDivisionError
            else
              sbind (get_item g ''POAV_Volume_fraction'') (\<lambda>void_fraction.
                Inr (ctx\<lparr>raspa_widom := Some (widom_job w),
                         submitted := submitted ctx @ [''RaspaWidom'']\<rparr>))))"

definition should_run_gcmc :: "iso_inputs \<Rightarrow> iso_ctx \<Rightarrow> py_exception + bool \<times> iso_ctx" where
  "should_run_gcmc inp ctx =
     (case raspa_widom ctx of
        None \<Rightarrow> Inl (AttributeError ''raspa_widom'')
      | Some widom \<Rightarrow>
          sbind (first_component widom) (\<lambda>mol.
            (let kh_enough = henry_coefficient_average mol > raspa_minKh (parameters inp)
             in Inr (kh_enough, ctx\<lparr>is_kh_enough := Some kh_enough\<rparr>))))"

definition init_raspa_gcmc ::
  "arith \<Rightarrow> iso_inputs \<Rightarrow> iso_ctx \<Rightarrow> (py_exception + iso_ctx) option" where
  "init_raspa_gcmc ar inp ctx =
     (case geom ctx of
        None \<Rightarrow> Some (Inl (AttributeError ''geom''))
      | Some g \<Rightarrow>
          (case raspa_widom ctx of
             None \<Rightarrow> Some (Inl (AttributeError ''raspa_widom''))
           | Some widom \<Rightarrow>
               (case choose_pressure_points ar (parameters inp) g widom of
                  None \<Rightarrow> None
                | Some (Inl e) \<Rightarrow> Some (Inl e)
                | Some (Inr ps) \<Rightarrow>
                    Some (sbind (first_component widom) (\<lambda>mol.
                          sbind (get_num g ''POAV_cm^3/g'') (\<lambda>poav.
                          sbind (get_num g ''Estimated_saturation_loading'') (\<lambda>qsat.
                            Inr (ctx\<lparr>current_p_index := Some 0, pressures := Some ps\<rparr>))))))))"

definition should_run_another_gcmc :: "iso_ctx \<Rightarrow> py_exception + bool" where
  "should_run_another_gcmc ctx =
     (case current_p_index ctx of
        None \<Rightarrow> Inl (AttributeError ''current_p_index'')
      | Some i \<Rightarrow>
          (case pressures ctx of
             None \<Rightarrow> Inl (AttributeError ''pressures'')
           | Some ps \<Rightarrow> Inr (i < length ps)))"

definition run_raspa_gcmc :: "iso_world \<Rightarrow> iso_ctx \<Rightarrow> py_exception + iso_ctx" where
  "run_raspa_gcmc w ctx =
     (case current_p_index ctx of
        None \<Rightarrow> Inl (AttributeError ''current_p_index'')
      | Some i \<Rightarrow>
          (case pressures ctx of
             None \<Rightarrow> Inl (AttributeError ''pressures'')
           | Some ps \<Rightarrow>
               if \<not> i < length ps then Inl IndexError
               else
                 sbind (if i > 0 then
                          (case raspa_gcmc ctx of
                             None \<Rightarrow> Inl (AttributeError ''raspa_gcmc'')
                           | Some calcs \<Rightarrow> if i - 1 < length calcs then Inr calcs else Inl IndexError)
                        else Inr (case raspa_gcmc ctx of None \<Rightarrow> [] | Some calcs \<Rightarrow> calcs)) (\<lambda>calcs.
                   Inr (ctx\<lparr>raspa_gcmc := Some (calcs @ [(gcmc_label (i + 1), gcmc_job w i (ps ! i))]),
                            submitted := submitted ctx @ [gcmc_label (i + 1)],
                            current_p_index := Some (i + 1)\<rparr>))))"

text \<open>The outline's \<^verbatim>\<open>while_(should_run_another_gcmc)(run_raspa_gcmc)\<close>.\<close>

function gcmc_loop :: "iso_world \<Rightarrow> iso_ctx \<Rightarrow> py_exception + iso_ctx" where
  "gcmc_loop w ctx =
     (case should_run_another_gcmc ctx of
        Inl e \<Rightarrow> Inl e
      | Inr again \<Rightarrow>
          if again then
            (case run_raspa_gcmc w ctx of
               Inl e \<Rightarrow> Inl e
             | Inr ctx' \<Rightarrow> gcmc_loop w ctx')
          else Inr ctx)"
  by pat_completeness auto
termination
  by (relation "measure (\<lambda>(w, ctx).
        case (current_p_index ctx, pressures ctx) of
          (Some i, Some ps) \<Rightarrow> length ps - i
        | _ \<Rightarrow> 0)")
     (auto simp: should_run_another_gcmc_def run_raspa_gcmc_def sbind_def
           split: option.splits if_splits sum.splits)

declare gcmc_loop.simps [simp del]

definition return_output_parameters ::
  "arith \<Rightarrow> iso_inputs \<Rightarrow> iso_ctx \<Rightarrow> py_exception + iso_ctx" where
  "return_output_parameters ar inp ctx =
     (case geom ctx of
        None \<Rightarrow> Inl (AttributeError ''geom'')
      | Some g \<Rightarrow>
          sbind (get_item g ''is_porous'') (\<lambda>is_porous.
          sbind (if truthy is_porous \<and> \<not> multitemp_mode ctx = Some run_geom_only then
                   (case raspa_widom ctx of
                      None \<Rightarrow> Inl (AttributeError ''raspa_widom'')
                    | Some widom \<Rightarrow>
                        (case is_kh_enough ctx of
                           None \<Rightarrow> Inl (AttributeError ''is_kh_enough'')
                         | Some kh_enough \<Rightarrow>
                             if kh_enough then
                               (case raspa_gcmc ctx of
                                  None \<Rightarrow> Inl (AttributeError ''raspa_gcmc'')
                                | Some calcs \<Rightarrow> Inr (Some widom, pressures ctx, map_of (rev calcs)))
                             else Inr (Some widom, None, Map.empty)))
                 else Inr (None, None, Map.empty)) (\<lambda>(widom_out, ps, gcmc_out_dict).
          sbind (get_output_parameters ar g (parameters inp) widom_out ps gcmc_out_dict) (\<lambda>out_dict.
            Inr (ctx\<lparr>pressures := ps, out_output_parameters := Some out_dict\<rparr>)))))"

definition isotherm_workchain ::
  "arith \<Rightarrow> iso_inputs \<Rightarrow> iso_world \<Rightarrow> (py_exception + iso_ctx) option" where
  \<comment> \<open>the outline of \<^verbatim>\<open>IsothermWorkChain\<close>\<close>
  "isotherm_workchain ar inp w =
     (case should_run_widom ar inp (run_zeopp w (iso_setup inp)) of
        Inl e \<Rightarrow> Some (Inl e)
      | Inr (widom, ctx1) \<Rightarrow>
          if widom then
            (case run_raspa_widom inp w ctx1 of
               Inl e \<Rightarrow> Some (Inl e)
             | Inr ctx2 \<Rightarrow>
                 (case should_run_gcmc inp ctx2 of
                    Inl e \<Rightarrow> Some (Inl e)
                  | Inr (gcmc, ctx3) \<Rightarrow>
                      if gcmc then
                        (case init_raspa_gcmc ar inp ctx3 of
                           None \<Rightarrow> None
                         | Some (Inl e) \<Rightarrow> Some (Inl e)
                         | Some (Inr ctx4) \<Rightarrow>
                             Some (sbind (gcmc_loop w ctx4) (return_output_parameters ar inp)))
                      else Some (return_output_parameters ar inp ctx3)))
          else Some (return_output_parameters ar inp ctx1))"

section \<open>Multi-component adsorption/desorption work chain (multicomp_ads_des.py)\<close>

text \<open>
  Dictionaries that the code iterates over are association lists, in insertion order. The output
  of a RASPA job is a dictionary with one entry per system (\<^verbatim>\<open>framework_1\<close> or \<^verbatim>\<open>box_1\<close>).
\<close>

record mc_component =
  comp_name :: string
  molfraction :: real

record mc_conditions =
  adsorption_temperature :: real
  adsorption_pressure :: real
  desorption_temperature :: real
  desorption_pressure :: real

type_synonym raspa_out = "(string \<times> raspa_system) list"

definition dict_keys :: "'k list \<Rightarrow> 'k list" where
  \<comment> \<open>the keys of a dictionary built by inserting the given keys in order\<close>
  "dict_keys ks = rev (remdups (rev ks))"

definition al_append :: "'k \<Rightarrow> 'v \<Rightarrow> ('k \<times> 'v list) list \<Rightarrow> ('k \<times> 'v list) list" where
  \<comment> \<open>\<^verbatim>\<open>d[k] += [x]\<close> for a key that is present\<close>
  "al_append k x al = map (\<lambda>(k', v). if k' = k then (k', v @ [x]) else (k', v)) al"

fun al_set :: "'k \<Rightarrow> 'v \<Rightarrow> ('k \<times> 'v) list \<Rightarrow> ('k \<times> 'v) list" where
  \<comment> \<open>\<^verbatim>\<open>d[k] = v\<close>\<close>
  "al_set k v [] = [(k, v)]"
| "al_set k v ((k', v') # al) = (if k' = k then (k, v) # al else (k', v') # al_set k v al)"

definition al_get :: "(string \<times> 'v) list \<Rightarrow> string \<Rightarrow> py_exception + 'v" where
  \<comment> \<open>\<^verbatim>\<open>d[k]\<close>\<close>
  "al_get al k = (case map_of al k of None \<Rightarrow> Inl (KeyError k) | Some v \<Rightarrow> Inr v)"

definition list_get :: "'a list \<Rightarrow> nat \<Rightarrow> py_exception + 'a" where
  \<comment> \<open>\<^verbatim>\<open>xs[i]\<close> for \<open>i \<ge> 0\<close>\<close>
  "list_get xs i = (if i < length xs then Inr (xs ! i) else Inl IndexError)"

fun firsts :: "('k \<times> 'a list) list \<Rightarrow> py_exception + 'a list" where
  \<comment> \<open>\<^verbatim>\<open>[load[0] for load in d.values()]\<close>\<close>
  "firsts [] = Inr []"
| "firsts ((k, load) # al) =
     sbind (list_get load 0) (\<lambda>x. sbind (firsts al) (\<lambda>xs. Inr (x # xs)))"

definition component_of :: "raspa_out \<Rightarrow> string \<Rightarrow> string \<Rightarrow> py_exception + raspa_component" where
  \<comment> \<open>\<^verbatim>\<open>out[key_system]['components'][comp]\<close>\<close>
  "component_of out key_system cname =
     sbind (al_get out key_system) (\<lambda>gcmc_out. al_get (components gcmc_out) cname)"

definition conv_load_of :: "string \<Rightarrow> raspa_component \<Rightarrow> real" where
  "conv_load_of key_system c =
     (if key_system = ''framework_1'' then conversion_factor_molec_uc_to_mol_kg c
      else conversion_factor_molec_uc_to_cm3stp_cm3 c)"

record mc_out =
  out_Input_block :: "(string \<times> pyval) list"
  out_Number_of_blocking_spheres :: "(string \<times> pyval) list"
  out_temperatures :: "real list"
  out_pressures :: "real list"
  out_composition :: "(string \<times> real list) list"
  out_loading_absolute_average :: "(string \<times> real list) list"
  out_loading_absolute_dev :: "(string \<times> real list) list"
  out_working_capacity :: "(string \<times> real) list"
  out_working_capacity_unit :: string
  out_loading_absolute_unit :: string

fun add_zeopp :: "(string \<rightharpoonup> pydict) \<Rightarrow> mc_component list \<Rightarrow> mc_out \<Rightarrow> py_exception + mc_out" where
  \<comment> \<open>the first loop of \<^verbatim>\<open>get_output_parameters\<close>: the geometric results, where Zeo++ ran\<close>
  "add_zeopp zeopp_outs [] out = Inr out"
| "add_zeopp zeopp_outs (c # cs) out =
     (case zeopp_outs (''Zeopp_'' @ comp_name c) of
        None \<Rightarrow> add_zeopp zeopp_outs cs out
      | Some z \<Rightarrow>
          sbind (get_item z ''Input_block'') (\<lambda>ib.
          sbind (get_item z ''Number_of_blocking_spheres'') (\<lambda>nb.
            add_zeopp zeopp_outs cs
              (out\<lparr>out_Input_block := al_set (comp_name c) ib (out_Input_block out),
                    out_Number_of_blocking_spheres :=
                      al_set (comp_name c) nb (out_Number_of_blocking_spheres out)\<rparr>))))"

fun add_loadings ::
  "arith \<Rightarrow> string \<Rightarrow> raspa_out \<Rightarrow> raspa_out \<Rightarrow> mc_component list \<Rightarrow> mc_out \<Rightarrow>
   py_exception + mc_out" where
  \<comment> \<open>the second loop: converted loadings of adsorption, then of desorption\<close>
  "add_loadings ar key_system ads des [] out = Inr out"
| "add_loadings ar key_system ads des (c # cs) out =
     sbind (component_of ads key_system (comp_name c)) (\<lambda>a.
     sbind (component_of des key_system (comp_name c)) (\<lambda>d.
       add_loadings ar key_system ads des cs
         (out\<lparr>out_loading_absolute_average :=
                 al_append (comp_name c)
                   (fmul ar (conv_load_of key_system d) (loading_absolute_average d))
                   (al_append (comp_name c)
                      (fmul ar (conv_load_of key_system a) (loading_absolute_average a))
                      (out_loading_absolute_average out)),
               out_loading_absolute_dev :=
                 al_append (comp_name c)
                   (fmul ar (conv_load_of key_system d) (loading_absolute_dev d))
                   (al_append (comp_name c)
                      (fmul ar (conv_load_of key_system a) (loading_absolute_dev a))
                      (out_loading_absolute_dev out))\<rparr>)))"

fun add_compositions :: "arith \<Rightarrow> mc_component list \<Rightarrow> mc_out \<Rightarrow> py_exception + mc_out" where
  \<comment> \<open>the third loop: composition at adsorption and desorption, working capacity\<close>
  "add_compositions ar [] out = Inr out"
| "add_compositions ar (c # cs) out =
     sbind (firsts (out_loading_absolute_average out)) (\<lambda>loads.
     sbind (al_get (out_loading_absolute_average out) (comp_name c)) (\<lambda>load.
     sbind (list_get load 0) (\<lambda>load_ads.
       (let tot_load_ads = fsum ar loads in
        if tot_load_ads = 0 then Inl ZeroDivisionError
        else
          sbind (list_get load 1) (\<lambda>load_des.
            add_compositions ar cs
              (out\<lparr>out_composition :=
                      al_append (comp_name c) (fdiv ar load_ads tot_load_ads)
                        (al_append (comp_name c) (molfraction c) (out_composition out)),
                    out_working_capacity :=
                      al_set (comp_name c) (fsub ar load_ads load_des)
                        (out_working_capacity out)\<rparr>))))))"

definition mc_get_output_parameters ::
  "arith \<Rightarrow> mc_conditions \<Rightarrow> mc_component list \<Rightarrow> (string \<rightharpoonup> pydict) \<Rightarrow> raspa_out \<Rightarrow>
   raspa_out \<Rightarrow> py_exception + mc_out" where
  \<comment> \<open>\<^verbatim>\<open>get_output_parameters\<close> of multicomp_ads_des.py; \<open>comps\<close> are the values of the
      components dictionary, \<open>ads\<close> and \<open>des\<close> the outputs of the two GCMC jobs\<close>
  "mc_get_output_parameters ar inp_conditions comps zeopp_outs ads des =
     sbind (add_zeopp zeopp_outs comps
              \<lparr>out_Input_block = [], out_Number_of_blocking_spheres = [],
               out_temperatures = [], out_pressures = [], out_composition = [],
               out_loading_absolute_average = [], out_loading_absolute_dev = [],
               out_working_capacity = [], out_working_capacity_unit = [],
               out_loading_absolute_unit = []\<rparr>) (\<lambda>out0.
     sbind (list_get (map fst ads) 0) (\<lambda>key_system.
       (let names = dict_keys (map comp_name comps);
            loading_unit = (if key_system = ''framework_1'' then ''mol/kg'' else ''(cm^3_STP/cm^3)'');
            out1 = out0\<lparr>
              out_temperatures :=
                [adsorption_temperature inp_conditions, desorption_temperature inp_conditions],
              out_pressures :=
                [adsorption_pressure inp_conditions, desorption_pressure inp_conditions],
              out_composition := map (\<lambda>n. (n, [])) names,
              out_loading_absolute_average := map (\<lambda>n. (n, [])) names,
              out_loading_absolute_dev := map (\<lambda>n. (n, [])) names,
              out_working_capacity := [],
              out_working_capacity_unit := loading_unit,
              out_loading_absolute_unit := loading_unit\<rparr>
        in sbind (add_loadings ar key_system ads des comps out1) (add_compositions ar comps))))"

definition update_gcmc_inputs_desorption ::
  "arith \<Rightarrow> string \<Rightarrow> (string \<times> real) list \<Rightarrow> raspa_out \<Rightarrow>
   py_exception + (string \<times> real) list" where
  \<comment> \<open>the \<^verbatim>\<open>MolFraction\<close> of each entry of \<^verbatim>\<open>raspa_param['Component']\<close>, recomputed from the
      output of the adsorption job\<close>
  "update_gcmc_inputs_desorption ar system_key component_molfractions ads =
     sbind (al_get ads system_key) (\<lambda>ads_out.
       (let ads_results = components ads_out;
            ads_molecxuc_tot =
              fsum ar (map (\<lambda>(key, val). loading_absolute_average val) ads_results)
        in fold (\<lambda>(key, val) acc.
                  sbind acc (\<lambda>fractions.
                    if ads_molecxuc_tot = 0 then Inl ZeroDivisionError
                    else if map_of fractions key = None then Inl (KeyError key)
                    else Inr (al_set key (fdiv ar (loading_absolute_average val) ads_molecxuc_tot)
                                fractions)))
             ads_results (Inr component_molfractions)))"

text \<open>
  The outline of \<^verbatim>\<open>MulticompAdsDesWorkChain\<close>. The inputs are the components dictionary that
  \<^verbatim>\<open>get_components_dict\<close> returned and the validated parameters that the steps read; the jobs
  are given by their outputs, the two GCMC jobs as functions of the mole fractions submitted.
\<close>

record mc_inputs =
  has_structure :: bool
  conditions :: mc_conditions
  mc_components :: "(string \<times> mc_component) list"
  zeopp_probe_scaling :: real
  mc_raspa_verbosity :: int

record mc_world =
  mc_zeopp_job :: "string \<Rightarrow> pydict"  \<comment> \<open>output of the Zeo++ job of a component\<close>
  ads_job :: "(string \<times> real) list \<Rightarrow> raspa_out"
  des_job :: "(string \<times> real) list \<Rightarrow> raspa_out"

record mc_result =
  ads_molfractions :: "(string \<times> real) list"  \<comment> \<open>\<^verbatim>\<open>MolFraction\<close> per component, adsorption job\<close>
  des_molfractions :: "(string \<times> real) list"  \<comment> \<open>\<^verbatim>\<open>MolFraction\<close> per component, desorption job\<close>
  mc_submitted :: "string list"
  mc_output_parameters :: mc_out

definition should_run_zeopp :: "mc_inputs \<Rightarrow> bool" where
  "should_run_zeopp inp = (has_structure inp \<and> zeopp_probe_scaling inp > 0)"

definition zeopp_label :: "mc_component \<Rightarrow> string" where
  "zeopp_label c = ''Zeopp_'' @ comp_name c"

fun inspect_zeopp_calc :: "(string \<rightharpoonup> pydict) \<Rightarrow> mc_component list \<Rightarrow> py_exception + unit" where
  "inspect_zeopp_calc zeopp_outs [] = Inr ()"
| "inspect_zeopp_calc zeopp_outs (c # cs) =
     (case zeopp_outs (zeopp_label c) of
        None \<Rightarrow> Inl (KeyError (zeopp_label c))
      | Some z \<Rightarrow>
          sbind (get_num z ''Number_of_blocking_spheres'') (\<lambda>nb. inspect_zeopp_calc zeopp_outs cs))"

fun get_gcmc_inputs_adsorption ::
  "(string \<rightharpoonup> pydict) \<Rightarrow> mc_component list \<Rightarrow> (string \<times> real) list \<Rightarrow>
   py_exception + (string \<times> real) list" where
  \<comment> \<open>the loop over the components of \<^verbatim>\<open>_get_gcmc_inputs_adsorption\<close>\<close>
  "get_gcmc_inputs_adsorption zeopp_outs [] fractions = Inr fractions"
| "get_gcmc_inputs_adsorption zeopp_outs (c # cs) fractions =
     sbind (case zeopp_outs (zeopp_label c) of
              None \<Rightarrow> Inr ()
            | Some z \<Rightarrow> sbind (get_num z ''Number_of_blocking_spheres'') (\<lambda>nb. Inr ())) (\<lambda>u.
       get_gcmc_inputs_adsorption zeopp_outs cs (al_set (comp_name c) (molfraction c) fractions))"

definition multicomp_workchain ::
  "arith \<Rightarrow> mc_inputs \<Rightarrow> mc_world \<Rightarrow> py_exception + mc_result" where
  "multicomp_workchain ar inp w =
     (let comps = map snd (mc_components inp);
          zeopp_outs =
            (if should_run_zeopp inp
             then map_of (rev (map (\<lambda>c. (zeopp_label c, mc_zeopp_job w (comp_name c))) comps))
             else Map.empty);
          zeopp_jobs = (if should_run_zeopp inp then map zeopp_label comps else []);
          system_key = (if has_structure inp then ''framework_1'' else ''box_1'')
      in
        sbind (if should_run_zeopp inp then inspect_zeopp_calc zeopp_outs comps else Inr ()) (\<lambda>u.
        sbind (if mc_raspa_verbosity inp = 0 then Inl ZeroDivisionError
               else get_gcmc_inputs_adsorption zeopp_outs comps []) (\<lambda>fractions_ads.
          (let ads = ads_job w fractions_ads in
           sbind (update_gcmc_inputs_desorption ar system_key fractions_ads ads) (\<lambda>fractions_des.
             (let des = des_job w fractions_des in
              sbind (mc_get_output_parameters ar (conditions inp) comps zeopp_outs ads des) (\<lambda>out.
                Inr \<lparr>ads_molfractions = fractions_ads, des_molfractions = fractions_des,
                     mc_submitted = zeopp_jobs @ [''RaspaGCMC_Ads'', ''RaspaGCMC_Des''],
                     mc_output_parameters = out\<rparr>)))))))"

text \<open>
  A concrete environment for the examples below: profiles are numbers, a merge keeps the newer
  profile, and every CP2K job parses but its last SCF step did not converge.
\<close>

definition failing_env :: "(nat, unit) be_env" where
  "failing_env =
     \<lparr>dict_merge = (\<lambda>a b. b), ot_has_small_bandgap = (\<lambda>p out thr. False),
      magnetization_param = 0, geo_opt_param = 0, bsse_param = (\<lambda>p. p),
      runner = (\<lambda>n l p. \<lparr>output_parameters = Some \<lparr>scf_converged = [False], observables = ()\<rparr>\<rparr>)\<rparr>"

definition ladder01_inputs :: "nat be_inputs" where
  "ladder01_inputs =
     \<lparr>protocol_in = [''settings_0'' \<mapsto> 0, ''settings_1'' \<mapsto> 1, ''bandgap_thr_ev'' \<mapsto> 2],
      starting_settings_idx = 0, custom_parameters = None\<rparr>"

definition no_settings_0_inputs :: "nat be_inputs" where
  "no_settings_0_inputs =
     \<lparr>protocol_in = [''settings_1'' \<mapsto> 1, ''bandgap_thr_ev'' \<mapsto> 2],
      starting_settings_idx = 0, custom_parameters = None\<rparr>"

definition start_at_1_inputs :: "nat be_inputs" where
  "start_at_1_inputs =
     \<lparr>protocol_in = [''settings_0'' \<mapsto> 0, ''bandgap_thr_ev'' \<mapsto> 2],
      starting_settings_idx = 1, custom_parameters = None\<rparr>"

text \<open>
  Inputs for the pressure sampler with steepness \<open>b = 1\<close> (Henry coefficient \<^verbatim>\<open>1e-05\<close>, saturation
  loading 1: in doubles \<^verbatim>\<open>1e-05 / 1.0 * 1e5 == 1.0\<close>), maximum step 1 and precision 1, so that
  every step is 1.
\<close>

definition sampler_params :: "real \<Rightarrow> real \<Rightarrow> iso_parameters" where
  "sampler_params p0 pmax = \<lparr>raspa_verbosity = 10, raspa_minKh = 0, temperature = 300, temperature_list = None,
     pressure_min = p0, pressure_max = pmax, pressure_maxstep = 1, pressure_precision = 1,
     pressure_list = None\<rparr>"

definition sampler_mol :: raspa_component where
  "sampler_mol = \<lparr>henry_coefficient_average = fliteral binary64 (1 / 100000), henry_coefficient_dev = 0, henry_coefficient_unit = ''mol/kg/Pa'',
     adsorption_energy_widom_average = 0, adsorption_energy_widom_dev = 0, adsorption_energy_widom_unit = ''kJ/mol'',
     loading_absolute_average = 0, loading_absolute_dev = 0,
     conversion_factor_molec_uc_to_cm3stp_cm3 = 1, conversion_factor_molec_uc_to_mg_g = 1,
     conversion_factor_molec_uc_to_mol_kg = 1\<rparr>"

definition sampler_widom :: raspa_system where
  "sampler_widom = \<lparr>components = [(''Xe'', sampler_mol)], general = \<lparr>enthalpy_of_adsorption_average = None, enthalpy_of_adsorption_dev = None\<rparr>\<rparr>"

definition sampler_geom :: pydict where
  "sampler_geom = [''Estimated_saturation_loading'' \<mapsto> PNum 1]"

text \<open>What an observer sees of a run of the isotherm work chain that finished.\<close>

definition final_output :: "(py_exception + iso_ctx) option \<Rightarrow> pydict option" where
  "final_output r = (case r of Some (Inr ctx) \<Rightarrow> out_output_parameters ctx | _ \<Rightarrow> None)"

definition final_key :: "(py_exception + iso_ctx) option \<Rightarrow> string \<Rightarrow> pyval option" where
  "final_key r k = (case final_output r of Some d \<Rightarrow> d k | None \<Rightarrow> None)"

definition final_submitted :: "(py_exception + iso_ctx) option \<Rightarrow> string list option" where
  "final_submitted r = (case r of Some (Inr ctx) \<Rightarrow> Some (submitted ctx) | _ \<Rightarrow> None)"

definition final_block :: "(py_exception + iso_ctx) option \<Rightarrow> string option" where
  "final_block r = (case r of Some (Inr ctx) \<Rightarrow> out_block ctx | _ \<Rightarrow> None)"

text \<open>
  Example inputs of the isotherm work chain: a Zeo++ output with the given accessible volume and
  three blocking spheres, and the Widom output used for the sampler above (Henry coefficient
  \<^verbatim>\<open>1e-05\<close>).
\<close>

definition example_zeopp_out :: "real \<Rightarrow> pydict" where
  "example_zeopp_out poav =
     [''POAV_A^3'' \<mapsto> PNum poav, ''POAV_cm^3/g'' \<mapsto> PNum poav,
      ''POAV_Volume_fraction'' \<mapsto> PNum (1 / 2), ''Number_of_blocking_spheres'' \<mapsto> PNum 3]"

definition example_world :: "real \<Rightarrow> iso_world" where
  "example_world poav =
     \<lparr>zeopp_job = \<lparr>zeopp_output_parameters = example_zeopp_out poav, block = ''block_file''\<rparr>,
      widom_job = sampler_widom,
      gcmc_job = (\<lambda>i p. sampler_widom)\<rparr>"

definition example_inputs :: "real \<Rightarrow> real list option \<Rightarrow> real list option \<Rightarrow> iso_inputs" where
  "example_inputs minkh tlist plist =
     \<lparr>parameters = (sampler_params 1 3)\<lparr>raspa_minKh := minkh, temperature_list := tlist,
                                       pressure_list := plist\<rparr>,
      iso_molecule = \<lparr>mol_name = ''Xe'', molsatdens = 1\<rparr>,
      geometric = None\<rparr>"

text \<open>
  The adsorption-phase loading of a component in the unit of the output record: its absolute
  loading in the adsorption output times the conversion factor (0 when the output has no such
  component).
\<close>

definition ads_loading :: "arith \<Rightarrow> string \<Rightarrow> raspa_out \<Rightarrow> string \<Rightarrow> real" where
  "ads_loading ar key_system ads cname =
     (case component_of ads key_system cname of
        Inr a \<Rightarrow> fmul ar (conv_load_of key_system a) (loading_absolute_average a)
      | Inl e \<Rightarrow> 0)"

text \<open>
  Example inputs of the multi-component work chain: xenon and krypton in a framework, with
  adsorption loadings 3 and 1 and desorption loadings 1 and 1/2 (conversion factors 1).
\<close>

definition example_component :: "real \<Rightarrow> raspa_component" where
  "example_component load = sampler_mol\<lparr>loading_absolute_average := load\<rparr>"

definition example_gcmc_out :: "real \<Rightarrow> real \<Rightarrow> raspa_out" where
  "example_gcmc_out xe kr =
     [(''framework_1'',
       \<lparr>components = [(''Xe'', example_component xe), (''Kr'', example_component kr)],
        general = \<lparr>enthalpy_of_adsorption_average = None, enthalpy_of_adsorption_dev = None\<rparr>\<rparr>)]"

definition example_mc_components :: "(string \<times> mc_component) list" where
  "example_mc_components =
     [(''xenon'', \<lparr>comp_name = ''Xe'', molfraction = 1 / 4\<rparr>),
      (''krypton'', \<lparr>comp_name = ''Kr'', molfraction = 3 / 4\<rparr>)]"

definition example_mc_inputs :: mc_inputs where
  "example_mc_inputs =
     \<lparr>has_structure = True,
      conditions = \<lparr>adsorption_temperature = 298, adsorption_pressure = 1,
                    desorption_temperature = 308, desorption_pressure = 1 / 8\<rparr>,
      mc_components = example_mc_components,
      zeopp_probe_scaling = 0, mc_raspa_verbosity = 10\<rparr>"

definition example_mc_world :: mc_world where
  "example_mc_world =
     \<lparr>mc_zeopp_job = (\<lambda>n. Map.empty),
      ads_job = (\<lambda>fractions. example_gcmc_out 3 1),
      des_job = (\<lambda>fractions. example_gcmc_out 1 (1 / 2))\<rparr>"

text \<open>
  Six components with the same adsorption loading 1 and desorption loading \<open>1/2\<close> (conversion
  factors 1), in a framework.
\<close>

definition six_names :: "string list" where
  "six_names = [''Ar'', ''CH4'', ''CO2'', ''Kr'', ''N2'', ''Xe'']"

definition six_gcmc_out :: "real \<Rightarrow> raspa_out" where
  "six_gcmc_out load =
     [(''framework_1'',
       \<lparr>components = map (\<lambda>n. (n, example_component load)) six_names,
        general = \<lparr>enthalpy_of_adsorption_average = None, enthalpy_of_adsorption_dev = None\<rparr>\<rparr>)]"

definition six_components :: "mc_component list" where
  "six_components =
     map (\<lambda>n. \<lparr>comp_name = n, molfraction = (if n = ''Ar'' \<or> n = ''Xe'' then 1 / 4 else 1 / 8)\<rparr>)
       six_names"

text \<open>
  What an observer reads in the output record of the multi-component work chain: the adsorption
  loadings (the first entries of the \<^verbatim>\<open>loading_absolute_average\<close> lists) and the desorption
  compositions (the second entries of the \<^verbatim>\<open>composition\<close> lists), in the order of the record.
\<close>

definition adsorption_loadings :: "py_exception + mc_out \<Rightarrow> real list option" where
  "adsorption_loadings r =
     (case r of
        Inr out \<Rightarrow> Some (map (\<lambda>(n, l). hd l) (out_loading_absolute_average out))
      | Inl e \<Rightarrow> None)"

definition desorption_compositions :: "py_exception + mc_out \<Rightarrow> real list option" where
  "desorption_compositions r =
     (case r of
        Inr out \<Rightarrow> Some (map (\<lambda>(n, l). l ! 1) (out_composition out))
      | Inl e \<Rightarrow> None)"

section \<open>Properties of the binding-energy work chain\<close>

lemma settings_tag_of_small:
  "settings_tag_of 0 = ''settings_0''"
  "settings_tag_of 1 = ''settings_1''"
  "settings_tag_of (Suc 0) = ''settings_1''"
  "settings_tag_of 2 = ''settings_2''"
  by (simp_all add: settings_tag_of_def str_of_nat.simps)

lemma setup_loop_missing:
  "settings_idx ctx < k \<Longrightarrow> int k \<le> start \<Longrightarrow> protocol ctx (settings_tag_of k) = None \<Longrightarrow>
   setup_loop env start ctx = Inl (Exit ERROR_MISSING_INITIAL_SETTINGS)"
proof (induction env start ctx rule: setup_loop.induct)
  case (1 env start ctx)
  show ?case
  proof (cases "protocol ctx (settings_tag_of (settings_idx ctx + 1))")
    case None
    with "1.prems" show ?thesis by (subst setup_loop.simps) (simp add: Let_def)
  next
    case (Some prof)
    with "1.prems" have lt: "settings_idx ctx + 1 < k"
      by (cases "settings_idx ctx + 1 = k") auto
    from "1.prems" have gt: "int (settings_idx ctx) < start" by simp
    have "setup_loop env start
            (ctx\<lparr>settings_idx := settings_idx ctx + 1,
                 settings_tag := settings_tag_of (settings_idx ctx + 1),
                 cp2k_param := dict_merge env (cp2k_param ctx) prof\<rparr>)
          = Inl (Exit ERROR_MISSING_INITIAL_SETTINGS)"
      using "1.IH"[OF gt refl refl refl, of prof] Some lt "1.prems" by simp
    with Some gt show ?thesis by (subst setup_loop.simps) (simp add: Let_def)
  qed
qed

text \<open>
  No step assigns \<^verbatim>\<open>stage_tag\<close>, so the retry branch of the inspection always raises before it
  can look up the next profile: no run ends with \<open>ERROR_NO_MORE_SETTINGS\<close>.
\<close>

lemma setup_loop_result:
  "(setup_loop env start ctx = Inl e \<longrightarrow> e = Exit ERROR_MISSING_INITIAL_SETTINGS) \<and>
   (setup_loop env start ctx = Inr ctx' \<longrightarrow> stage_tag ctx' = stage_tag ctx)"
proof (induction env start ctx rule: setup_loop.induct)
  case (1 env start ctx)
  note eq = setup_loop.simps[of env start ctx]
  show ?case
  proof (cases "start > int (settings_idx ctx)")
    case False
    then show ?thesis unfolding eq by auto
  next
    case True
    show ?thesis
    proof (cases "protocol ctx (settings_tag_of (settings_idx ctx + 1))")
      case None
      with True show ?thesis unfolding eq by (simp add: Let_def)
    next
      case (Some prof)
      have p: "protocol (ctx\<lparr>settings_idx := settings_idx ctx + 1,
                 settings_tag := settings_tag_of (settings_idx ctx + 1)\<rparr>)
               (settings_tag_of (settings_idx ctx + 1)) = Some prof"
        using Some by simp
      from "1.IH"[OF True refl refl refl p] True Some show ?thesis
        unfolding eq by (simp add: Let_def)
    qed
  qed
qed

lemma be_setup_result:
  "(be_setup env inp = Inl e \<longrightarrow> e \<noteq> Exit ERROR_NO_MORE_SETTINGS) \<and>
   (be_setup env inp = Inr ctx \<longrightarrow> stage_tag ctx = None)"
proof (cases "protocol_in inp ''settings_0''")
  case None
  then show ?thesis by (auto simp: be_setup_def)
next
  case (Some prof0)
  let ?ctx0 = "\<lparr>protocol = protocol_in inp, settings_ok = False, settings_idx = 0,
                   settings_tag = settings_tag_of 0, stage_tag = None, cp2k_param = prof0,
                   stages = [], discarded = []\<rparr> :: ('a, 'b) be_ctx"
  show ?thesis
  proof (cases "setup_loop env (starting_settings_idx inp) ?ctx0")
    case (Inl e')
    with setup_loop_result[of env "starting_settings_idx inp" ?ctx0 e'] Some show ?thesis
      by (auto simp: be_setup_def)
  next
    case (Inr ctx1)
    with setup_loop_result[of env "starting_settings_idx inp" ?ctx0 _ ctx1] Some show ?thesis
      by (auto simp: be_setup_def)
  qed
qed

lemma inspect_without_stage_tag:
  assumes "stage_tag ctx = None"
  shows "inspect_and_update_settings_geo_opt env ctx \<noteq> Inl (Exit ERROR_NO_MORE_SETTINGS)"
    and "inspect_and_update_settings_geo_opt env ctx = Inr ctx' \<Longrightarrow> stage_tag ctx' = None"
  using assms
  by (auto simp: inspect_and_update_settings_geo_opt_def Let_def
      split: option.splits sum.splits if_splits)

lemma run_geo_opt_stage_tag: "stage_tag (run_geo_opt env inp ctx) = stage_tag ctx"
  by (simp add: run_geo_opt_def submit_def merge_custom_def split: option.splits)

lemma geo_opt_loop_never_exhausts:
  assumes "geo_opt_loop env inp ctx = Some r"
  shows "stage_tag ctx = None \<longrightarrow> (\<forall>js. r \<noteq> Stopped (Exit ERROR_NO_MORE_SETTINGS) js)"
proof (rule geo_opt_loop.raw_induct[OF _ assms,
      where P = "\<lambda>env inp ctx r. stage_tag ctx = None \<longrightarrow>
                  (\<forall>js. r \<noteq> Stopped (Exit ERROR_NO_MORE_SETTINGS) js)"])
  fix f :: "('a, 'b) be_env \<Rightarrow> 'a be_inputs \<Rightarrow> ('a, 'b) be_ctx \<Rightarrow> ('a, 'b) be_result option"
  fix env inp ctx r
  assume IH: "\<And>env inp ctx r. f env inp ctx = Some r \<Longrightarrow>
      stage_tag ctx = None \<longrightarrow> (\<forall>js. r \<noteq> Stopped (Exit ERROR_NO_MORE_SETTINGS) js)"
  assume eq: "(if should_run_geo_opt ctx
      then case inspect_and_update_settings_geo_opt env (run_geo_opt env inp ctx) of
           Inl e \<Rightarrow> Some (Stopped e (stages (run_geo_opt env inp ctx)))
           | Inr ctx' \<Rightarrow> f env inp ctx'
      else Some (Finished ctx)) = Some r"
  show "stage_tag ctx = None \<longrightarrow> (\<forall>js. r \<noteq> Stopped (Exit ERROR_NO_MORE_SETTINGS) js)"
  proof
    assume st0: "stage_tag ctx = None"
    then have st: "stage_tag (run_geo_opt env inp ctx) = None"
      by (simp add: run_geo_opt_stage_tag)
    show "\<forall>js. r \<noteq> Stopped (Exit ERROR_NO_MORE_SETTINGS) js"
    proof (cases "should_run_geo_opt ctx")
      case False
      with eq show ?thesis by auto
    next
      case True
      show ?thesis
      proof (cases "inspect_and_update_settings_geo_opt env (run_geo_opt env inp ctx)")
        case (Inl e)
        with inspect_without_stage_tag(1)[OF st, of env] have "e \<noteq> Exit ERROR_NO_MORE_SETTINGS"
          by auto
        with True Inl eq show ?thesis by auto
      next
        case (Inr ctx')
        with inspect_without_stage_tag(2)[OF st, of env ctx'] have "stage_tag ctx' = None" by simp
        with True Inr eq IH[of env inp ctx' r] show ?thesis by auto
      qed
    qed
  qed
qed

lemma no_more_settings_unreachable:
  "binding_energy_workchain env inp \<noteq> Some (Stopped (Exit ERROR_NO_MORE_SETTINGS) js)"
proof
  assume a: "binding_energy_workchain env inp = Some (Stopped (Exit ERROR_NO_MORE_SETTINGS) js)"
  show False
  proof (cases "be_setup env inp")
    case (Inl e)
    with be_setup_result[of env inp e] have "e \<noteq> Exit ERROR_NO_MORE_SETTINGS" by simp
    with a Inl show False by (simp add: binding_energy_workchain_def)
  next
    case (Inr ctx)
    with be_setup_result[of env inp _ ctx] have st: "stage_tag ctx = None" by simp
    from a Inr obtain r where r: "geo_opt_loop env inp ctx = Some r"
      by (auto simp: binding_energy_workchain_def split: option.splits)
    from geo_opt_loop_never_exhausts[OF r] st a Inr r show False
      by (cases r) (auto simp: binding_energy_workchain_def)
  qed
qed

text \<open>
  Claim C1. With only \<^verbatim>\<open>settings_0\<close> and \<^verbatim>\<open>settings_1\<close> in the protocol and every geometry
  optimisation judged as needing a retry, the work chain should stop with
  \<open>ERROR_NO_MORE_SETTINGS\<close> after two geometry submissions. The code does not get that far:
  the retry branch of \<^verbatim>\<open>inspect_and_update_settings_geo_opt\<close> reads \<^verbatim>\<open>self.ctx.stage_tag\<close>,
  which this work chain never assigns, so the first retry raises \<^verbatim>\<open>AttributeError\<close> after one
  submission and no exit code is returned.
\<close>

theorem ladder01_first_retry_raises:
  "binding_energy_workchain failing_env ladder01_inputs =
     Some (Stopped (Raised (AttributeError ''stage_tag''))
       [(''geo_opt_molecule'', \<lparr>output_parameters = Some \<lparr>scf_converged = [False], observables = ()\<rparr>\<rparr>)])"
  by (simp add: binding_energy_workchain_def be_setup_def setup_loop.simps geo_opt_loop.simps
      should_run_geo_opt_def run_geo_opt_def submit_def merge_custom_def
      inspect_and_update_settings_geo_opt_def failing_env_def ladder01_inputs_def
      settings_tag_of_def str_of_nat.simps)

text \<open>
  Claim C6, as stated, fails when \<^verbatim>\<open>settings_0\<close> itself is missing: \<^verbatim>\<open>setup\<close> reads
  \<^verbatim>\<open>self.ctx.protocol['settings_0']\<close> without a membership test, so the work chain stops with a
  \<^verbatim>\<open>KeyError\<close> and not with \<open>ERROR_MISSING_INITIAL_SETTINGS\<close>.
\<close>

theorem missing_settings_0_is_key_error:
  "binding_energy_workchain failing_env no_settings_0_inputs =
     Some (Stopped (Raised (KeyError ''settings_0'')) []) \<and>
   binding_energy_workchain failing_env no_settings_0_inputs \<noteq>
     Some (Stopped (Exit ERROR_MISSING_INITIAL_SETTINGS) [])"
  by (simp add: binding_energy_workchain_def be_setup_def no_settings_0_inputs_def)

text \<open>
  Claim C6, amended. When \<^verbatim>\<open>settings_0\<close> is present and some profile \<^verbatim>\<open>settings_k\<close> with
  \<open>1 \<le> k \<le> starting_settings_idx\<close> is missing, the work chain stops in \<^verbatim>\<open>setup\<close> with the exit
  code \<open>ERROR_MISSING_INITIAL_SETTINGS\<close> (status 901, different from the two other codes), and
  no job has been submitted.
\<close>

theorem missing_initial_settings_exit:
  assumes "protocol_in inp ''settings_0'' = Some prof0"
    and "1 \<le> k" and "int k \<le> starting_settings_idx inp"
    and "protocol_in inp (settings_tag_of k) = None"
  shows "binding_energy_workchain env inp =
           Some (Stopped (Exit ERROR_MISSING_INITIAL_SETTINGS) []) \<and>
         exit_status ERROR_MISSING_INITIAL_SETTINGS \<noteq> exit_status ERROR_NO_MORE_SETTINGS \<and>
         exit_status ERROR_MISSING_INITIAL_SETTINGS \<noteq> exit_status ERROR_PARSING_OUTPUT"
proof -
  let ?ctx0 = "\<lparr>protocol = protocol_in inp, settings_ok = False, settings_idx = 0,
                settings_tag = settings_tag_of 0, stage_tag = None, cp2k_param = prof0,
                stages = [], discarded = []\<rparr> :: ('a, 'b) be_ctx"
  have "setup_loop env (starting_settings_idx inp) ?ctx0 =
          Inl (Exit ERROR_MISSING_INITIAL_SETTINGS)"
    using assms by (intro setup_loop_missing[where k = k]) simp_all
  then show ?thesis
    using assms(1) by (simp add: binding_energy_workchain_def be_setup_def)
qed

theorem missing_initial_settings_exit_witness:
  "binding_energy_workchain failing_env start_at_1_inputs =
     Some (Stopped (Exit ERROR_MISSING_INITIAL_SETTINGS) [])"
proof -
  have a: "protocol_in start_at_1_inputs ''settings_0'' = Some 0"
    by (simp add: start_at_1_inputs_def)
  have b: "int 1 \<le> starting_settings_idx start_at_1_inputs"
    by (simp add: start_at_1_inputs_def)
  have c: "protocol_in start_at_1_inputs (settings_tag_of 1) = None"
    by (simp add: start_at_1_inputs_def settings_tag_of_small)
  show ?thesis
    using missing_initial_settings_exit[OF a _ b c, of failing_env] by simp
qed

section \<open>Properties of binary64 rounding\<close>

lemmas round64_eval =
  round64_def bexp_def bexp_down.simps bexp_up.simps pow2_def round_half_even_def max_double_def
  Let_def

lemma binary64_fields:
  "fliteral binary64 x = round64 x"
  "fadd binary64 a b = round64 (a + b)"
  "fsub binary64 a b = round64 (a - b)"
  "fmul binary64 a b = round64 (a * b)"
  "fdiv binary64 a b = round64 (a / b)"
  "fsum binary64 xs = foldl (\<lambda>acc x. round64 (acc + x)) 0 xs"
  by (simp_all add: binary64_def)

lemma binary64_fsquare:
  "fsquare binary64 a =
     (if max_double < round64 (a * a) then Inl OverflowError else Inr (round64 (a * a)))"
  by (simp add: binary64_def)

lemma round64_small_values:
  "round64 0 = 0" "round64 1 = 1" "round64 2 = 2" "round64 3 = 3" "round64 4 = 4" "round64 5 = 5"
  "round64 6 = 6"
  "round64 (1 / 2) = 1 / 2" "round64 (1 / 4) = 1 / 4" "round64 (3 / 4) = 3 / 4"
  by (simp_all add: round64_eval)

text \<open>The double nearest to \<open>10\<^sup>-\<^sup>5\<close>, what the literal \<^verbatim>\<open>1e-05\<close> denotes.\<close>

lemma round64_1e_5: "round64 (1 / 100000) = 5902958103587057 / 590295810358705651712"
  by (simp add: round64_eval)

lemma pow2_powi: "pow2 k = 2 powi k"
  by (simp add: pow2_def power_int_def power_inverse [symmetric] inverse_eq_divide power_one_over)

lemma pow2_pos: "0 < pow2 k"
  by (simp add: pow2_def)

lemma pow2_diff: "pow2 (a - b) = pow2 a / pow2 b"
  by (simp add: pow2_powi power_int_diff)

lemma bexp_up_bounds:
  "1 \<le> x \<Longrightarrow> 0 \<le> bexp_up x \<and> pow2 (bexp_up x) \<le> x \<and> x < 2 * pow2 (bexp_up x)"
proof (induction x rule: bexp_up.induct)
  case (1 x)
  show ?case
  proof (cases "x < 2")
    case True
    then have "bexp_up x = 0" by (subst bexp_up.simps) simp
    with True "1.prems" show ?thesis by (simp add: pow2_def)
  next
    case False
    then have e: "bexp_up x = bexp_up (x / 2) + 1" by (subst bexp_up.simps) simp
    from False have "1 \<le> x / 2" by simp
    from "1.IH"[OF False this] have
      ih: "0 \<le> bexp_up (x / 2)" "pow2 (bexp_up (x / 2)) \<le> x / 2"
        "x / 2 < 2 * pow2 (bexp_up (x / 2))" by simp_all
    have p: "pow2 (bexp_up (x / 2) + 1) = 2 * pow2 (bexp_up (x / 2))"
      using ih(1) by (simp add: pow2_def nat_add_distrib)
    from ih p show ?thesis unfolding e by simp
  qed
qed

lemma round_half_even_error: "\<bar>of_int (round_half_even m) - m\<bar> \<le> 1 / 2"
  unfolding round_half_even_def Let_def
  by (auto simp: abs_le_iff)

lemma round_half_even_ge: "of_int k \<le> m \<Longrightarrow> k \<le> round_half_even m"
proof -
  assume "of_int k \<le> m"
  then have "k \<le> \<lfloor>m\<rfloor>" by (simp add: le_floor_iff)
  then show ?thesis by (simp add: round_half_even_def Let_def)
qed

text \<open>
  From 1 upwards rounding does not go below 1, and its relative error is at most \<open>2\<^sup>-\<^sup>5\<^sup>3\<close>.
\<close>

lemma round64_ge_1:
  assumes "1 \<le> x"
  shows "1 \<le> round64 x" and "\<bar>round64 x - x\<bar> \<le> x / 2 ^ 53"
proof -
  let ?e = "bexp_up x"
  let ?ulp = "pow2 (?e - 52)"
  let ?m = "x / ?ulp"
  from bexp_up_bounds[OF assms] have e: "0 \<le> ?e" "pow2 ?e \<le> x" by simp_all
  have u: "?ulp = pow2 ?e / 2 ^ 52" by (simp add: pow2_diff) (simp add: pow2_def)
  have up: "0 < ?ulp" by (rule pow2_pos)
  have pe: "1 \<le> pow2 ?e" using e(1) by (simp add: pow2_def)
  have r: "round64 x = of_int (round_half_even ?m) * ?ulp"
    using assms e(1) by (simp add: round64_def bexp_def Let_def max_def)
  have "2 ^ 52 * ?ulp \<le> x" using e(2) by (simp add: u)
  then have "(2 ^ 52 :: real) \<le> ?m" using up by (simp add: pos_le_divide_eq)
  then have "of_int (2 ^ 52) \<le> ?m" by simp
  then have "2 ^ 52 \<le> round_half_even ?m" by (rule round_half_even_ge)
  then have "of_int (2 ^ 52) \<le> (of_int (round_half_even ?m) :: real)"
    by (simp only: of_int_le_iff)
  then have "(2 ^ 52 :: real) \<le> of_int (round_half_even ?m)" by simp
  then have b: "2 ^ 52 * ?ulp \<le> of_int (round_half_even ?m) * ?ulp"
    using up by (simp only: mult_le_cancel_right_pos)
  have a: "2 ^ 52 * ?ulp = pow2 ?e" by (simp add: u)
  from pe a b show "1 \<le> round64 x" unfolding r by linarith
  have "round64 x - x = (of_int (round_half_even ?m) - ?m) * ?ulp"
    using up by (simp add: r algebra_simps)
  then have "\<bar>round64 x - x\<bar> = \<bar>of_int (round_half_even ?m) - ?m\<bar> * ?ulp"
    using up by (simp add: abs_mult)
  also have "\<dots> \<le> 1 / 2 * ?ulp"
    using round_half_even_error[of ?m] up by (intro mult_right_mono) simp_all
  also have "\<dots> = pow2 ?e / 2 ^ 53" by (simp add: u)
  also have "\<dots> \<le> x / 2 ^ 53" using e(2) by (simp add: divide_right_mono)
  finally show "\<bar>round64 x - x\<bar> \<le> x / 2 ^ 53" .
qed

section \<open>Properties of the adaptive pressure sampler\<close>

lemma sorted_snoc_gt:
  "sorted_wrt (<) pts \<Longrightarrow> pts \<noteq> [] \<Longrightarrow> last pts < (x::real) \<Longrightarrow> sorted_wrt (<) (pts @ [x])"
proof (induction pts)
  case Nil
  then show ?case by simp
next
  case (Cons a pts)
  show ?case
  proof (cases "pts = []")
    case True
    with Cons.prems show ?thesis by simp
  next
    case False
    with Cons.prems have l: "last pts < x" and a: "a < last pts" by auto
    then have "a < x" by simp
    with Cons False l show ?thesis by auto
  qed
qed

lemma sorted_wrt_le_last:
  "sorted_wrt (<) pts \<Longrightarrow> \<forall>x\<in>set pts. x \<le> (last pts :: real)"
proof (induction pts)
  case Nil
  then show ?case by simp
next
  case (Cons a pts)
  show ?case
  proof (cases "pts = []")
    case True
    then show ?thesis by simp
  next
    case False
    then have "last pts \<in> set pts" by simp
    with Cons.prems have "a < last pts" by simp
    then have a: "a \<le> last (a # pts)" using False by simp
    from Cons have "\<forall>x\<in>set pts. x \<le> last (a # pts)" using False by simp
    with a show ?thesis by simp
  qed
qed

text \<open>
  The loop returns as soon as every round moves the pressure up by at least some fixed \<open>d > 0\<close>.
\<close>

lemma pressure_loop_returns:
  assumes d: "0 < d"
    and step: "\<And>p. pressure_min ip \<le> p \<Longrightarrow> p \<le> pressure_max ip \<Longrightarrow>
                 \<exists>q. next_pressure ar ip b p = Inr q \<and> p + d \<le> q"
  shows "pts \<noteq> [] \<Longrightarrow> pressure_min ip \<le> last pts \<Longrightarrow> last pts \<le> pressure_max ip \<Longrightarrow>
     sorted_wrt (<) pts \<Longrightarrow> pressure_max ip - last pts < real n * d \<Longrightarrow>
     \<exists>rest. pressure_loop ar ip b pts = Some (Inr (pts @ rest @ [pressure_max ip])) \<and>
            sorted_wrt (<) (pts @ rest) \<and> last (pts @ rest) \<le> pressure_max ip"
proof (induction n arbitrary: pts)
  case 0
  then show ?case by simp
next
  case (Suc n)
  from step[OF Suc.prems(2,3)] obtain pnew where
    q: "next_pressure ar ip b (last pts) = Inr pnew" and ge: "last pts + d \<le> pnew"
    by blast
  show ?case
  proof (cases "pnew \<le> pressure_max ip")
    case True
    have lt: "last pts < pnew" using d ge by linarith
    have s: "sorted_wrt (<) (pts @ [pnew])"
      using Suc.prems(4,1) lt by (rule sorted_snoc_gt)
    have m: "pressure_max ip - pnew < real n * d"
    proof -
      have "pressure_max ip - pnew \<le> pressure_max ip - last pts - d" using ge by simp
      also have "\<dots> < real (Suc n) * d - d" using Suc.prems(5) by simp
      also have "\<dots> = real n * d" by (simp add: algebra_simps)
      finally show ?thesis .
    qed
    have "pressure_min ip \<le> pnew" using Suc.prems(2) lt by linarith
    with Suc.IH[of "pts @ [pnew]"] True s m
    obtain rest where r: "pressure_loop ar ip b (pts @ [pnew]) =
        Some (Inr ((pts @ [pnew]) @ rest @ [pressure_max ip]))"
      "sorted_wrt (<) ((pts @ [pnew]) @ rest)" "last ((pts @ [pnew]) @ rest) \<le> pressure_max ip"
      by auto
    have "pressure_loop ar ip b pts = pressure_loop ar ip b (pts @ [pnew])"
      using True Suc.prems(1) q by (subst pressure_loop.simps) simp
    with r show ?thesis by (intro exI[of _ "pnew # rest"]) simp
  next
    case False
    have "pressure_loop ar ip b pts = Some (Inr (pts @ [pressure_max ip]))"
      using False Suc.prems(1) q by (subst pressure_loop.simps) simp
    with Suc.prems show ?thesis by (intro exI[of _ "[]"]) simp
  qed
qed

text \<open>
  The loop does not return when a round leaves the pressure where it was, at or below
  \<^verbatim>\<open>pressure_max\<close>: the step was absorbed by the rounding of the sum.
\<close>

lemma pressure_loop_absorbed_step:
  assumes r: "pressure_loop ar ip b pts = Some y"
  shows "pts \<noteq> [] \<and> next_pressure ar ip b (last pts) = Inr (last pts) \<and>
         last pts \<le> pressure_max ip \<longrightarrow> False"
proof (rule pressure_loop.raw_induct[OF _ r,
      where P = "\<lambda>ar ip b pts y. pts \<noteq> [] \<and> next_pressure ar ip b (last pts) = Inr (last pts) \<and>
         last pts \<le> pressure_max ip \<longrightarrow> False"])
  fix f :: "arith \<Rightarrow> iso_parameters \<Rightarrow> real \<Rightarrow> real list \<Rightarrow> (py_exception + real list) option"
  fix ar ip b pts y
  assume IH: "\<And>ar ip b pts y. f ar ip b pts = Some y \<Longrightarrow>
      pts \<noteq> [] \<and> next_pressure ar ip b (last pts) = Inr (last pts) \<and>
      last pts \<le> pressure_max ip \<longrightarrow> False"
  assume eq: "(if pts = [] then Some (Inl IndexError)
      else case next_pressure ar ip b (last pts) of
           Inl e \<Rightarrow> Some (Inl e)
           | Inr pnew \<Rightarrow>
               if pnew \<le> pressure_max ip then f ar ip b (pts @ [pnew])
               else Some (Inr (pts @ [pressure_max ip]))) = Some y"
  show "pts \<noteq> [] \<and> next_pressure ar ip b (last pts) = Inr (last pts) \<and>
         last pts \<le> pressure_max ip \<longrightarrow> False"
  proof
    assume a: "pts \<noteq> [] \<and> next_pressure ar ip b (last pts) = Inr (last pts) \<and>
         last pts \<le> pressure_max ip"
    with eq have "f ar ip b (pts @ [last pts]) = Some y" by simp
    from IH[OF this] a show False by simp
  qed
qed

lemma sampler_facts:
  "pressure_list (sampler_params p0 pmax) = None"
  "pressure_min (sampler_params p0 pmax) = p0"
  "pressure_max (sampler_params p0 pmax) = pmax"
  "pressure_maxstep (sampler_params p0 pmax) = 1"
  "pressure_precision (sampler_params p0 pmax) = 1"
  "first_component sampler_widom = Inr sampler_mol"
  "get_num sampler_geom ''Estimated_saturation_loading'' = Inr 1"
  by (simp_all add: sampler_params_def sampler_widom_def sampler_geom_def sampler_mol_def
      first_component_def get_num_def)

lemma sampler_henry:
  "henry_coefficient_average sampler_mol = 5902958103587057 / 590295810358705651712"
  by (simp add: sampler_mol_def binary64_fields round64_1e_5)

lemma sampler_steepness:
  "fmul binary64 (fdiv binary64 (henry_coefficient_average sampler_mol) 1) 100000 = 1"
  by (simp add: sampler_mol_def binary64_fields round64_eval)

text \<open>
  With steepness 1, precision 1 and maximum step 1, the step of a round in binary64 arithmetic
  is 1 from every pressure \<open>p \<ge> 1\<close> whose square is in range: the next point is \<open>p + 1\<close>, rounded.
\<close>

lemma sampler_next:
  assumes "1 \<le> p" "p * p \<le> 2 ^ 1000"
  shows "next_pressure binary64 (sampler_params p0 pmax) 1 p = Inr (round64 (p + 1))"
proof -
  have pp: "1 \<le> p * p" using assms(1) by (simp add: mult_ge1_I)
  have sq1: "1 \<le> round64 (p * p)" by (rule round64_ge_1(1)[OF pp])
  have "\<bar>round64 (p * p) - p * p\<bar> \<le> p * p / 2 ^ 53" by (rule round64_ge_1(2)[OF pp])
  then have "round64 (p * p) \<le> p * p + p * p / 2 ^ 53" by linarith
  also have "\<dots> \<le> 2 ^ 1000 + 2 ^ 1000 / 2 ^ 53"
    using assms(2) by (intro add_mono divide_right_mono) simp_all
  also have "\<dots> \<le> max_double" by (simp add: max_double_def)
  finally have sq: "fsquare binary64 p = Inr (round64 (p * p))"
    by (simp add: binary64_fsquare)
  have a: "1 \<le> round64 (1 * round64 (p * p))" using sq1 by (intro round64_ge_1(1)) simp
  have b: "1 \<le> round64 (2 * p)" using assms(1) by (intro round64_ge_1(1)) simp
  have c: "1 \<le> round64 (round64 (1 * round64 (p * p)) + round64 (2 * p))"
    using a b by (intro round64_ge_1(1)) linarith
  have d: "1 \<le> round64 (round64 (round64 (1 * round64 (p * p)) + round64 (2 * p)) + round64 (1 / 1))"
    using c by (intro round64_ge_1(1)) (simp add: round64_small_values)
  have e: "1 \<le> round64 (1 * round64 (round64 (round64 (1 * round64 (p * p)) + round64 (2 * p))
                                      + round64 (1 / 1)))"
    using d by (intro round64_ge_1(1)) simp
  have m: "min 1 (round64 (1 * round64 (round64 (round64 (1 * round64 (p * p)) + round64 (2 * p))
                                      + round64 (1 / 1)))) = 1"
    using e by (simp only: min_def) simp
  have "next_pressure binary64 (sampler_params p0 pmax) 1 p =
        Inr (round64 (p + min 1 (round64 (1 * round64 (round64 (round64 (1 * round64 (p * p))
                                      + round64 (2 * p)) + round64 (1 / 1))))))"
    by (simp only: next_pressure_def sq sbind_def sum.case sampler_facts binary64_fields Let_def)
      simp
  then show ?thesis by (simp only: m)
qed

lemma sampler_steps:
  "next_pressure binary64 (sampler_params p0 pmax) 1 1 = Inr 2"
  "next_pressure binary64 (sampler_params p0 pmax) 1 2 = Inr 3"
  "next_pressure binary64 (sampler_params p0 pmax) 1 3 = Inr 4"
  by (simp_all add: sampler_next round64_small_values)

text \<open>
  In binary64 the step is absorbed at \<open>10\<^sup>1\<^sup>7\<close>, where neighbouring doubles are 16 apart: with
  steepness 1, precision 1 and maximum step 1, \<^verbatim>\<open>1e17 + 1.0 == 1e17\<close>, so the sampler does not
  return for \<^verbatim>\<open>pressure_min = pressure_max = 1e17\<close>.
\<close>

lemma round64_absorbs: "round64 (10 ^ 17 + 1) = 10 ^ 17"
  by (simp add: round64_eval)

lemma sampler_absorbed_step_example:
  "next_pressure binary64 (sampler_params (10 ^ 17) (10 ^ 17)) 1 (10 ^ 17) = Inr (10 ^ 17)"
  "choose_pressure_points binary64 (sampler_params (10 ^ 17) (10 ^ 17)) sampler_geom sampler_widom =
     None"
proof -
  have "next_pressure binary64 (sampler_params (10 ^ 17) (10 ^ 17)) 1 (10 ^ 17) =
        Inr (round64 (10 ^ 17 + 1))"
    by (rule sampler_next) simp_all
  then show n: "next_pressure binary64 (sampler_params (10 ^ 17) (10 ^ 17)) 1 (10 ^ 17) =
      Inr (10 ^ 17)"
    by (simp only: round64_absorbs)
  have "pressure_loop binary64 (sampler_params (10 ^ 17) (10 ^ 17)) 1 [10 ^ 17] = None"
  proof (cases "pressure_loop binary64 (sampler_params (10 ^ 17) (10 ^ 17)) 1 [10 ^ 17]")
    case None
    then show ?thesis .
  next
    case (Some y)
    from pressure_loop_absorbed_step[OF Some] n show ?thesis by (simp add: sampler_facts)
  qed
  then show "choose_pressure_points binary64 (sampler_params (10 ^ 17) (10 ^ 17)) sampler_geom
      sampler_widom = None"
    by (simp add: choose_pressure_points_def sampler_facts sampler_steepness)
qed

text \<open>
  Claim C2, as stated, fails: the list starts with \<^verbatim>\<open>pressure_min\<close> and the loop always appends
  \<^verbatim>\<open>pressure_max\<close> when it stops, so for \<open>p0 = pmax = 1\<close> the result in binary64 arithmetic is
  \<open>[1, 1]\<close>, two elements, not \<open>[1]\<close>.
\<close>

theorem sampler_min_eq_max_counterexample:
  "pressure_list (sampler_params 1 1) = None \<and>
   pressure_min (sampler_params 1 1) = pressure_max (sampler_params 1 1) \<and>
   choose_pressure_points binary64 (sampler_params 1 1) sampler_geom sampler_widom =
     Some (Inr [1, 1]) \<and>
   choose_pressure_points binary64 (sampler_params 1 1) sampler_geom sampler_widom \<noteq>
     Some (Inr [pressure_max (sampler_params 1 1)])"
  by (simp add: choose_pressure_points_def sampler_facts sampler_steepness sampler_steps
      pressure_loop.simps)

text \<open>
  Claim C2, amended, for any arithmetic. When \<^verbatim>\<open>pressure_min\<close> equals \<^verbatim>\<open>pressure_max\<close>, no
  \<^verbatim>\<open>pressure_list\<close> is given, and the first round computes without error a point \<^verbatim>\<open>pnew\<close> that
  is greater than \<^verbatim>\<open>pressure_max\<close> (the step was not absorbed by the rounding of
  \<^verbatim>\<open>pold + delta_p\<close>), the generated sequence is exactly \<open>[pmax, pmax]\<close>: the minimum followed by
  the maximum.
\<close>

theorem choose_pressure_points_min_eq_max:
  assumes "pressure_list ip = None"
    and "pressure_min ip = pressure_max ip"
    and "first_component widom = Inr mol"
    and "get_num g ''Estimated_saturation_loading'' = Inr qsat"
    and "qsat \<noteq> 0"
    and "next_pressure ar ip (fmul ar (fdiv ar (henry_coefficient_average mol) qsat) 100000)
           (pressure_min ip) = Inr pnew"
    and "pressure_max ip < pnew"
  shows "choose_pressure_points ar ip g widom = Some (Inr [pressure_max ip, pressure_max ip])"
proof -
  let ?b = "fmul ar (fdiv ar (henry_coefficient_average mol) qsat) 100000"
  have "pressure_loop ar ip ?b [pressure_min ip] = Some (Inr [pressure_min ip, pressure_max ip])"
    using assms(6,7) by (subst pressure_loop.simps) simp
  then show ?thesis
    using assms(1-5) by (simp add: choose_pressure_points_def)
qed

theorem choose_pressure_points_min_eq_max_witness:
  "pressure_min (sampler_params 1 1) = pressure_max (sampler_params 1 1) \<and>
   choose_pressure_points binary64 (sampler_params 1 1) sampler_geom sampler_widom =
     Some (Inr [1, 1])"
  using choose_pressure_points_min_eq_max[of "sampler_params 1 1" sampler_widom sampler_mol
      sampler_geom 1 binary64 2]
  by (simp add: sampler_facts sampler_steepness sampler_steps)

text \<open>
  Claim C3, as stated, fails on "strictly increasing": when a generated point lands exactly on
  \<^verbatim>\<open>pressure_max\<close> it is appended (the test is \<^verbatim>\<open>pnew <= pressure_max\<close>), and the next round
  appends \<^verbatim>\<open>pressure_max\<close> once more. With \<open>p0 = 1\<close>, \<open>pmax = 3\<close> and steps of 1 the result in
  binary64 arithmetic is \<open>[1, 2, 3, 3]\<close>.
\<close>

theorem sampler_not_strictly_increasing_counterexample:
  "pressure_list (sampler_params 1 3) = None \<and>
   pressure_min (sampler_params 1 3) < pressure_max (sampler_params 1 3) \<and>
   choose_pressure_points binary64 (sampler_params 1 3) sampler_geom sampler_widom =
     Some (Inr [1, 2, 3, 3]) \<and>
   \<not> sorted_wrt (<) [1, 2, 3, 3 :: real]"
  by (simp add: choose_pressure_points_def sampler_facts sampler_steepness sampler_steps
      pressure_loop.simps)

text \<open>
  Between 1 and 3, with steepness 1, precision 1 and maximum step 1, every round of the loop
  in binary64 arithmetic moves the pressure up by at least \<open>1/2\<close>, whatever the pressure.
\<close>

lemma sampler_progress:
  assumes "1 \<le> p" "p \<le> 3"
  shows "\<exists>q. next_pressure binary64 (sampler_params 1 3) 1 p = Inr q \<and> p + 1 / 2 \<le> q"
proof -
  have "p * p \<le> 3 * 3" using assms by (intro mult_mono) simp_all
  also have "\<dots> \<le> (2 ^ 1000 :: real)" by simp
  finally have n: "next_pressure binary64 (sampler_params 1 3) 1 p = Inr (round64 (p + 1))"
    using assms(1) by (intro sampler_next)
  have p1: "1 \<le> p + 1" using assms(1) by simp
  have "\<bar>round64 (p + 1) - (p + 1)\<bar> \<le> (p + 1) / 2 ^ 53" by (rule round64_ge_1(2)[OF p1])
  moreover have "(p + 1) / 2 ^ 53 \<le> 4 / 2 ^ 53" using assms(2) by (intro divide_right_mono) simp_all
  moreover have "(4 :: real) / 2 ^ 53 \<le> 1 / 2" by simp
  ultimately have "p + 1 / 2 \<le> round64 (p + 1)" by linarith
  with n show ?thesis by simp
qed

text \<open>
  Claim C3, amended, for any arithmetic. With no \<^verbatim>\<open>pressure_list\<close>, a non-zero saturation loading
  and \<open>p0 < pmax\<close>, suppose every round makes progress: there is some \<open>d > 0\<close> such that from every
  pressure \<open>p\<close> between \<open>p0\<close> and \<open>pmax\<close> the loop computes the next point without error, and that
  point is at least \<open>p + d\<close>. Then the sampler returns a sequence (the same one at every
  invocation, being a function of its arguments) that starts with \<open>p0\<close>, is strictly increasing up
  to its last-but-one element, is non-decreasing as a whole, and whose last element is \<open>pmax\<close>
  exactly. Where rounding absorbs the step the hypothesis fails, and the sampler does not return
  (\<open>sampler_absorbed_step_example\<close>).
\<close>

theorem choose_pressure_points_increasing:
  assumes "pressure_list ip = None"
    and "first_component widom = Inr mol"
    and "get_num g ''Estimated_saturation_loading'' = Inr qsat"
    and "qsat \<noteq> 0"
    and "pressure_min ip < pressure_max ip"
    and "0 < d"
    and "\<forall>p. pressure_min ip \<le> p \<and> p \<le> pressure_max ip \<longrightarrow>
           (\<exists>q. next_pressure ar ip (fmul ar (fdiv ar (henry_coefficient_average mol) qsat) 100000) p
                  = Inr q \<and> p + d \<le> q)"
  shows "\<exists>pts. choose_pressure_points ar ip g widom = Some (Inr pts) \<and>
           hd pts = pressure_min ip \<and> last pts = pressure_max ip \<and>
           sorted_wrt (<) (butlast pts) \<and> sorted pts"
proof -
  let ?b = "fmul ar (fdiv ar (henry_coefficient_average mol) qsat) 100000"
  have step: "\<And>p. pressure_min ip \<le> p \<Longrightarrow> p \<le> pressure_max ip \<Longrightarrow>
                 \<exists>q. next_pressure ar ip ?b p = Inr q \<and> p + d \<le> q"
    using assms(7) by blast
  obtain n :: nat where n: "(pressure_max ip - pressure_min ip) / d < real n"
    using reals_Archimedean2 by blast
  then have m: "pressure_max ip - last [pressure_min ip] < real n * d"
    using assms(6) by (simp add: pos_divide_less_eq)
  obtain rest where r:
    "pressure_loop ar ip ?b [pressure_min ip] =
       Some (Inr ([pressure_min ip] @ rest @ [pressure_max ip]))"
    "sorted_wrt (<) ([pressure_min ip] @ rest)"
    "last ([pressure_min ip] @ rest) \<le> pressure_max ip"
    using pressure_loop_returns[OF assms(6) step, of "[pressure_min ip]" n] assms(5) m
    by auto
  let ?pts = "[pressure_min ip] @ rest @ [pressure_max ip]"
  have c: "choose_pressure_points ar ip g widom = Some (Inr ?pts)"
    using assms(1,2,3,4) r(1) by (simp add: choose_pressure_points_def)
  have bl: "butlast ?pts = [pressure_min ip] @ rest"
    by (simp add: butlast_append)
  have le: "\<forall>x\<in>set ([pressure_min ip] @ rest). x \<le> pressure_max ip"
    using sorted_wrt_le_last[OF r(2)] r(3) by fastforce
  have s: "sorted ?pts"
  proof -
    have "sorted ([pressure_min ip] @ rest)"
      using r(2) by (rule sorted_wrt_mono_rel[rotated]) simp
    then have "sorted (([pressure_min ip] @ rest) @ [pressure_max ip])"
      using le by (simp only: sorted_append) auto
    then show ?thesis by simp
  qed
  have h: "hd ?pts = pressure_min ip" by simp
  have l: "last ?pts = pressure_max ip" by simp
  have sb: "sorted_wrt (<) (butlast ?pts)" using r(2) by (simp only: bl)
  from c h l sb s show ?thesis by blast
qed

theorem choose_pressure_points_increasing_witness:
  "\<exists>pts. choose_pressure_points binary64 (sampler_params 1 3) sampler_geom sampler_widom =
           Some (Inr pts) \<and>
     hd pts = 1 \<and> last pts = 3 \<and> sorted_wrt (<) (butlast pts) \<and> sorted pts"
proof -
  have "\<forall>p. pressure_min (sampler_params 1 3) \<le> p \<and> p \<le> pressure_max (sampler_params 1 3) \<longrightarrow>
          (\<exists>q. next_pressure binary64 (sampler_params 1 3)
                  (fmul binary64 (fdiv binary64 (henry_coefficient_average sampler_mol) 1) 100000) p
                 = Inr q \<and> p + 1 / 2 \<le> q)"
    using sampler_progress by (simp add: sampler_facts sampler_steepness)
  with choose_pressure_points_increasing[of "sampler_params 1 3" sampler_widom sampler_mol
      sampler_geom 1 "1 / 2" binary64]
  show ?thesis by (simp add: sampler_facts)
qed

section \<open>Properties of the isotherm work chain\<close>

lemma gcmc_loop_total:
  "current_p_index ctx = Some i \<Longrightarrow> pressures ctx = Some ps \<Longrightarrow> i \<le> length ps \<Longrightarrow>
   length (case raspa_gcmc ctx of None \<Rightarrow> [] | Some calcs \<Rightarrow> calcs) = i \<Longrightarrow>
   n = length ps - i \<Longrightarrow>
   \<exists>ctx'. gcmc_loop w ctx = Inr ctx' \<and>
     submitted ctx' = submitted ctx @ map (\<lambda>j. gcmc_label (j + 1)) [i..<length ps] \<and>
     geom ctx' = geom ctx \<and> raspa_widom ctx' = raspa_widom ctx \<and>
     is_kh_enough ctx' = is_kh_enough ctx \<and> multitemp_mode ctx' = multitemp_mode ctx \<and>
     out_block ctx' = out_block ctx \<and> out_output_parameters ctx' = out_output_parameters ctx \<and>
     pressures ctx' = Some ps \<and>
     (i < length ps \<longrightarrow> raspa_gcmc ctx' \<noteq> None) \<and>
     (i = length ps \<longrightarrow> raspa_gcmc ctx' = raspa_gcmc ctx)"
proof (induction n arbitrary: ctx i)
  case 0
  then have "i = length ps" by simp
  with 0 have "gcmc_loop w ctx = Inr ctx"
    by (subst gcmc_loop.simps) (simp add: should_run_another_gcmc_def)
  with \<open>i = length ps\<close> "0.prems"(2) show ?case by simp
next
  case (Suc n)
  then have lt: "i < length ps" by simp
  define calcs where "calcs = (case raspa_gcmc ctx of None \<Rightarrow> [] | Some c \<Rightarrow> c)"
  define ctx1 where "ctx1 = ctx\<lparr>raspa_gcmc := Some (calcs @ [(gcmc_label (i + 1), gcmc_job w i (ps ! i))]),
                            submitted := submitted ctx @ [gcmc_label (i + 1)],
                            current_p_index := Some (i + 1)\<rparr>"
  have len: "length calcs = i"
    using Suc.prems(4) by (simp add: calcs_def)
  have step: "run_raspa_gcmc w ctx = Inr ctx1"
    using Suc.prems(1,2,4) lt
    by (cases "raspa_gcmc ctx") (auto simp: run_raspa_gcmc_def sbind_def ctx1_def calcs_def)
  have "\<exists>ctx'. gcmc_loop w ctx1 = Inr ctx' \<and>
     submitted ctx' = submitted ctx1 @ map (\<lambda>j. gcmc_label (j + 1)) [i + 1..<length ps] \<and>
     geom ctx' = geom ctx1 \<and> raspa_widom ctx' = raspa_widom ctx1 \<and>
     is_kh_enough ctx' = is_kh_enough ctx1 \<and> multitemp_mode ctx' = multitemp_mode ctx1 \<and>
     out_block ctx' = out_block ctx1 \<and> out_output_parameters ctx' = out_output_parameters ctx1 \<and>
     pressures ctx' = Some ps \<and>
     (i + 1 < length ps \<longrightarrow> raspa_gcmc ctx' \<noteq> None) \<and>
     (i + 1 = length ps \<longrightarrow> raspa_gcmc ctx' = raspa_gcmc ctx1)"
    using Suc.prems lt len by (intro Suc.IH) (simp_all add: ctx1_def)
  then obtain ctx' where c: "gcmc_loop w ctx1 = Inr ctx'"
     "submitted ctx' = submitted ctx1 @ map (\<lambda>j. gcmc_label (j + 1)) [i + 1..<length ps]"
     "geom ctx' = geom ctx1" "raspa_widom ctx' = raspa_widom ctx1"
     "is_kh_enough ctx' = is_kh_enough ctx1" "multitemp_mode ctx' = multitemp_mode ctx1"
     "out_block ctx' = out_block ctx1" "out_output_parameters ctx' = out_output_parameters ctx1"
     "pressures ctx' = Some ps"
     "i + 1 < length ps \<longrightarrow> raspa_gcmc ctx' \<noteq> None"
     "i + 1 = length ps \<longrightarrow> raspa_gcmc ctx' = raspa_gcmc ctx1"
    by blast
  have loop: "gcmc_loop w ctx = Inr ctx'"
    using Suc.prems(1,2) lt step c(1)
    by (subst gcmc_loop.simps) (simp add: should_run_another_gcmc_def)
  have ne: "raspa_gcmc ctx' \<noteq> None"
    using c(10,11) lt by (cases "i + 1 = length ps") (auto simp: ctx1_def)
  have sub: "submitted ctx' = submitted ctx @ map (\<lambda>j. gcmc_label (j + 1)) [i..<length ps]"
    using c(2) lt by (simp add: ctx1_def upt_conv_Cons)
  show ?case
    using loop sub ne c(3-9) lt by (intro exI[of _ ctx']) (simp add: ctx1_def)
qed

lemma get_geometric_dict_ok:
  assumes "get_num zo ''POAV_cm^3/g'' = Inr v" and "get_num zo ''POAV_A^3'' = Inr a"
  shows "get_geometric_dict ar zo mol =
           Inr (zo(''Estimated_saturation_loading'' \<mapsto> PNum (fmul ar v (molsatdens mol)),
                   ''Estimated_saturation_loading_unit'' \<mapsto> PStr ''mol/kg'',
                   ''is_porous'' \<mapsto> PBool (0 < a)))"
  using assms by (simp add: get_geometric_dict_def sbind_def)

lemma should_run_widom_zeopp:
  assumes "geometric inp = None"
    and "get_num (zeopp_output_parameters (zeopp_job w)) ''POAV_cm^3/g'' = Inr v"
    and "get_num (zeopp_output_parameters (zeopp_job w)) ''POAV_A^3'' = Inr a"
    and "0 < a \<longrightarrow> get_num (zeopp_output_parameters (zeopp_job w)) ''Number_of_blocking_spheres'' = Inr nb"
  shows "should_run_widom ar inp (run_zeopp w (iso_setup inp)) =
     Inr (0 < a \<and> temperature_list (parameters inp) = None,
       \<lparr>multitemp_mode = (if temperature_list (parameters inp) \<noteq> None then Some run_geom_only else None),
        zeopp = Some (zeopp_job w),
        geom = Some ((zeopp_output_parameters (zeopp_job w))
                 (''Estimated_saturation_loading'' \<mapsto> PNum (fmul ar v (molsatdens (iso_molecule inp))),
                  ''Estimated_saturation_loading_unit'' \<mapsto> PStr ''mol/kg'',
                  ''is_porous'' \<mapsto> PBool (0 < a))),
        raspa_widom = None, is_kh_enough = None, current_p_index = None, pressures = None,
        raspa_gcmc = None, submitted = [''ZeoppVolpoBlock''],
        out_block = (if 0 < a \<and> 0 < nb then Some (block (zeopp_job w)) else None),
        out_output_parameters = None\<rparr>)"
proof -
  let ?zo = "zeopp_output_parameters (zeopp_job w)"
  let ?g = "?zo(''Estimated_saturation_loading'' \<mapsto> PNum (fmul ar v (molsatdens (iso_molecule inp))),
                ''Estimated_saturation_loading_unit'' \<mapsto> PStr ''mol/kg'',
                ''is_porous'' \<mapsto> PBool (0 < a))"
  have g: "get_geometric_dict ar ?zo (iso_molecule inp) = Inr ?g"
    using assms(2,3) by (rule get_geometric_dict_ok)
  have p: "get_item (m(''is_porous'' \<mapsto> z)) ''is_porous'' = Inr z" for m z
    by (simp add: get_item_def)
  have n: "get_num (?zo(''Estimated_saturation_loading'' \<mapsto> x,
                ''Estimated_saturation_loading_unit'' \<mapsto> y,
                ''is_porous'' \<mapsto> z)) ''Number_of_blocking_spheres'' =
           get_num ?zo ''Number_of_blocking_spheres''" for x y z
    by (simp add: get_num_def)
  have z: "zeopp (run_zeopp w (iso_setup inp)) = Some (zeopp_job w)"
    and m: "multitemp_mode (run_zeopp w (iso_setup inp)) \<noteq> Some run_single_temp"
    using assms(1) by (simp_all add: run_zeopp_def iso_setup_def)
  show ?thesis
  proof (cases "0 < a")
    case True
    with assms(4) have nb: "get_num ?zo ''Number_of_blocking_spheres'' = Inr nb"
      by simp
    show ?thesis
      using True assms(1)
      by (simp add: should_run_widom_def z m g p n nb sbind_def)
         (simp add: run_zeopp_def iso_setup_def)
  next
    case False
    show ?thesis
      using False assms(1)
      by (simp add: should_run_widom_def z m g p sbind_def)
         (simp add: run_zeopp_def iso_setup_def)
  qed
qed

lemma gate_false_run:
  assumes "geometric inp = None"
    and "get_num (zeopp_output_parameters (zeopp_job w)) ''POAV_cm^3/g'' = Inr v"
    and "get_num (zeopp_output_parameters (zeopp_job w)) ''POAV_A^3'' = Inr a"
    and "0 < a \<longrightarrow> get_num (zeopp_output_parameters (zeopp_job w)) ''Number_of_blocking_spheres'' = Inr nb"
    and "\<not> (0 < a \<and> temperature_list (parameters inp) = None)"
  shows "\<exists>ctx. isotherm_workchain ar inp w = Some (Inr ctx) \<and>
           submitted ctx = [''ZeoppVolpoBlock''] \<and>
           out_output_parameters ctx =
             Some ((zeopp_output_parameters (zeopp_job w))
                 (''Estimated_saturation_loading'' \<mapsto> PNum (fmul ar v (molsatdens (iso_molecule inp))),
                  ''Estimated_saturation_loading_unit'' \<mapsto> PStr ''mol/kg'',
                  ''is_porous'' \<mapsto> PBool (0 < a))) \<and>
           out_block ctx = (if 0 < a \<and> 0 < nb then Some (block (zeopp_job w)) else None)"
proof -
  let ?g = "(zeopp_output_parameters (zeopp_job w))
                 (''Estimated_saturation_loading'' \<mapsto> PNum (fmul ar v (molsatdens (iso_molecule inp))),
                  ''Estimated_saturation_loading_unit'' \<mapsto> PStr ''mol/kg'',
                  ''is_porous'' \<mapsto> PBool (0 < a))"
  let ?mode = "if temperature_list (parameters inp) \<noteq> None then Some run_geom_only else None"
  let ?blk = "if 0 < a \<and> 0 < nb then Some (block (zeopp_job w)) else None"
  let ?ctx1 = "\<lparr>multitemp_mode = ?mode, zeopp = Some (zeopp_job w), geom = Some ?g,
        raspa_widom = None, is_kh_enough = None, current_p_index = None, pressures = None,
        raspa_gcmc = None, submitted = [''ZeoppVolpoBlock''], out_block = ?blk,
        out_output_parameters = None\<rparr>"
  have gate: "(0 < a \<and> temperature_list (parameters inp) = None) = False"
    using assms(5) by simp
  have s: "should_run_widom ar inp (run_zeopp w (iso_setup inp)) = Inr (False, ?ctx1)"
    using should_run_widom_zeopp[OF assms(1-4)] unfolding gate .
  have p: "get_item ?g ''is_porous'' = Inr (PBool (0 < a))"
    by (simp add: get_item_def)
  have c: "\<not> (truthy (PBool (0 < a)) \<and> \<not> ?mode = Some run_geom_only)"
    using assms(5) by auto
  have r: "return_output_parameters ar inp ?ctx1 =
             Inr (?ctx1\<lparr>pressures := None, out_output_parameters := Some ?g\<rparr>)"
    unfolding return_output_parameters_def get_output_parameters_def
    using c by (simp add: p sbind_def del: truthy.simps)
  have "isotherm_workchain ar inp w = Some (Inr (?ctx1\<lparr>pressures := None, out_output_parameters := Some ?g\<rparr>))"
    unfolding isotherm_workchain_def s using r by simp
  then show ?thesis by simp
qed

lemma get_geometric_dict_other_key:
  assumes "get_geometric_dict ar zo mol = Inr g"
    and "k \<noteq> ''Estimated_saturation_loading''" and "k \<noteq> ''Estimated_saturation_loading_unit''"
    and "k \<noteq> ''is_porous''"
  shows "g k = zo k"
  using assms by (auto simp: get_geometric_dict_def sbind_def split: sum.splits)

lemma should_run_widom_inv:
  assumes "should_run_widom ar inp (run_zeopp w (iso_setup inp)) = Inr (wd, ctx1)"
    and "zeopp_output_parameters (zeopp_job w) ''is_kh_enough'' = None"
    and "\<forall>g. geometric inp = Some g \<longrightarrow> g ''is_kh_enough'' = None"
  shows "\<exists>g. geom ctx1 = Some g \<and> g ''is_kh_enough'' = None"
    and "raspa_widom ctx1 = None" and "is_kh_enough ctx1 = None" and "raspa_gcmc ctx1 = None"
    and "set (submitted ctx1) \<subseteq> {''ZeoppVolpoBlock''}"
proof -
  have k: "g ''is_kh_enough'' = None"
    if "get_geometric_dict ar (zeopp_output_parameters (zeopp_job w)) (iso_molecule inp) = Inr g" for g
    using get_geometric_dict_other_key[OF that, of "''is_kh_enough''"] assms(2) by simp
  show "\<exists>g. geom ctx1 = Some g \<and> g ''is_kh_enough'' = None"
    using assms(1,3) k
    by (auto simp: should_run_widom_def run_zeopp_def iso_setup_def sbind_def
        split: if_splits option.splits sum.splits)
  show "raspa_widom ctx1 = None" and "is_kh_enough ctx1 = None" and "raspa_gcmc ctx1 = None"
    and "set (submitted ctx1) \<subseteq> {''ZeoppVolpoBlock''}"
    using assms(1)
    by (auto simp: should_run_widom_def run_zeopp_def iso_setup_def sbind_def
        split: if_splits option.splits sum.splits)
qed

lemma run_raspa_widom_inv:
  assumes "run_raspa_widom inp w ctx1 = Inr ctx2"
  shows "ctx2 = ctx1\<lparr>raspa_widom := Some (widom_job w),
                      submitted := submitted ctx1 @ [''RaspaWidom'']\<rparr>"
  using assms
  by (auto simp: run_raspa_widom_def sbind_def split: if_splits option.splits sum.splits)

lemma should_run_gcmc_inv:
  assumes "should_run_gcmc inp ctx2 = Inr (gc, ctx3)" and "raspa_widom ctx2 = Some widom"
  shows "\<exists>mol. first_component widom = Inr mol \<and>
           gc = (henry_coefficient_average mol > raspa_minKh (parameters inp)) \<and>
           ctx3 = ctx2\<lparr>is_kh_enough := Some gc\<rparr>"
  using assms
  by (auto simp: should_run_gcmc_def sbind_def Let_def split: sum.splits)

lemma init_raspa_gcmc_inv:
  assumes "init_raspa_gcmc ar inp ctx3 = Some (Inr ctx4)"
  shows "\<exists>ps. ctx4 = ctx3\<lparr>current_p_index := Some 0, pressures := Some ps\<rparr>"
  using assms
  by (auto simp: init_raspa_gcmc_def sbind_def split: option.splits sum.splits)

lemma isotherm_block_other_key:
  assumes "isotherm_block ar ps d od = Inr out" and "k = ''is_kh_enough''"
  shows "out k = od k"
  using assms
  by (auto simp: isotherm_block_def sbind_def split: sum.splits option.splits)

lemma get_output_parameters_kh:
  assumes "get_output_parameters ar g p wo ps d = Inr out" and "g ''is_kh_enough'' = None"
    and "out ''is_kh_enough'' = Some v"
  shows "\<exists>widom mol. wo = Some widom \<and> first_component widom = Inr mol \<and>
           v = PBool (henry_coefficient_average mol > raspa_minKh p)"
proof (cases wo)
  case None
  with assms show ?thesis
    by (auto simp: get_output_parameters_def sbind_def split: sum.splits)
next
  case (Some widom)
  show ?thesis
  proof (cases "first_component widom")
    case (Inl e)
    with assms Some show ?thesis
      by (auto simp: get_output_parameters_def sbind_def split: sum.splits if_splits)
  next
    case (Inr mol)
    show ?thesis
    proof (cases "henry_coefficient_average mol > raspa_minKh p")
      case True
      with assms Some Inr show ?thesis
        by (auto simp: get_output_parameters_def sbind_def Let_def
            split: sum.splits if_splits option.splits
            dest!: isotherm_block_other_key[where k = "''is_kh_enough''"])
    next
      case False
      with assms Some Inr show ?thesis
        by (auto simp: get_output_parameters_def sbind_def Let_def split: sum.splits if_splits)
    qed
  qed
qed

lemma return_output_parameters_kh:
  assumes "return_output_parameters ar inp ctx = Inr ctx'" and "geom ctx = Some g"
    and "g ''is_kh_enough'' = None"
    and "out_output_parameters ctx' = Some out" and "out ''is_kh_enough'' = Some v"
  shows "\<exists>widom mol kh. raspa_widom ctx = Some widom \<and> first_component widom = Inr mol \<and>
           is_kh_enough ctx = Some kh \<and>
           v = PBool (henry_coefficient_average mol > raspa_minKh (parameters inp)) \<and>
           (kh \<longrightarrow> raspa_gcmc ctx \<noteq> None)"
    and "submitted ctx' = submitted ctx" and "is_kh_enough ctx' = is_kh_enough ctx"
proof -
  from assms(1,2) obtain wo ps d where
    a: "get_output_parameters ar g (parameters inp) wo ps d = Inr out"
    and b: "wo = None \<or> (\<exists>kh. wo = raspa_widom ctx \<and> is_kh_enough ctx = Some kh \<and>
              (kh \<longrightarrow> raspa_gcmc ctx \<noteq> None))"
    and c: "ctx' = ctx\<lparr>pressures := ps, out_output_parameters := Some out\<rparr>"
    using assms(4)
    by (auto simp: return_output_parameters_def sbind_def
        split: sum.splits option.splits if_splits prod.splits)
  from get_output_parameters_kh[OF a assms(3,5)] obtain widom mol where
    w: "wo = Some widom" "first_component widom = Inr mol"
      "v = PBool (henry_coefficient_average mol > raspa_minKh (parameters inp))"
    by blast
  from b w(1) obtain kh where
    k: "raspa_widom ctx = Some widom" "is_kh_enough ctx = Some kh"
      "kh \<longrightarrow> raspa_gcmc ctx \<noteq> None"
    by auto
  from k w(2,3) show "\<exists>widom mol kh. raspa_widom ctx = Some widom \<and> first_component widom = Inr mol \<and>
           is_kh_enough ctx = Some kh \<and>
           v = PBool (henry_coefficient_average mol > raspa_minKh (parameters inp)) \<and>
           (kh \<longrightarrow> raspa_gcmc ctx \<noteq> None)"
    by blast
  from c show "submitted ctx' = submitted ctx" and "is_kh_enough ctx' = is_kh_enough ctx"
    by simp_all
qed

lemma gcmc_label_1: "gcmc_label 1 = ''RaspaGCMC_1''" "gcmc_label (Suc 0) = ''RaspaGCMC_1''"
  by (simp_all add: gcmc_label_def str_of_nat.simps)

lemma example_facts:
  "geometric (example_inputs minkh tlist plist) = None"
  "temperature_list (parameters (example_inputs minkh tlist plist)) = tlist"
  "raspa_minKh (parameters (example_inputs minkh tlist plist)) = minkh"
  "raspa_verbosity (parameters (example_inputs minkh tlist plist)) = 10"
  "molsatdens (iso_molecule (example_inputs minkh tlist plist)) = 1"
  "zeopp_output_parameters (zeopp_job (example_world poav)) = example_zeopp_out poav"
  "block (zeopp_job (example_world poav)) = ''block_file''"
  "widom_job (example_world poav) = sampler_widom"
  "get_num (example_zeopp_out poav) ''POAV_cm^3/g'' = Inr poav"
  "get_num (example_zeopp_out poav) ''POAV_A^3'' = Inr poav"
  "get_num (example_zeopp_out poav) ''Number_of_blocking_spheres'' = Inr 3"
  "example_zeopp_out poav ''POAV_Volume_fraction'' = Some (PNum (1 / 2))"
  "example_zeopp_out poav ''isotherm'' = None"
  "example_zeopp_out poav ''is_kh_enough'' = None"
  by (simp_all add: example_inputs_def example_world_def example_zeopp_out_def sampler_params_def
      get_num_def)

lemma example_full_run:
  "\<exists>ctx out. isotherm_workchain binary64 (example_inputs 0 None (Some [2])) (example_world 1) = Some (Inr ctx) \<and>
     out_output_parameters ctx = Some out \<and> out ''is_kh_enough'' = Some (PBool True)"
proof -
  let ?I = "example_inputs 0 None (Some [2])"
  let ?W = "example_world 1"
  have s1: "should_run_widom binary64 ?I (run_zeopp ?W (iso_setup ?I)) =
     Inr (True,
       \<lparr>multitemp_mode = None, zeopp = Some (zeopp_job ?W),
        geom = Some ((example_zeopp_out 1)
                 (''Estimated_saturation_loading'' \<mapsto> PNum 1,
                  ''Estimated_saturation_loading_unit'' \<mapsto> PStr ''mol/kg'',
                  ''is_porous'' \<mapsto> PBool True)),
        raspa_widom = None, is_kh_enough = None, current_p_index = None, pressures = None,
        raspa_gcmc = None, submitted = [''ZeoppVolpoBlock''],
        out_block = Some ''block_file'', out_output_parameters = None\<rparr>)"
    using should_run_widom_zeopp[of ?I ?W 1 1 3 binary64]
    by (simp add: example_facts binary64_fields round64_small_values)
  show ?thesis
    unfolding isotherm_workchain_def s1
    by (simp add: run_raspa_widom_def should_run_gcmc_def init_raspa_gcmc_def
        choose_pressure_points_def gcmc_loop.simps should_run_another_gcmc_def run_raspa_gcmc_def
        return_output_parameters_def get_output_parameters_def isotherm_block_def
        gcmc_label_def str_of_nat.simps first_component_def get_num_def get_item_def sbind_def
        example_inputs_def example_world_def example_zeopp_out_def sampler_params_def
        sampler_widom_def sampler_mol_def round64_1e_5 enthalpy_entry_def binary64_fields
        round64_small_values Let_def)
qed

text \<open>
  Claim C4, as stated, fails on "and nothing else": the output record is the whole geometric
  dictionary (\<^verbatim>\<open>out_dict = geom_out.get_dict()\<close>), so it holds every key of the Zeo++ output
  besides \<^verbatim>\<open>is_porous\<close>. No Widom or GCMC job is submitted.
\<close>

theorem nonporous_record_counterexample:
  "final_submitted (isotherm_workchain binary64 (example_inputs 0 None None) (example_world 0)) =
     Some [''ZeoppVolpoBlock''] \<and>
   final_key (isotherm_workchain binary64 (example_inputs 0 None None) (example_world 0)) ''is_porous'' =
     Some (PBool False) \<and>
   final_key (isotherm_workchain binary64 (example_inputs 0 None None) (example_world 0)) ''POAV_A^3'' =
     Some (PNum 0) \<and>
   final_output (isotherm_workchain binary64 (example_inputs 0 None None) (example_world 0)) \<noteq>
     Some [''is_porous'' \<mapsto> PBool False]"
proof -
  let ?r = "isotherm_workchain binary64 (example_inputs 0 None None) (example_world 0)"
  obtain ctx where c: "?r = Some (Inr ctx)" "submitted ctx = [''ZeoppVolpoBlock'']"
    "out_output_parameters ctx =
       Some ((example_zeopp_out 0)(''Estimated_saturation_loading'' \<mapsto> PNum 0,
          ''Estimated_saturation_loading_unit'' \<mapsto> PStr ''mol/kg'',
          ''is_porous'' \<mapsto> PBool ((0::real) < 0)))"
    using gate_false_run[of "example_inputs 0 None None" "example_world 0" 0 0 3 binary64]
    by (auto simp: example_facts binary64_fields round64_small_values)
  have k1: "final_key ?r ''is_porous'' = Some (PBool False)"
    by (simp add: final_key_def final_output_def c)
  have k2: "final_key ?r ''POAV_A^3'' = Some (PNum 0)"
    by (simp add: final_key_def final_output_def c example_zeopp_out_def)
  have "final_output ?r \<noteq> Some [''is_porous'' \<mapsto> PBool False]"
  proof
    assume "final_output ?r = Some [''is_porous'' \<mapsto> PBool False]"
    then have "final_key ?r ''POAV_A^3'' = None" by (simp add: final_key_def)
    with k2 show False by simp
  qed
  with k1 k2 c show ?thesis by (simp add: final_submitted_def)
qed

text \<open>
  Claim C4, amended. When the screening stage ran and reports no accessible pore volume
  (\<^verbatim>\<open>POAV_A^3\<close> not greater than 0), the work chain finishes having submitted the Zeo++ job only
  (no Widom and no GCMC job), and the output record is the geometric dictionary: the Zeo++
  output extended with the estimated saturation loading, its unit and \<^verbatim>\<open>is_porous\<close> = false.
\<close>

theorem nonporous_stops_after_screening:
  assumes "geometric inp = None"
    and "get_num (zeopp_output_parameters (zeopp_job w)) ''POAV_cm^3/g'' = Inr v"
    and "get_num (zeopp_output_parameters (zeopp_job w)) ''POAV_A^3'' = Inr a"
    and "\<not> 0 < a"
  shows "\<exists>ctx. isotherm_workchain ar inp w = Some (Inr ctx) \<and>
           submitted ctx = [''ZeoppVolpoBlock''] \<and>
           out_output_parameters ctx =
             Some ((zeopp_output_parameters (zeopp_job w))
                 (''Estimated_saturation_loading'' \<mapsto> PNum (fmul ar v (molsatdens (iso_molecule inp))),
                  ''Estimated_saturation_loading_unit'' \<mapsto> PStr ''mol/kg'',
                  ''is_porous'' \<mapsto> PBool False))"
  using gate_false_run[OF assms(1-3), of 0 ar] assms(4) by auto

theorem nonporous_stops_after_screening_witness:
  "\<exists>ctx. isotherm_workchain binary64 (example_inputs 0 None None) (example_world 0) = Some (Inr ctx) \<and>
     submitted ctx = [''ZeoppVolpoBlock''] \<and>
     out_output_parameters ctx =
       Some ((example_zeopp_out 0)
           (''Estimated_saturation_loading'' \<mapsto> PNum 0,
            ''Estimated_saturation_loading_unit'' \<mapsto> PStr ''mol/kg'',
            ''is_porous'' \<mapsto> PBool False))"
  using nonporous_stops_after_screening[of "example_inputs 0 None None" "example_world 0" 0 0
      binary64]
  by (simp add: example_facts binary64_fields round64_small_values)

text \<open>
  Claim C5, as stated, fails: with no accessible volume and three blocking spheres the block
  file is not emitted, because \<^verbatim>\<open>should_run_widom\<close> emits it only in its porous branch.
\<close>

theorem nonporous_block_counterexample:
  "get_num (zeopp_output_parameters (zeopp_job (example_world 0))) ''Number_of_blocking_spheres'' =
     Inr 3 \<and>
   final_submitted (isotherm_workchain binary64 (example_inputs 0 None None) (example_world 0)) =
     Some [''ZeoppVolpoBlock''] \<and>
   final_output (isotherm_workchain binary64 (example_inputs 0 None None) (example_world 0)) \<noteq> None \<and>
   final_block (isotherm_workchain binary64 (example_inputs 0 None None) (example_world 0)) = None"
proof -
  let ?r = "isotherm_workchain binary64 (example_inputs 0 None None) (example_world 0)"
  obtain ctx where c: "?r = Some (Inr ctx)" "submitted ctx = [''ZeoppVolpoBlock'']"
    "out_output_parameters ctx \<noteq> None" "out_block ctx = None"
    using gate_false_run[of "example_inputs 0 None None" "example_world 0" 0 0 3 binary64]
    by (auto simp: example_facts binary64_fields round64_small_values)
  then show ?thesis
    by (simp add: final_submitted_def final_output_def final_block_def example_facts)
qed

text \<open>
  Claim C5, amended. When the screening gate evaluates to false, no further job is submitted and
  the output record is still emitted; the blocking-sphere file is emitted only if the structure
  is porous and blocking spheres were found (the gate is then false because only the geometry
  was asked for), and it is not emitted when there is no accessible volume.
\<close>

theorem gate_false_partial_outputs:
  assumes "geometric inp = None"
    and "get_num (zeopp_output_parameters (zeopp_job w)) ''POAV_cm^3/g'' = Inr v"
    and "get_num (zeopp_output_parameters (zeopp_job w)) ''POAV_A^3'' = Inr a"
    and "0 < a \<longrightarrow> get_num (zeopp_output_parameters (zeopp_job w)) ''Number_of_blocking_spheres'' = Inr nb"
    and "\<not> (0 < a \<and> temperature_list (parameters inp) = None)"
  shows "\<exists>ctx. isotherm_workchain ar inp w = Some (Inr ctx) \<and>
           submitted ctx = [''ZeoppVolpoBlock''] \<and>
           out_output_parameters ctx \<noteq> None \<and>
           out_block ctx = (if 0 < a \<and> 0 < nb then Some (block (zeopp_job w)) else None)"
  using gate_false_run[OF assms, of ar] by auto

theorem gate_false_partial_outputs_witness:
  "(\<exists>ctx. isotherm_workchain binary64 (example_inputs 0 (Some [300]) None) (example_world 1) = Some (Inr ctx) \<and>
      submitted ctx = [''ZeoppVolpoBlock''] \<and> out_output_parameters ctx \<noteq> None \<and>
      out_block ctx = Some ''block_file'') \<and>
   (\<exists>ctx. isotherm_workchain binary64 (example_inputs 0 None None) (example_world 0) = Some (Inr ctx) \<and>
      submitted ctx = [''ZeoppVolpoBlock''] \<and> out_output_parameters ctx \<noteq> None \<and>
      out_block ctx = None)"
  using gate_false_partial_outputs[of "example_inputs 0 (Some [300]) None" "example_world 1" 1 1 3
      binary64]
    gate_false_partial_outputs[of "example_inputs 0 None None" "example_world 0" 0 0 3 binary64]
  by (simp add: example_facts)

text \<open>
  Claim C7. In a stand-alone run (no geometric input, no temperature list) on a well-formed
  Zeo++ output that reports accessible volume, when the Henry coefficient of the Widom job is
  not above \<^verbatim>\<open>raspa_minKh\<close>: the work chain finishes having submitted the Zeo++ job and exactly
  one Widom job and no GCMC job, and the output record has \<^verbatim>\<open>is_porous\<close> = true,
  \<^verbatim>\<open>is_kh_enough\<close> = false and no key \<^verbatim>\<open>isotherm\<close>.
\<close>

theorem low_henry_coefficient_stops_after_widom:
  assumes "geometric inp = None"
    and "temperature_list (parameters inp) = None"
    and "raspa_verbosity (parameters inp) \<noteq> 0"
    and "get_num (zeopp_output_parameters (zeopp_job w)) ''POAV_cm^3/g'' = Inr v"
    and "get_num (zeopp_output_parameters (zeopp_job w)) ''POAV_A^3'' = Inr a"
    and "0 < a"
    and "get_num (zeopp_output_parameters (zeopp_job w)) ''Number_of_blocking_spheres'' = Inr nb"
    and "zeopp_output_parameters (zeopp_job w) ''POAV_Volume_fraction'' = Some vf"
    and "zeopp_output_parameters (zeopp_job w) ''isotherm'' = None"
    and "first_component (widom_job w) = Inr mol"
    and "\<not> henry_coefficient_average mol > raspa_minKh (parameters inp)"
  shows "\<exists>ctx out. isotherm_workchain ar inp w = Some (Inr ctx) \<and>
           submitted ctx = [''ZeoppVolpoBlock'', ''RaspaWidom''] \<and>
           out_output_parameters ctx = Some out \<and>
           out ''is_porous'' = Some (PBool True) \<and>
           out ''is_kh_enough'' = Some (PBool False) \<and>
           out ''isotherm'' = None"
proof -
  let ?zo = "zeopp_output_parameters (zeopp_job w)"
  let ?g = "?zo(''Estimated_saturation_loading'' \<mapsto> PNum (fmul ar v (molsatdens (iso_molecule inp))),
                ''Estimated_saturation_loading_unit'' \<mapsto> PStr ''mol/kg'',
                ''is_porous'' \<mapsto> PBool True)"
  let ?blk = "if 0 < nb then Some (block (zeopp_job w)) else None"
  let ?ctx1 = "\<lparr>multitemp_mode = None, zeopp = Some (zeopp_job w), geom = Some ?g,
        raspa_widom = None, is_kh_enough = None, current_p_index = None, pressures = None,
        raspa_gcmc = None, submitted = [''ZeoppVolpoBlock''], out_block = ?blk,
        out_output_parameters = None\<rparr>"
  let ?ctx2 = "?ctx1\<lparr>raspa_widom := Some (widom_job w),
                      submitted := [''ZeoppVolpoBlock'', ''RaspaWidom'']\<rparr>"
  let ?ctx3 = "?ctx2\<lparr>is_kh_enough := Some False\<rparr>"
  let ?out = "?g(''temperature'' \<mapsto> PNum (temperature (parameters inp)),
                 ''temperature_unit'' \<mapsto> PStr ''K'',
                 ''is_kh_enough'' \<mapsto> PBool False,
                 ''henry_coefficient_average'' \<mapsto> PNum (henry_coefficient_average mol),
                 ''henry_coefficient_dev'' \<mapsto> PNum (henry_coefficient_dev mol),
                 ''henry_coefficient_unit'' \<mapsto> PStr (henry_coefficient_unit mol),
                 ''adsorption_energy_widom_average'' \<mapsto> PNum (adsorption_energy_widom_average mol),
                 ''adsorption_energy_widom_dev'' \<mapsto> PNum (adsorption_energy_widom_dev mol),
                 ''adsorption_energy_widom_unit'' \<mapsto> PStr (adsorption_energy_widom_unit mol))"
  have nb': "0 < a \<longrightarrow> get_num ?zo ''Number_of_blocking_spheres'' = Inr nb"
    using assms(7) by simp
  have s1: "should_run_widom ar inp (run_zeopp w (iso_setup inp)) = Inr (True, ?ctx1)"
    using should_run_widom_zeopp[OF assms(1,4,5) nb'] assms(2,6) by simp
  have gn: "get_num ?g ''Number_of_blocking_spheres'' = Inr nb"
    using assms(7) by (simp add: get_num_def)
  have gv: "get_item ?g ''POAV_Volume_fraction'' = Inr vf"
    using assms(8) by (simp add: get_item_def)
  have gp: "get_item ?g ''is_porous'' = Inr (PBool True)"
    by (simp add: get_item_def)
  have s2: "run_raspa_widom inp w ?ctx1 = Inr ?ctx2"
    using assms(3) by (simp add: run_raspa_widom_def gn gv sbind_def)
  have s3: "should_run_gcmc inp ?ctx2 = Inr (False, ?ctx3)"
    using assms(10,11) by (simp add: should_run_gcmc_def sbind_def Let_def)
  have s4: "return_output_parameters ar inp ?ctx3 =
              Inr (?ctx3\<lparr>pressures := None, out_output_parameters := Some ?out\<rparr>)"
    using assms(10,11)
    by (simp add: return_output_parameters_def get_output_parameters_def gp sbind_def Let_def)
  have run: "isotherm_workchain ar inp w =
               Some (Inr (?ctx3\<lparr>pressures := None, out_output_parameters := Some ?out\<rparr>))"
    unfolding isotherm_workchain_def s1 using s2 s3 s4 by simp
  have o1: "?out ''is_porous'' = Some (PBool True)" by simp
  have o2: "?out ''is_kh_enough'' = Some (PBool False)" by simp
  have o3: "?out ''isotherm'' = None" using assms(9) by simp
  show ?thesis
    using run o1 o2 o3
    by (intro exI[of _ "?ctx3\<lparr>pressures := None, out_output_parameters := Some ?out\<rparr>"]
          exI[of _ ?out]) simp
qed

theorem low_henry_coefficient_stops_after_widom_witness:
  "\<exists>ctx out. isotherm_workchain binary64 (example_inputs 1 None None) (example_world 1) = Some (Inr ctx) \<and>
     submitted ctx = [''ZeoppVolpoBlock'', ''RaspaWidom''] \<and>
     out_output_parameters ctx = Some out \<and>
     out ''is_porous'' = Some (PBool True) \<and>
     out ''is_kh_enough'' = Some (PBool False) \<and>
     out ''isotherm'' = None"
  using low_henry_coefficient_stops_after_widom[of "example_inputs 1 None None" "example_world 1"
      1 1 3 "PNum (1 / 2)" sampler_mol binary64]
  by (simp add: example_facts sampler_facts sampler_henry)

text \<open>
  Claim C9. Whenever a finished run stores a value under \<^verbatim>\<open>is_kh_enough\<close> in its output record
  (the geometric dictionary having no such key of its own), that value is the comparison of the
  Henry coefficient of the Widom output with \<^verbatim>\<open>raspa_minKh\<close>, it equals the decision
  \<^verbatim>\<open>ctx.is_kh_enough\<close> taken by \<^verbatim>\<open>should_run_gcmc\<close>, and it is true exactly when a GCMC job
  was submitted.
\<close>

theorem is_kh_enough_matches_gate:
  assumes "isotherm_workchain ar inp w = Some (Inr ctx)"
    and "out_output_parameters ctx = Some out"
    and "out ''is_kh_enough'' = Some v"
    and "zeopp_output_parameters (zeopp_job w) ''is_kh_enough'' = None"
    and "\<forall>g. geometric inp = Some g \<longrightarrow> g ''is_kh_enough'' = None"
  shows "\<exists>mol. first_component (widom_job w) = Inr mol \<and>
           is_kh_enough ctx =
             Some (henry_coefficient_average mol > raspa_minKh (parameters inp)) \<and>
           v = PBool (henry_coefficient_average mol > raspa_minKh (parameters inp)) \<and>
           ((henry_coefficient_average mol > raspa_minKh (parameters inp)) \<longleftrightarrow>
              gcmc_label 1 \<in> set (submitted ctx))"
proof -
  from assms(1) obtain wd ctx1 where
    s1: "should_run_widom ar inp (run_zeopp w (iso_setup inp)) = Inr (wd, ctx1)"
    by (auto simp: isotherm_workchain_def split: sum.splits)
  from should_run_widom_inv[OF s1 assms(4,5)] obtain g where
    g: "geom ctx1 = Some g" "g ''is_kh_enough'' = None"
    and f1: "raspa_widom ctx1 = None" "is_kh_enough ctx1 = None" "raspa_gcmc ctx1 = None"
      "set (submitted ctx1) \<subseteq> {''ZeoppVolpoBlock''}"
    by blast
  show ?thesis
  proof (cases wd)
    case False
    with assms(1) s1 have r: "return_output_parameters ar inp ctx1 = Inr ctx"
      by (simp add: isotherm_workchain_def)
    from return_output_parameters_kh(1)[OF r g assms(2,3)] f1(1) show ?thesis by simp
  next
    case True
    with assms(1) s1 obtain ctx2 where s2: "run_raspa_widom inp w ctx1 = Inr ctx2"
      by (auto simp: isotherm_workchain_def split: sum.splits)
    note c2 = run_raspa_widom_inv[OF s2]
    from assms(1) s1 True s2 obtain gc ctx3 where s3: "should_run_gcmc inp ctx2 = Inr (gc, ctx3)"
      by (auto simp: isotherm_workchain_def split: sum.splits)
    have w2: "raspa_widom ctx2 = Some (widom_job w)" by (simp add: c2)
    from should_run_gcmc_inv[OF s3 w2] obtain mol where
      m: "first_component (widom_job w) = Inr mol"
        "gc = (henry_coefficient_average mol > raspa_minKh (parameters inp))"
        "ctx3 = ctx2\<lparr>is_kh_enough := Some gc\<rparr>"
      by blast
    have g3: "geom ctx3 = Some g" by (simp add: m(3) c2 g(1))
    show ?thesis
    proof (cases gc)
      case False
      with assms(1) s1 True s2 s3 have r: "return_output_parameters ar inp ctx3 = Inr ctx"
        by (simp add: isotherm_workchain_def)
      from return_output_parameters_kh[OF r g3 g(2) assms(2,3)] obtain widom mol' kh where
        k: "raspa_widom ctx3 = Some widom" "first_component widom = Inr mol'"
          "v = PBool (henry_coefficient_average mol' > raspa_minKh (parameters inp))"
        and sub: "submitted ctx = submitted ctx3" and e: "is_kh_enough ctx = is_kh_enough ctx3"
        by blast
      have "widom = widom_job w" using k(1) by (simp add: m(3) c2)
      with k(2) m(1) have mm: "mol' = mol" by simp
      have "gcmc_label 1 \<notin> set (submitted ctx)"
        using f1(4) by (auto simp: sub m(3) c2 gcmc_label_1)
      with False m k(3) mm e show ?thesis by (simp add: m(3))
    next
      case gcT: True
      with assms(1) s1 True s2 s3 obtain ctx4 where
        s4: "init_raspa_gcmc ar inp ctx3 = Some (Inr ctx4)"
        by (auto simp: isotherm_workchain_def split: sum.splits option.splits)
      from init_raspa_gcmc_inv[OF s4] obtain ps where
        c4: "ctx4 = ctx3\<lparr>current_p_index := Some 0, pressures := Some ps\<rparr>" by blast
      have i4: "current_p_index ctx4 = Some 0" "pressures ctx4 = Some ps"
        "length (case raspa_gcmc ctx4 of None \<Rightarrow> [] | Some calcs \<Rightarrow> calcs) = 0"
        by (simp_all add: c4 m(3) c2 f1(3))
      from gcmc_loop_total[OF i4(1,2) _ i4(3) refl, of w] obtain ctx5 where
        l: "gcmc_loop w ctx4 = Inr ctx5"
          "submitted ctx5 = submitted ctx4 @ map (\<lambda>j. gcmc_label (j + 1)) [0..<length ps]"
          "geom ctx5 = geom ctx4" "raspa_widom ctx5 = raspa_widom ctx4"
          "is_kh_enough ctx5 = is_kh_enough ctx4"
          "0 = length ps \<longrightarrow> raspa_gcmc ctx5 = raspa_gcmc ctx4"
        by auto
      from assms(1) s1 True s2 s3 gcT s4 l(1) have r: "return_output_parameters ar inp ctx5 = Inr ctx"
        by (simp add: isotherm_workchain_def sbind_def)
      have g5: "geom ctx5 = Some g" by (simp add: l(3) c4 g3)
      from return_output_parameters_kh[OF r g5 g(2) assms(2,3)] obtain widom mol' kh where
        k: "raspa_widom ctx5 = Some widom" "first_component widom = Inr mol'"
          "is_kh_enough ctx5 = Some kh"
          "v = PBool (henry_coefficient_average mol' > raspa_minKh (parameters inp))"
          "kh \<longrightarrow> raspa_gcmc ctx5 \<noteq> None"
        and sub: "submitted ctx = submitted ctx5" and e: "is_kh_enough ctx = is_kh_enough ctx5"
        by blast
      have "widom = widom_job w" using k(1) by (simp add: l(4) c4 m(3) c2)
      with k(2) m(1) have mm: "mol' = mol" by simp
      have kh: "kh" using k(3) gcT by (simp add: l(5) c4 m(3))
      have "ps \<noteq> []"
      proof
        assume "ps = []"
        with l(6) have "raspa_gcmc ctx5 = None" by (simp add: c4 m(3) c2 f1(3))
        with k(5) kh show False by simp
      qed
      then have "gcmc_label 1 \<in> set (submitted ctx)"
        by (cases ps) (simp_all add: sub l(2) upt_conv_Cons gcmc_label_1 del: upt_Suc)
      with gcT m k(4) mm e show ?thesis by (simp add: l(5) c4 m(3))
    qed
  qed
qed

theorem is_kh_enough_matches_gate_witness:
  "\<exists>ctx. isotherm_workchain binary64 (example_inputs 0 None (Some [2])) (example_world 1) = Some (Inr ctx) \<and>
     is_kh_enough ctx = Some True \<and>
     final_key (isotherm_workchain binary64 (example_inputs 0 None (Some [2])) (example_world 1))
       ''is_kh_enough'' = Some (PBool True) \<and>
     gcmc_label 1 \<in> set (submitted ctx)"
proof -
  from example_full_run obtain ctx out where
    r: "isotherm_workchain binary64 (example_inputs 0 None (Some [2])) (example_world 1) = Some (Inr ctx)"
      "out_output_parameters ctx = Some out" "out ''is_kh_enough'' = Some (PBool True)"
    by blast
  have z: "zeopp_output_parameters (zeopp_job (example_world 1)) ''is_kh_enough'' = None"
    by (simp add: example_facts)
  have g: "\<forall>g. geometric (example_inputs 0 None (Some [2])) = Some g \<longrightarrow> g ''is_kh_enough'' = None"
    by (simp add: example_facts)
  from is_kh_enough_matches_gate[OF r z g] r show ?thesis
    by (auto simp: example_facts sampler_facts sampler_henry final_key_def final_output_def)
qed

section \<open>Properties of the multi-component work chain\<close>

lemma map_fst_al_append: "map fst (al_append k x al) = map fst al"
  by (induction al) (auto simp: al_append_def)

lemma map_of_al_append:
  "map_of (al_append k x al) k' =
     (if k' = k then map_option (\<lambda>v. v @ [x]) (map_of al k) else map_of al k')"
  by (induction al) (auto simp: al_append_def)

lemma map_of_al_set: "map_of (al_set k v al) k' = (if k' = k then Some v else map_of al k')"
  by (induction al) auto

lemma list_get_0: "list_get l 0 = Inr x \<longleftrightarrow> l \<noteq> [] \<and> x = hd l"
  by (cases l) (auto simp: list_get_def)

lemma list_get_1: "list_get l 1 = Inr x \<Longrightarrow> 2 \<le> length l \<and> x = l ! 1"
  by (auto simp: list_get_def split: if_splits)

lemma al_get_Inr: "al_get al k = Inr v \<longleftrightarrow> map_of al k = Some v"
  by (auto simp: al_get_def split: option.splits)

lemma firsts_Inr: "firsts al = Inr xs \<Longrightarrow> xs = map (\<lambda>(k, l). hd l) al"
proof (induction al arbitrary: xs)
  case Nil
  then show ?case by simp
next
  case (Cons kl al)
  obtain k l where kl: "kl = (k, l)" by (cases kl)
  from Cons.prems obtain x ys where
    a: "list_get l 0 = Inr x" "firsts al = Inr ys" "xs = x # ys"
    by (auto simp: kl sbind_def split: sum.splits)
  from a(1) have x: "x = hd l" by (simp add: list_get_0)
  have ys: "ys = map (\<lambda>(k, l). hd l) al" by (rule Cons.IH[OF a(2)])
  show ?case unfolding a(3) kl x ys by simp
qed

lemma map_snd_via_map_of:
  "distinct (map fst al) \<Longrightarrow> map snd al = map (\<lambda>k. the (map_of al k)) (map fst al)"
proof (induction al)
  case Nil
  then show ?case by simp
next
  case (Cons kv al)
  obtain k v where kv: "kv = (k, v)" by (cases kv)
  from Cons.prems have d: "distinct (map fst al)" and n: "k \<notin> set (map fst al)"
    by (simp_all add: kv)
  have "map (\<lambda>k'. the (map_of (kv # al) k')) (map fst al) =
        map (\<lambda>k'. the (map_of al k')) (map fst al)"
    using n by (intro map_cong) (auto simp: kv)
  with Cons.IH[OF d] show ?case by (simp add: kv)
qed

lemma distinct_dict_keys: "distinct (dict_keys ks)"
  by (simp add: dict_keys_def)

lemma set_dict_keys: "set (dict_keys ks) = set ks"
  by (simp add: dict_keys_def)

lemma add_loadings_keys:
  "add_loadings ar ks ads des cs out = Inr out' \<Longrightarrow>
   map fst (out_loading_absolute_average out') = map fst (out_loading_absolute_average out) \<and>
   out_composition out' = out_composition out"
proof (induction cs arbitrary: out)
  case Nil
  then show ?case by simp
next
  case (Cons c cs)
  from Cons.prems obtain out1 where
    r: "add_loadings ar ks ads des cs out1 = Inr out'"
    and k: "map fst (out_loading_absolute_average out1) = map fst (out_loading_absolute_average out)"
    and c: "out_composition out1 = out_composition out"
    by (auto simp: sbind_def map_fst_al_append split: sum.splits)
  from Cons.IH[OF r] k c show ?case by simp
qed

lemma add_loadings_inv:
  "add_loadings ar ks ads des cs out = Inr out' \<Longrightarrow>
   \<forall>n\<in>set (map comp_name cs) - S. map_of (out_loading_absolute_average out) n = Some [] \<Longrightarrow>
   \<forall>n\<in>S. \<exists>l. map_of (out_loading_absolute_average out) n = Some l \<and> l \<noteq> [] \<and>
              hd l = ads_loading ar ks ads n \<Longrightarrow>
   \<forall>n\<in>S \<union> set (map comp_name cs).
      \<exists>l. map_of (out_loading_absolute_average out') n = Some l \<and> l \<noteq> [] \<and>
          hd l = ads_loading ar ks ads n"
proof (induction cs arbitrary: out S)
  case Nil
  then show ?case by simp
next
  case (Cons c cs)
  let ?n = "comp_name c"
  from Cons.prems(1) obtain a d where
    a: "component_of ads ks ?n = Inr a" and d: "component_of des ks ?n = Inr d"
    by (auto simp: sbind_def split: sum.splits)
  define A where "A = fmul ar (conv_load_of ks a) (loading_absolute_average a)"
  define D where "D = fmul ar (conv_load_of ks d) (loading_absolute_average d)"
  define out1 where "out1 = out\<lparr>out_loading_absolute_average :=
                 al_append ?n D (al_append ?n A (out_loading_absolute_average out)),
               out_loading_absolute_dev :=
                 al_append ?n (fmul ar (conv_load_of ks d) (loading_absolute_dev d))
                   (al_append ?n (fmul ar (conv_load_of ks a) (loading_absolute_dev a))
                      (out_loading_absolute_dev out))\<rparr>"
  have r: "add_loadings ar ks ads des cs out1 = Inr out'"
    using Cons.prems(1) a d by (simp add: sbind_def out1_def A_def D_def)
  have al: "ads_loading ar ks ads ?n = A" by (simp add: ads_loading_def a A_def)
  have m: "map_of (out_loading_absolute_average out1) n =
             (if n = ?n then map_option (\<lambda>v. (v @ [A]) @ [D]) (map_of (out_loading_absolute_average out) n)
              else map_of (out_loading_absolute_average out) n)" for n
    by (simp add: out1_def map_of_al_append option.map_comp comp_def)
  have p1: "\<forall>n\<in>set (map comp_name cs) - insert ?n S. map_of (out_loading_absolute_average out1) n = Some []"
    using Cons.prems(2) by (auto simp: m)
  have p2: "\<forall>n\<in>insert ?n S. \<exists>l. map_of (out_loading_absolute_average out1) n = Some l \<and> l \<noteq> [] \<and>
              hd l = ads_loading ar ks ads n"
  proof
    fix n assume n: "n \<in> insert ?n S"
    show "\<exists>l. map_of (out_loading_absolute_average out1) n = Some l \<and> l \<noteq> [] \<and>
              hd l = ads_loading ar ks ads n"
    proof (cases "n \<in> S")
      case True
      with Cons.prems(3) obtain l where
        l: "map_of (out_loading_absolute_average out) n = Some l" "l \<noteq> []" "hd l = ads_loading ar ks ads n"
        by blast
      then show ?thesis by (cases "n = ?n") (simp_all add: m)
    next
      case False
      with n have e: "n = ?n" by simp
      with False Cons.prems(2) have "map_of (out_loading_absolute_average out) n = Some []"
        by simp
      then show ?thesis using e al by (simp add: m)
    qed
  qed
  from Cons.IH[OF r p1 p2] show ?case by simp
qed

lemma add_compositions_step:
  assumes "add_compositions ar (c # cs) out = Inr out'"
  shows "\<exists>loads load load_des.
           firsts (out_loading_absolute_average out) = Inr loads \<and>
           map_of (out_loading_absolute_average out) (comp_name c) = Some load \<and>
           load \<noteq> [] \<and> fsum ar loads \<noteq> 0 \<and>
           add_compositions ar cs
             (out\<lparr>out_composition :=
                     al_append (comp_name c) (fdiv ar (hd load) (fsum ar loads))
                       (al_append (comp_name c) (molfraction c) (out_composition out)),
                   out_working_capacity :=
                     al_set (comp_name c) (fsub ar (hd load) load_des) (out_working_capacity out)\<rparr>) = Inr out'"
proof -
  from assms obtain loads where l: "firsts (out_loading_absolute_average out) = Inr loads"
    by (auto simp: sbind_def split: sum.splits)
  from assms l obtain load where
    m: "al_get (out_loading_absolute_average out) (comp_name c) = Inr load"
    by (auto simp: sbind_def split: sum.splits)
  from assms l m obtain x where x: "list_get load 0 = Inr x"
    by (auto simp: sbind_def split: sum.splits)
  from assms l m x have nz: "fsum ar loads \<noteq> 0"
    by (auto simp: sbind_def Let_def split: sum.splits if_splits)
  from assms l m x nz obtain y where y: "list_get load 1 = Inr y"
    by (auto simp: sbind_def Let_def split: sum.splits)
  from x have hx: "load \<noteq> []" "x = hd load" by (simp_all add: list_get_0)
  from assms l m x nz y have
    "add_compositions ar cs
       (out\<lparr>out_composition :=
               al_append (comp_name c) (fdiv ar x (fsum ar loads))
                 (al_append (comp_name c) (molfraction c) (out_composition out)),
             out_working_capacity :=
               al_set (comp_name c) (fsub ar x y) (out_working_capacity out)\<rparr>) = Inr out'"
    by (simp add: sbind_def Let_def)
  with l m hx nz show ?thesis unfolding al_get_Inr by blast
qed

lemma add_compositions_keys:
  "add_compositions ar cs out = Inr out' \<Longrightarrow>
   map fst (out_composition out') = map fst (out_composition out) \<and>
   out_loading_absolute_average out' = out_loading_absolute_average out"
proof (induction cs arbitrary: out)
  case Nil
  then show ?case by simp
next
  case (Cons c cs)
  from add_compositions_step[OF Cons.prems] obtain out1 where
    r: "add_compositions ar cs out1 = Inr out'"
    and k: "map fst (out_composition out1) = map fst (out_composition out)"
    and c: "out_loading_absolute_average out1 = out_loading_absolute_average out"
    by (auto simp: map_fst_al_append)
  from Cons.IH[OF r] k c show ?case by simp
qed

lemma add_compositions_inv:
  "add_compositions ar cs out = Inr out' \<Longrightarrow>
   firsts (out_loading_absolute_average out) = Inr loads \<Longrightarrow>
   \<forall>n\<in>set (map comp_name cs) - S. map_of (out_composition out) n = Some [] \<Longrightarrow>
   \<forall>n\<in>S. \<exists>l. map_of (out_composition out) n = Some l \<and> 2 \<le> length l \<and>
              l ! 1 = fdiv ar (hd (the (map_of (out_loading_absolute_average out) n))) (fsum ar loads) \<Longrightarrow>
   \<forall>n\<in>S \<union> set (map comp_name cs).
      \<exists>l. map_of (out_composition out') n = Some l \<and> 2 \<le> length l \<and>
          l ! 1 = fdiv ar (hd (the (map_of (out_loading_absolute_average out) n))) (fsum ar loads)"
proof (induction cs arbitrary: out S)
  case Nil
  then show ?case by simp
next
  case (Cons c cs)
  let ?n = "comp_name c"
  let ?avg = "out_loading_absolute_average out"
  from add_compositions_step[OF Cons.prems(1)] Cons.prems(2) obtain load load_des where
    ld: "map_of ?avg ?n = Some load" "load \<noteq> []" "fsum ar loads \<noteq> 0"
    and r0: "add_compositions ar cs
             (out\<lparr>out_composition :=
                     al_append ?n (fdiv ar (hd load) (fsum ar loads))
                       (al_append ?n (molfraction c) (out_composition out)),
                   out_working_capacity :=
                     al_set ?n (fsub ar (hd load) load_des) (out_working_capacity out)\<rparr>) = Inr out'"
    by auto
  define out1 where "out1 = out\<lparr>out_composition :=
                     al_append ?n (fdiv ar (hd load) (fsum ar loads))
                       (al_append ?n (molfraction c) (out_composition out)),
                   out_working_capacity :=
                     al_set ?n (fsub ar (hd load) load_des) (out_working_capacity out)\<rparr>"
  have r: "add_compositions ar cs out1 = Inr out'" using r0 by (simp add: out1_def)
  have avg1: "out_loading_absolute_average out1 = ?avg" by (simp add: out1_def)
  have f1: "firsts (out_loading_absolute_average out1) = Inr loads"
    using Cons.prems(2) by (simp add: avg1)
  have m: "map_of (out_composition out1) n =
             (if n = ?n
              then map_option (\<lambda>v. (v @ [molfraction c]) @ [fdiv ar (hd load) (fsum ar loads)])
                     (map_of (out_composition out) n)
              else map_of (out_composition out) n)" for n
    by (simp add: out1_def map_of_al_append option.map_comp comp_def)
  have p1: "\<forall>n\<in>set (map comp_name cs) - insert ?n S. map_of (out_composition out1) n = Some []"
    using Cons.prems(3) by (auto simp: m)
  have p2: "\<forall>n\<in>insert ?n S. \<exists>l. map_of (out_composition out1) n = Some l \<and> 2 \<le> length l \<and>
              l ! 1 = fdiv ar (hd (the (map_of (out_loading_absolute_average out1) n))) (fsum ar loads)"
  proof
    fix n assume n: "n \<in> insert ?n S"
    show "\<exists>l. map_of (out_composition out1) n = Some l \<and> 2 \<le> length l \<and>
              l ! 1 = fdiv ar (hd (the (map_of (out_loading_absolute_average out1) n))) (fsum ar loads)"
    proof (cases "n \<in> S")
      case True
      with Cons.prems(4) obtain l where
        l: "map_of (out_composition out) n = Some l" "2 \<le> length l"
          "l ! 1 = fdiv ar (hd (the (map_of ?avg n))) (fsum ar loads)"
        by blast
      then show ?thesis by (cases "n = ?n") (simp_all add: m avg1 nth_append)
    next
      case False
      with n have e: "n = ?n" by simp
      with False Cons.prems(3) have "map_of (out_composition out) n = Some []" by simp
      then show ?thesis using e ld(1) by (simp add: m avg1)
    qed
  qed
  from Cons.IH[OF r f1 p1 p2] show ?case by (simp add: avg1)
qed

lemma firsts_total:
  "\<forall>(k, l)\<in>set al. l \<noteq> [] \<Longrightarrow> firsts al = Inr (map (\<lambda>(k, l). hd l) al)"
  by (induction al) (auto simp: sbind_def list_get_def hd_conv_nth)

lemma map_of_empty_lists: "n \<in> set ks \<Longrightarrow> map_of (map (\<lambda>n. (n, [])) ks) n = Some []"
  by (induction ks) auto

lemma mc_get_output_parameters_inv:
  assumes "mc_get_output_parameters ar cond comps z ads des = Inr out"
  shows "\<exists>ks. list_get (map fst ads) 0 = Inr ks \<and>
     map fst (out_composition out) = dict_keys (map comp_name comps) \<and>
     map fst (out_loading_absolute_average out) = dict_keys (map comp_name comps) \<and>
     (\<forall>n\<in>set (map comp_name comps).
        \<exists>l la. map_of (out_composition out) n = Some l \<and> 2 \<le> length l \<and>
          map_of (out_loading_absolute_average out) n = Some la \<and> la \<noteq> [] \<and>
          hd la = ads_loading ar ks ads n \<and>
          l ! 1 = fdiv ar (hd la) (fsum ar (map (\<lambda>(k, l). hd l) (out_loading_absolute_average out)))) \<and>
     (comps \<noteq> [] \<longrightarrow> fsum ar (map (\<lambda>(k, l). hd l) (out_loading_absolute_average out)) \<noteq> 0)"
proof -
  let ?keys = "dict_keys (map comp_name comps)"
  from assms obtain out0 ks where
    ks: "list_get (map fst ads) 0 = Inr ks"
    and r0: "sbind (add_loadings ar ks ads des comps
              (out0\<lparr>out_temperatures := [adsorption_temperature cond, desorption_temperature cond],
                out_pressures := [adsorption_pressure cond, desorption_pressure cond],
                out_composition := map (\<lambda>n. (n, [])) ?keys,
                out_loading_absolute_average := map (\<lambda>n. (n, [])) ?keys,
                out_loading_absolute_dev := map (\<lambda>n. (n, [])) ?keys,
                out_working_capacity := [],
                out_working_capacity_unit :=
                  (if ks = ''framework_1'' then ''mol/kg'' else ''(cm^3_STP/cm^3)''),
                out_loading_absolute_unit :=
                  (if ks = ''framework_1'' then ''mol/kg'' else ''(cm^3_STP/cm^3)'')\<rparr>))
            (add_compositions ar comps) = Inr out"
    unfolding mc_get_output_parameters_def
    by (auto simp: sbind_def Let_def split: sum.splits)
  define out1 where "out1 = out0\<lparr>out_temperatures := [adsorption_temperature cond, desorption_temperature cond],
                out_pressures := [adsorption_pressure cond, desorption_pressure cond],
                out_composition := map (\<lambda>n. (n, [])) ?keys,
                out_loading_absolute_average := map (\<lambda>n. (n, [])) ?keys,
                out_loading_absolute_dev := map (\<lambda>n. (n, [])) ?keys,
                out_working_capacity := [],
                out_working_capacity_unit :=
                  (if ks = ''framework_1'' then ''mol/kg'' else ''(cm^3_STP/cm^3)''),
                out_loading_absolute_unit :=
                  (if ks = ''framework_1'' then ''mol/kg'' else ''(cm^3_STP/cm^3)'')\<rparr>"
  from r0 obtain out2 where
    r1: "add_loadings ar ks ads des comps out1 = Inr out2"
    and r2: "add_compositions ar comps out2 = Inr out"
    by (auto simp: sbind_def out1_def split: sum.splits)
  have avg1: "out_loading_absolute_average out1 = map (\<lambda>n. (n, [])) ?keys"
    and comp1: "out_composition out1 = map (\<lambda>n. (n, [])) ?keys"
    by (simp_all add: out1_def)
  have e1: "\<forall>n\<in>set (map comp_name comps) - {}. map_of (out_loading_absolute_average out1) n = Some []"
    by (simp add: avg1 map_of_empty_lists set_dict_keys)
  have "\<forall>n\<in>{} \<union> set (map comp_name comps).
      \<exists>l. map_of (out_loading_absolute_average out2) n = Some l \<and> l \<noteq> [] \<and>
          hd l = ads_loading ar ks ads n"
    by (rule add_loadings_inv[OF r1 e1]) simp
  then have L: "\<forall>n\<in>set (map comp_name comps).
      \<exists>l. map_of (out_loading_absolute_average out2) n = Some l \<and> l \<noteq> [] \<and>
          hd l = ads_loading ar ks ads n"
    by simp
  from add_loadings_keys[OF r1] have
    k2: "map fst (out_loading_absolute_average out2) = ?keys"
    and comp2: "out_composition out2 = map (\<lambda>n. (n, [])) ?keys"
    by (simp_all add: avg1 comp1 comp_def)
  have d2: "distinct (map fst (out_loading_absolute_average out2))"
    by (simp add: k2 distinct_dict_keys)
  have ne: "\<forall>(k, l)\<in>set (out_loading_absolute_average out2). l \<noteq> []"
  proof (clarify)
    fix k assume kl: "(k, []) \<in> set (out_loading_absolute_average out2)"
    then have "k \<in> set (map fst (out_loading_absolute_average out2))" by force
    then have "k \<in> set (map comp_name comps)" by (simp add: k2 set_dict_keys)
    with L obtain l' where "map_of (out_loading_absolute_average out2) k = Some l'" "l' \<noteq> []"
      by blast
    moreover from kl d2 have "map_of (out_loading_absolute_average out2) k = Some []"
      by simp
    ultimately show False by simp
  qed
  let ?loads = "map (\<lambda>(k, l). hd l) (out_loading_absolute_average out2)"
  have f2: "firsts (out_loading_absolute_average out2) = Inr ?loads"
    by (rule firsts_total[OF ne])
  have e2: "\<forall>n\<in>set (map comp_name comps) - {}. map_of (out_composition out2) n = Some []"
    by (simp add: comp2 map_of_empty_lists set_dict_keys)
  have "\<forall>n\<in>{} \<union> set (map comp_name comps).
      \<exists>l. map_of (out_composition out) n = Some l \<and> 2 \<le> length l \<and>
          l ! 1 = fdiv ar (hd (the (map_of (out_loading_absolute_average out2) n))) (fsum ar ?loads)"
    by (rule add_compositions_inv[OF r2 f2 e2]) simp
  then have C: "\<forall>n\<in>set (map comp_name comps).
      \<exists>l. map_of (out_composition out) n = Some l \<and> 2 \<le> length l \<and>
          l ! 1 = fdiv ar (hd (the (map_of (out_loading_absolute_average out2) n))) (fsum ar ?loads)"
    by simp
  from add_compositions_keys[OF r2] have
    avg: "out_loading_absolute_average out = out_loading_absolute_average out2"
    and kc: "map fst (out_composition out) = ?keys"
    by (simp_all add: comp2 comp_def)
  have nz: "comps \<noteq> [] \<longrightarrow> fsum ar ?loads \<noteq> 0"
  proof
    assume "comps \<noteq> []"
    then obtain c cs where "comps = c # cs" by (cases comps) auto
    with add_compositions_step[of ar c cs out2 out] r2 f2 show "fsum ar ?loads \<noteq> 0" by auto
  qed
  have "\<forall>n\<in>set (map comp_name comps).
        \<exists>l la. map_of (out_composition out) n = Some l \<and> 2 \<le> length l \<and>
          map_of (out_loading_absolute_average out) n = Some la \<and> la \<noteq> [] \<and>
          hd la = ads_loading ar ks ads n \<and>
          l ! 1 = fdiv ar (hd la) (fsum ar (map (\<lambda>(k, l). hd l) (out_loading_absolute_average out)))"
  proof
    fix n assume n: "n \<in> set (map comp_name comps)"
    from L n obtain la where la: "map_of (out_loading_absolute_average out2) n = Some la"
      "la \<noteq> []" "hd la = ads_loading ar ks ads n" by blast
    from C n obtain l where l: "map_of (out_composition out) n = Some l" "2 \<le> length l"
      "l ! 1 = fdiv ar (hd (the (map_of (out_loading_absolute_average out2) n))) (fsum ar ?loads)"
      by blast
    from la l show "\<exists>l la. map_of (out_composition out) n = Some l \<and> 2 \<le> length l \<and>
          map_of (out_loading_absolute_average out) n = Some la \<and> la \<noteq> [] \<and>
          hd la = ads_loading ar ks ads n \<and>
          l ! 1 = fdiv ar (hd la) (fsum ar (map (\<lambda>(k, l). hd l) (out_loading_absolute_average out)))"
      by (simp add: avg)
  qed
  with ks kc k2 nz show ?thesis by (auto simp: avg)
qed

lemma values_via_keys:
  assumes "distinct (map fst al)"
  shows "map (\<lambda>(k, l). g l) al = map (\<lambda>k. g (the (map_of al k))) (map fst al)"
proof -
  have "map (\<lambda>(k, l). g l) al = map g (map snd al)"
    by (simp add: case_prod_beta comp_def)
  also have "\<dots> = map g (map (\<lambda>k. the (map_of al k)) (map fst al))"
    by (simp only: map_snd_via_map_of[OF assms, symmetric])
  also have "\<dots> = map (\<lambda>k. g (the (map_of al k))) (map fst al)"
    by (simp only: map_map comp_def)
  finally show ?thesis .
qed

text \<open>
  The loadings that \<^verbatim>\<open>tot_load_ads\<close> sums, in the order of the sum: the converted adsorption
  loadings of the component names, in the order of their first occurrence.
\<close>

lemma mc_total_loading:
  assumes "mc_get_output_parameters ar cond comps z ads des = Inr out"
    and "list_get (map fst ads) 0 = Inr ks"
  shows "map (\<lambda>(k, l). hd l) (out_loading_absolute_average out) =
         map (ads_loading ar ks ads) (dict_keys (map comp_name comps))"
proof -
  let ?avg = "out_loading_absolute_average out"
  let ?keys = "dict_keys (map comp_name comps)"
  from mc_get_output_parameters_inv[OF assms(1)] assms(2) have
    k: "map fst ?avg = ?keys"
    and v: "\<forall>n\<in>set (map comp_name comps). \<exists>la. map_of ?avg n = Some la \<and> hd la = ads_loading ar ks ads n"
    by auto
  have d: "distinct (map fst ?avg)" by (simp add: k distinct_dict_keys)
  have "map (\<lambda>(k, l). hd l) ?avg = map (\<lambda>n. hd (the (map_of ?avg n))) ?keys"
    using values_via_keys[OF d, of hd] by (simp add: k)
  also have "\<dots> = map (ads_loading ar ks ads) ?keys"
    using v by (intro map_cong) (auto simp: set_dict_keys)
  finally show ?thesis .
qed

lemma fold_molfraction_Inl:
  "fold (\<lambda>(key, val) acc.
           sbind acc (\<lambda>fractions.
             if tot = 0 then Inl ZeroDivisionError
             else if map_of fractions key = None then Inl (KeyError key)
             else Inr (al_set key (fdiv ar (loading_absolute_average val) tot) fractions)))
     xs (Inl e) = Inl e"
  by (induction xs) (auto simp: sbind_def)

lemma fold_molfraction:
  "fold (\<lambda>(key, val) acc.
           sbind acc (\<lambda>fractions.
             if tot = 0 then Inl ZeroDivisionError
             else if map_of fractions key = None then Inl (KeyError key)
             else Inr (al_set key (fdiv ar (loading_absolute_average val) tot) fractions)))
     xs (Inr fr) = Inr fr' \<Longrightarrow>
   distinct (map fst xs) \<Longrightarrow>
   map_of fr' n =
     (case map_of xs n of
        Some a \<Rightarrow> Some (fdiv ar (loading_absolute_average a) tot)
      | None \<Rightarrow> map_of fr n)"
proof (induction xs arbitrary: fr)
  case Nil
  then show ?case by simp
next
  case (Cons kv xs)
  obtain k v where kv: "kv = (k, v)" by (cases kv)
  let ?f = "\<lambda>(key, val) acc.
           sbind acc (\<lambda>fractions.
             if tot = 0 then Inl ZeroDivisionError
             else if map_of fractions key = None then Inl (KeyError key)
             else Inr (al_set key (fdiv ar (loading_absolute_average val) tot) fractions))"
  have ok: "?f (k, v) (Inr fr) = Inr (al_set k (fdiv ar (loading_absolute_average v) tot) fr)"
  proof (cases "?f (k, v) (Inr fr)")
    case (Inl e)
    with Cons.prems(1) show ?thesis
      by (simp add: kv fold_molfraction_Inl)
  next
    case (Inr fr1)
    then show ?thesis by (auto simp: sbind_def split: if_splits)
  qed
  have r: "fold ?f xs (Inr (al_set k (fdiv ar (loading_absolute_average v) tot) fr)) = Inr fr'"
    using Cons.prems(1) ok by (simp add: kv)
  from Cons.prems(2) have d: "distinct (map fst xs)" and nk: "map_of xs k = None"
    by (simp_all add: kv map_of_eq_None_iff)
  from Cons.IH[OF r d] nk show ?case
    by (cases "n = k") (simp_all add: kv map_of_al_set split: option.splits)
qed

lemma update_gcmc_inputs_desorption_fraction:
  assumes "update_gcmc_inputs_desorption ar sk fr ads = Inr fr'"
    and "map_of ads sk = Some sys"
    and "distinct (map fst (components sys))"
    and "map_of (components sys) n = Some a"
  shows "map_of fr' n =
           Some (fdiv ar (loading_absolute_average a)
                   (fsum ar (map (\<lambda>(key, val). loading_absolute_average val) (components sys))))"
proof -
  from assms(1,2) have
    "fold (\<lambda>(key, val) acc.
           sbind acc (\<lambda>fractions.
             if fsum ar (map (\<lambda>(key, val). loading_absolute_average val) (components sys)) = 0
             then Inl ZeroDivisionError
             else if map_of fractions key = None then Inl (KeyError key)
             else Inr (al_set key (fdiv ar (loading_absolute_average val)
                    (fsum ar (map (\<lambda>(key, val). loading_absolute_average val) (components sys))))
                    fractions)))
     (components sys) (Inr fr) = Inr fr'"
    by (simp add: update_gcmc_inputs_desorption_def al_get_def sbind_def Let_def)
  from fold_molfraction[OF this assms(3), of n] assms(4) show ?thesis by simp
qed

lemma add_loadings_components:
  "add_loadings ar ks ads des cs out = Inr out' \<Longrightarrow>
   \<forall>c\<in>set cs. \<exists>a. component_of ads ks (comp_name c) = Inr a"
proof (induction cs arbitrary: out)
  case Nil
  then show ?case by simp
next
  case (Cons c cs)
  from Cons.prems obtain a out1 where
    a: "component_of ads ks (comp_name c) = Inr a"
    and r: "add_loadings ar ks ads des cs out1 = Inr out'"
    by (auto simp: sbind_def split: sum.splits)
  from Cons.IH[OF r] a show ?case by simp
qed

lemma mc_get_output_parameters_components:
  assumes "mc_get_output_parameters ar cond comps z ads des = Inr out"
    and "list_get (map fst ads) 0 = Inr ks"
  shows "\<forall>c\<in>set comps. \<exists>a. component_of ads ks (comp_name c) = Inr a"
proof -
  from assms obtain out1 out2 where "add_loadings ar ks ads des comps out1 = Inr out2"
    unfolding mc_get_output_parameters_def
    by (auto simp: sbind_def Let_def split: sum.splits)
  then show ?thesis by (rule add_loadings_components)
qed

lemmas mc_eval_defs =
  multicomp_workchain_def should_run_zeopp_def update_gcmc_inputs_desorption_def
  mc_get_output_parameters_def component_of_def al_get_def list_get_def al_append_def
  dict_keys_def conv_load_of_def sbind_def Let_def
  example_mc_inputs_def example_mc_world_def example_mc_components_def example_gcmc_out_def
  example_component_def sampler_mol_def binary64_fields round64_small_values

lemma example_mc_output:
  "\<exists>out. mc_get_output_parameters binary64 (conditions example_mc_inputs) (map snd example_mc_components)
            Map.empty (example_gcmc_out 3 1) (example_gcmc_out 1 (1 / 2)) = Inr out \<and>
     out_loading_absolute_average out = [(''Xe'', [3, 1]), (''Kr'', [1, 1 / 2])]"
  by (simp add: mc_eval_defs)

lemma example_mc_run:
  "\<exists>res. multicomp_workchain binary64 example_mc_inputs example_mc_world = Inr res"
  by (simp add: mc_eval_defs)

text \<open>
  Claim C8. In a finished run whose adsorption output has the single system \<open>ks\<close>, for every
  component \<open>c\<close>: the \<^verbatim>\<open>MolFraction\<close> submitted to the desorption job is the component's
  adsorption loading divided by the sum of the adsorption loadings of all components of that
  output, and the desorption entry (the second one) of its \<^verbatim>\<open>composition\<close> list in the output
  record is its converted adsorption loading divided by the sum of the converted adsorption
  loadings over the component names. Neither formula reads the desorption output. Product,
  quotient and sum are the ones of the arithmetic, in the order in which the code applies them.
\<close>

theorem desorption_composition_from_adsorption:
  assumes "multicomp_workchain ar inp w = Inr res"
    and "c \<in> set (map snd (mc_components inp))"
    and "ads_job w (ads_molfractions res) = [(ks, sys)]"
    and "distinct (map fst (components sys))"
  shows "\<exists>a l. map_of (components sys) (comp_name c) = Some a \<and>
      map_of (des_molfractions res) (comp_name c) =
        Some (fdiv ar (loading_absolute_average a)
                (fsum ar (map (\<lambda>(key, val). loading_absolute_average val) (components sys)))) \<and>
      map_of (out_composition (mc_output_parameters res)) (comp_name c) = Some l \<and>
      2 \<le> length l \<and>
      l ! 1 = fdiv ar (fmul ar (conv_load_of ks a) (loading_absolute_average a))
                (fsum ar (map (ads_loading ar ks [(ks, sys)])
                            (dict_keys (map comp_name (map snd (mc_components inp))))))"
proof -
  let ?comps = "map snd (mc_components inp)"
  let ?sk = "if has_structure inp then ''framework_1'' else ''box_1''"
  from assms(1) obtain fa fd zo out where
    res: "res = \<lparr>ads_molfractions = fa, des_molfractions = fd,
                 mc_submitted = (if should_run_zeopp inp then map zeopp_label ?comps else []) @
                   [''RaspaGCMC_Ads'', ''RaspaGCMC_Des''],
                 mc_output_parameters = out\<rparr>"
    and u: "update_gcmc_inputs_desorption ar ?sk fa (ads_job w fa) = Inr fd"
    and g: "mc_get_output_parameters ar (conditions inp) ?comps zo (ads_job w fa) (des_job w fd) = Inr out"
    unfolding multicomp_workchain_def
    by (auto simp: sbind_def Let_def split: sum.splits if_splits)
  have ads: "ads_job w fa = [(ks, sys)]" using assms(3) by (simp add: res)
  have k: "list_get (map fst (ads_job w fa)) 0 = Inr ks" by (simp add: ads list_get_def)
  from mc_get_output_parameters_components[OF g k] assms(2) obtain a where
    "component_of (ads_job w fa) ks (comp_name c) = Inr a" by blast
  then have a: "map_of (components sys) (comp_name c) = Some a"
    by (simp add: ads component_of_def al_get_def sbind_def split: option.splits)
  have al: "ads_loading ar ks [(ks, sys)] (comp_name c) =
            fmul ar (conv_load_of ks a) (loading_absolute_average a)"
    using a by (simp add: ads_loading_def component_of_def al_get_def sbind_def)
  from u have sk: "map_of (ads_job w fa) ?sk = Some sys"
    by (auto simp: update_gcmc_inputs_desorption_def al_get_def sbind_def ads
        split: option.splits if_splits)
  note f = update_gcmc_inputs_desorption_fraction[OF u sk assms(4) a]
  from mc_get_output_parameters_inv[OF g] k assms(2) obtain l la where
    l: "map_of (out_composition out) (comp_name c) = Some l" "2 \<le> length l"
      "hd la = ads_loading ar ks (ads_job w fa) (comp_name c)"
      "l ! 1 = fdiv ar (hd la)
                 (fsum ar (map (\<lambda>(k, l). hd l) (out_loading_absolute_average out)))"
    by (auto simp del: list_get_0)
  have t: "map (\<lambda>(k, l). hd l) (out_loading_absolute_average out) =
           map (ads_loading ar ks (ads_job w fa)) (dict_keys (map comp_name ?comps))"
    by (rule mc_total_loading[OF g k])
  from a f l t al show ?thesis by (simp add: res ads)
qed

theorem desorption_composition_from_adsorption_witness:
  "\<exists>res l. multicomp_workchain binary64 example_mc_inputs example_mc_world = Inr res \<and>
     map_of (des_molfractions res) ''Xe'' = Some (3 / 4) \<and>
     map_of (out_composition (mc_output_parameters res)) ''Xe'' = Some l \<and>
     l ! 1 = 3 / 4"
proof -
  from example_mc_run obtain res where
    r: "multicomp_workchain binary64 example_mc_inputs example_mc_world = Inr res" by blast
  let ?sys = "\<lparr>components = [(''Xe'', example_component 3), (''Kr'', example_component 1)],
        general = \<lparr>enthalpy_of_adsorption_average = None, enthalpy_of_adsorption_dev = None\<rparr>\<rparr>"
  have c: "\<lparr>comp_name = ''Xe'', molfraction = 1 / 4\<rparr> \<in> set (map snd (mc_components example_mc_inputs))"
    by (simp add: example_mc_inputs_def example_mc_components_def)
  have a: "ads_job example_mc_world (ads_molfractions res) = [(''framework_1'', ?sys)]"
    by (simp add: example_mc_world_def example_gcmc_out_def)
  have d: "distinct (map fst (components ?sys))" by simp
  from desorption_composition_from_adsorption[OF r c a d] r show ?thesis
    by (auto simp: ads_loading_def mc_eval_defs)
qed

lemma sum_list_divide_const:
  "sum_list (map (\<lambda>x. f x / (c::real)) xs) = sum_list (map f xs) / c"
  by (induction xs) (simp_all add: add_divide_distrib)

lemma sum_list_relative_error:
  fixes f g :: "'a \<Rightarrow> real"
  assumes "\<forall>x\<in>set xs. \<bar>f x - g x\<bar> \<le> u * g x"
  shows "\<bar>sum_list (map f xs) - sum_list (map g xs)\<bar> \<le> u * sum_list (map g xs)"
  using assms
proof (induction xs)
  case Nil
  then show ?case by simp
next
  case (Cons x xs)
  then have a: "\<bar>f x - g x\<bar> \<le> u * g x"
    and b: "\<bar>sum_list (map f xs) - sum_list (map g xs)\<bar> \<le> u * sum_list (map g xs)"
    by simp_all
  have "\<bar>(f x + sum_list (map f xs)) - (g x + sum_list (map g xs))\<bar> \<le>
        \<bar>f x - g x\<bar> + \<bar>sum_list (map f xs) - sum_list (map g xs)\<bar>"
    by linarith
  also have "\<dots> \<le> u * g x + u * sum_list (map g xs)" using a b by (rule add_mono)
  finally show ?case by (simp add: algebra_simps)
qed

text \<open>
  The desorption compositions of a finished record are the adsorption loadings of the record,
  each divided by their total, in the same order.
\<close>

lemma desorption_compositions_values:
  assumes "mc_get_output_parameters ar cond comps z ads des = Inr out"
  shows "map (\<lambda>(n, l). l ! 1) (out_composition out) =
         map (\<lambda>x. fdiv ar x (fsum ar (map (\<lambda>(n, l). hd l) (out_loading_absolute_average out))))
           (map (\<lambda>(n, l). hd l) (out_loading_absolute_average out))"
proof -
  let ?avg = "out_loading_absolute_average out"
  let ?comp = "out_composition out"
  let ?keys = "dict_keys (map comp_name comps)"
  let ?T = "fsum ar (map (\<lambda>(n, l). hd l) ?avg)"
  from mc_get_output_parameters_inv[OF assms(1)] have
    kc: "map fst ?comp = ?keys" and ka: "map fst ?avg = ?keys"
    and v: "\<forall>n\<in>set (map comp_name comps).
        \<exists>l la. map_of ?comp n = Some l \<and> map_of ?avg n = Some la \<and> l ! 1 = fdiv ar (hd la) ?T"
    by auto
  have dc: "distinct (map fst ?comp)" and da: "distinct (map fst ?avg)"
    by (simp_all add: kc ka distinct_dict_keys)
  have "map (\<lambda>(n, l). l ! 1) ?comp = map (\<lambda>n. the (map_of ?comp n) ! 1) ?keys"
    using values_via_keys[OF dc, of "\<lambda>l. l ! 1"] by (simp add: kc)
  also have "\<dots> = map (\<lambda>n. fdiv ar (hd (the (map_of ?avg n))) ?T) ?keys"
    using v by (intro map_cong) (auto simp: set_dict_keys)
  also have "\<dots> = map (\<lambda>x. fdiv ar x ?T) (map (\<lambda>n. hd (the (map_of ?avg n))) ?keys)"
    by (simp add: comp_def)
  also have "map (\<lambda>n. hd (the (map_of ?avg n))) ?keys = map (\<lambda>(n, l). hd l) ?avg"
    using values_via_keys[OF da, of hd] by (simp add: ka)
  finally show ?thesis .
qed

lemma round64_sixth: "round64 (1 / 6) = 6004799503160661 / 36028797018963968"
  by (simp add: round64_eval)

lemma six_components_output:
  "\<exists>out. mc_get_output_parameters binary64 (conditions example_mc_inputs) six_components Map.empty
            (six_gcmc_out 1) (six_gcmc_out (1 / 2)) = Inr out \<and>
     map (\<lambda>(n, l). hd l) (out_loading_absolute_average out) = [1, 1, 1, 1, 1, 1] \<and>
     map (\<lambda>(n, l). l ! 1) (out_composition out) =
       [6004799503160661 / 36028797018963968, 6004799503160661 / 36028797018963968,
        6004799503160661 / 36028797018963968, 6004799503160661 / 36028797018963968,
        6004799503160661 / 36028797018963968, 6004799503160661 / 36028797018963968]"
  by (simp add: mc_eval_defs six_components_def six_names_def six_gcmc_out_def round64_sixth)

text \<open>
  Claim C10, as stated, fails: the entries are quotients of doubles, each rounded, and their
  sum is 1 only up to rounding. With six components of adsorption loading 1 the total is 6,
  every desorption composition is \<^verbatim>\<open>1.0 / 6.0\<close>, the double \<open>6004799503160661 / 2\<^sup>5\<^sup>5\<close> just below
  \<open>1/6\<close>, and the six entries sum to \<open>1 - 2\<^sup>-\<^sup>5\<^sup>4\<close>; added as doubles, from left to right, they
  give \<^verbatim>\<open>0.9999999999999999\<close>.
\<close>

theorem desorption_composition_sum_counterexample:
  "adsorption_loadings
     (mc_get_output_parameters binary64 (conditions example_mc_inputs) six_components Map.empty
        (six_gcmc_out 1) (six_gcmc_out (1 / 2))) = Some [1, 1, 1, 1, 1, 1] \<and>
   fsum binary64 [1, 1, 1, 1, 1, 1] = 6 \<and>
   desorption_compositions
     (mc_get_output_parameters binary64 (conditions example_mc_inputs) six_components Map.empty
        (six_gcmc_out 1) (six_gcmc_out (1 / 2))) =
     Some [6004799503160661 / 36028797018963968, 6004799503160661 / 36028797018963968,
           6004799503160661 / 36028797018963968, 6004799503160661 / 36028797018963968,
           6004799503160661 / 36028797018963968, 6004799503160661 / 36028797018963968] \<and>
   sum_list [6004799503160661 / 36028797018963968, 6004799503160661 / 36028797018963968,
             6004799503160661 / 36028797018963968, 6004799503160661 / 36028797018963968,
             6004799503160661 / 36028797018963968, 6004799503160661 / 36028797018963968 :: real] =
     18014398509481983 / 18014398509481984 \<and>
   sum_list [6004799503160661 / 36028797018963968, 6004799503160661 / 36028797018963968,
             6004799503160661 / 36028797018963968, 6004799503160661 / 36028797018963968,
             6004799503160661 / 36028797018963968, 6004799503160661 / 36028797018963968 :: real] \<noteq> 1 \<and>
   fsum binary64
     [6004799503160661 / 36028797018963968, 6004799503160661 / 36028797018963968,
      6004799503160661 / 36028797018963968, 6004799503160661 / 36028797018963968,
      6004799503160661 / 36028797018963968, 6004799503160661 / 36028797018963968] =
     9007199254740991 / 9007199254740992"
proof -
  let ?r = "mc_get_output_parameters binary64 (conditions example_mc_inputs) six_components
              Map.empty (six_gcmc_out 1) (six_gcmc_out (1 / 2))"
  let ?s = "6004799503160661 / 36028797018963968 :: real"
  from six_components_output obtain out where
    "?r = Inr out \<and>
     map (\<lambda>(n, l). hd l) (out_loading_absolute_average out) = [1, 1, 1, 1, 1, 1] \<and>
     map (\<lambda>(n, l). l ! 1) (out_composition out) = [?s, ?s, ?s, ?s, ?s, ?s]" ..
  then have o: "?r = Inr out"
      "map (\<lambda>(n, l). hd l) (out_loading_absolute_average out) = [1, 1, 1, 1, 1, 1]"
      "map (\<lambda>(n, l). l ! 1) (out_composition out) = [?s, ?s, ?s, ?s, ?s, ?s]"
    by blast+
  have a: "adsorption_loadings ?r = Some [1, 1, 1, 1, 1, 1]"
    by (simp only: adsorption_loadings_def o sum.case)
  have b: "fsum binary64 [1, 1, 1, 1, 1, 1] = 6"
    by (simp add: binary64_fields round64_eval)
  have c: "desorption_compositions ?r = Some [?s, ?s, ?s, ?s, ?s, ?s]"
    by (simp only: desorption_compositions_def o sum.case)
  have d: "sum_list [?s, ?s, ?s, ?s, ?s, ?s] = 18014398509481983 / 18014398509481984"
    by simp
  have e: "sum_list [?s, ?s, ?s, ?s, ?s, ?s] \<noteq> 1" by simp
  have f: "fsum binary64 [?s, ?s, ?s, ?s, ?s, ?s] = 9007199254740991 / 9007199254740992"
    by (simp add: binary64_fields round64_eval)
  from a b c d e f show ?thesis by (simp only: simp_thms)
qed

text \<open>
  Claim C10, amended, for any arithmetic. In the output record of the multi-component work
  chain, when the adsorption loadings (the first entries of the \<^verbatim>\<open>loading_absolute_average\<close>
  lists) have a positive total, the desorption entries (the second entries) of the
  \<^verbatim>\<open>composition\<close> lists sum to 1 up to rounding, for any number of components: if the computed
  total is within the relative error \<open>v < 1\<close> of the exact total, and each computed quotient is
  within the relative error \<open>u\<close> of the exact quotient, then the sum of the entries differs from 1
  by at most \<open>(u + v) / (1 - v)\<close>. The sum is exactly 1 where nothing is rounded (\<open>u = v = 0\<close>).
\<close>

theorem desorption_composition_sums_to_one:
  assumes "mc_get_output_parameters ar cond comps z ads des = Inr out"
    and "loads = map (\<lambda>(n, l). hd l) (out_loading_absolute_average out)"
    and "0 < sum_list loads"
    and "v < 1"
    and "\<bar>fsum ar loads - sum_list loads\<bar> \<le> v * sum_list loads"
    and "\<forall>x\<in>set loads. \<bar>fdiv ar x (fsum ar loads) - x / fsum ar loads\<bar> \<le> u * (x / fsum ar loads)"
  shows "\<bar>sum_list (map (\<lambda>(n, l). l ! 1) (out_composition out)) - 1\<bar> \<le> (u + v) / (1 - v)"
proof -
  let ?S = "sum_list loads"
  let ?T = "fsum ar loads"
  let ?C = "sum_list (map (\<lambda>(n, l). l ! 1) (out_composition out))"
  have v0: "0 \<le> v"
  proof -
    have "0 \<le> v * ?S" using assms(5) by linarith
    with assms(3) show ?thesis by (simp add: zero_le_mult_iff)
  qed
  have T: "(1 - v) * ?S \<le> ?T" using assms(5) by (simp add: algebra_simps abs_le_iff)
  have "0 < (1 - v) * ?S" using assms(3,4) by simp
  with T have Tpos: "0 < ?T" by linarith
  have C: "?C = sum_list (map (\<lambda>x. fdiv ar x ?T) loads)"
    using desorption_compositions_values[OF assms(1)] by (simp add: assms(2))
  have "\<bar>sum_list (map (\<lambda>x. fdiv ar x ?T) loads) - sum_list (map (\<lambda>x. x / ?T) loads)\<bar> \<le>
        u * sum_list (map (\<lambda>x. x / ?T) loads)"
    using assms(6) by (rule sum_list_relative_error)
  then have e1: "\<bar>?C - ?S / ?T\<bar> \<le> u * (?S / ?T)"
    using sum_list_divide_const[of "\<lambda>x. x" ?T loads] unfolding C by simp
  have q: "0 < ?S / ?T" using assms(3) Tpos by simp
  have u0: "0 \<le> u"
  proof (rule ccontr)
    assume "\<not> 0 \<le> u"
    then have "u * (?S / ?T) < 0" using q by (intro mult_neg_pos) simp_all
    with e1 show False by linarith
  qed
  have "?S / ?T - 1 = (?S - ?T) / ?T" using Tpos by (simp add: field_simps)
  then have "\<bar>?S / ?T - 1\<bar> = \<bar>?S - ?T\<bar> / ?T" using Tpos by (simp add: abs_divide)
  also have "\<dots> \<le> v * ?S / ?T"
    using assms(5) Tpos by (intro divide_right_mono) (simp_all add: abs_minus_commute)
  finally have e2: "\<bar>?S / ?T - 1\<bar> \<le> v * (?S / ?T)" by simp
  have r: "?S / ?T \<le> 1 / (1 - v)"
  proof -
    have "?S * (1 - v) \<le> ?T * 1" using T by (simp add: algebra_simps)
    then show ?thesis using Tpos assms(4) by (simp add: field_simps)
  qed
  have "\<bar>?C - 1\<bar> \<le> \<bar>?C - ?S / ?T\<bar> + \<bar>?S / ?T - 1\<bar>" by linarith
  also have "\<dots> \<le> u * (?S / ?T) + v * (?S / ?T)" using e1 e2 by (rule add_mono)
  also have "\<dots> = (u + v) * (?S / ?T)" by (simp only: distrib_right)
  also have "\<dots> \<le> (u + v) * (1 / (1 - v))"
    using r u0 v0 by (intro mult_left_mono) simp_all
  finally show ?thesis by simp
qed

theorem desorption_composition_sums_to_one_witness:
  "\<exists>out. mc_get_output_parameters binary64 (conditions example_mc_inputs) six_components Map.empty
            (six_gcmc_out 1) (six_gcmc_out (1 / 2)) = Inr out \<and>
     sum_list (map (\<lambda>(n, l). hd l) (out_loading_absolute_average out)) = 6 \<and>
     \<bar>sum_list (map (\<lambda>(n, l). l ! 1) (out_composition out)) - 1\<bar> \<le> 1 / 2 ^ 53"
proof -
  let ?s = "6004799503160661 / 36028797018963968 :: real"
  from six_components_output obtain out where
    "mc_get_output_parameters binary64 (conditions example_mc_inputs) six_components Map.empty
       (six_gcmc_out 1) (six_gcmc_out (1 / 2)) = Inr out \<and>
     map (\<lambda>(n, l). hd l) (out_loading_absolute_average out) = [1, 1, 1, 1, 1, 1] \<and>
     map (\<lambda>(n, l). l ! 1) (out_composition out) = [?s, ?s, ?s, ?s, ?s, ?s]" ..
  then have o: "mc_get_output_parameters binary64 (conditions example_mc_inputs) six_components
        Map.empty (six_gcmc_out 1) (six_gcmc_out (1 / 2)) = Inr out"
      "map (\<lambda>(n, l). hd l) (out_loading_absolute_average out) = [1, 1, 1, 1, 1, 1]"
    by blast+
  have t: "fsum binary64 [1, 1, 1, 1, 1, 1] = 6"
    by (simp add: binary64_fields round64_eval)
  have h3: "0 < sum_list [1, 1, 1, 1, 1, 1 :: real]" by simp
  have h5: "\<bar>fsum binary64 [1, 1, 1, 1, 1, 1] - sum_list [1, 1, 1, 1, 1, 1]\<bar> \<le>
            0 * sum_list [1, 1, 1, 1, 1, 1]"
    by (simp add: t)
  have h6: "\<forall>x\<in>set [1, 1, 1, 1, 1, 1].
             \<bar>fdiv binary64 x (fsum binary64 [1, 1, 1, 1, 1, 1]) - x / fsum binary64 [1, 1, 1, 1, 1, 1]\<bar>
             \<le> (1 / 2 ^ 53) * (x / fsum binary64 [1, 1, 1, 1, 1, 1])"
    by (simp only: t) (simp add: binary64_fields round64_sixth)
  from desorption_composition_sums_to_one[OF o(1) o(2)[symmetric] h3 _ h5 h6]
  have "\<bar>sum_list (map (\<lambda>(n, l). l ! 1) (out_composition out)) - 1\<bar> \<le> (1 / 2 ^ 53 + 0) / (1 - 0)"
    by simp
  with o show ?thesis by (intro exI[of _ out]) simp
qed

end
